theory Spec2Isabelle
  imports
    Complex_Main
    "HOL-Library.Char_ord"
    "HOL-Library.List_Lexorder"
    "HOL-Library.Sublist"
    "HOL-Library.Word"
begin

section \<open>Values shared by the components\<close>

text \<open>
  Python exceptions that the modelled code can raise. A function that can raise returns
  \<open>py_error + 'a\<close>, with \<open>Inl\<close> for the exception.
\<close>

datatype py_error =
    AttributeError
  | TypeError
  | ValueError
  | IntegrityError
  | JSONDecodeError
  | NoFixError

text \<open>
  A \<open>datetime\<close> object is represented by the text that its \<open>isoformat()\<close> method
  returns.
\<close>

datatype datetime = Datetime (isoformat: string)

text \<open>
  A dataclass field whose annotation names a class (\<open>DeviceType\<close>, \<open>datetime\<close>) but
  which Python does not check: it holds an object of the class, or the string that
  \<open>json.loads\<close> produced when the dataclass was rebuilt from a buffered JSON line.
\<close>

datatype 'a pyfield = Typed 'a | JsonStr string

subsection \<open>JSON values and \<open>json.dumps\<close>\<close>

text \<open>
  JSON values as Python builds them from \<open>dict\<close>, \<open>list\<close>, \<open>str\<close>, \<open>int\<close>, \<open>bool\<close> and
  \<open>None\<close>. A \<open>dict\<close> is an association list in insertion order. Strings are
  sequences of code points below 256.
\<close>

datatype json =
    JNull
  | JBool bool
  | JInt int
  | JStr string
  | JList "json list"
  | JDict "(string \<times> json) list"

definition hex_digit :: "nat \<Rightarrow> char" where
  "hex_digit n = ''0123456789abcdef'' ! (n mod 16)"

definition dec_digit :: "nat \<Rightarrow> char" where
  "dec_digit n = ''0123456789'' ! (n mod 10)"

fun str_nat :: "nat \<Rightarrow> string" where
  "str_nat n = (if n < 10 then [dec_digit n] else str_nat (n div 10) @ [dec_digit n])"

declare str_nat.simps [simp del]

definition py_str_int :: "int \<Rightarrow> string" where
  "py_str_int i = (if i < 0 then CHR ''-'' # str_nat (nat (- i)) else str_nat (nat i))"

definition json_escape_char :: "char \<Rightarrow> string" where
  "json_escape_char c =
     (if c = CHR 0x22 then [CHR 0x5C, CHR 0x22]
      else if c = CHR 0x5C then [CHR 0x5C, CHR 0x5C]
      else if c = CHR 0x0A then [CHR 0x5C, CHR ''n'']
      else if c = CHR 0x0D then [CHR 0x5C, CHR ''r'']
      else if c = CHR 0x09 then [CHR 0x5C, CHR ''t'']
      else if c = CHR 0x08 then [CHR 0x5C, CHR ''b'']
      else if c = CHR 0x0C then [CHR 0x5C, CHR ''f'']
      else if (of_char c :: nat) < 32 \<or> 126 < (of_char c :: nat) then
        [CHR 0x5C, CHR ''u'', CHR ''0'', CHR ''0'',
         hex_digit (of_char c div 16), hex_digit (of_char c)]
      else [c])"

definition json_encode_str :: "string \<Rightarrow> string" where
  "json_encode_str s = CHR 0x22 # concat (map json_escape_char s) @ [CHR 0x22]"

fun join_str :: "string \<Rightarrow> string list \<Rightarrow> string" where
  "join_str sep [] = []"
| "join_str sep [x] = x"
| "join_str sep (x # y # ys) = x @ sep @ join_str sep (y # ys)"

text \<open>
  \<open>json.dumps(v, sort_keys=sk)\<close> with the default separators and \<open>ensure_ascii\<close>.
\<close>

fun json_dumps :: "bool \<Rightarrow> json \<Rightarrow> string" where
  "json_dumps sk JNull = ''null''"
| "json_dumps sk (JBool b) = (if b then ''true'' else ''false'')"
| "json_dumps sk (JInt i) = py_str_int i"
| "json_dumps sk (JStr s) = json_encode_str s"
| "json_dumps sk (JList xs) = ''['' @ join_str '', '' (map (json_dumps sk) xs) @ '']''"
| "json_dumps sk (JDict kvs) =
     (let items = map (\<lambda>kv. (fst kv, json_dumps sk (snd kv))) kvs;
          ordered = (if sk then sort_key fst items else items)
      in ''{'' @ join_str '', '' (map (\<lambda>kr. json_encode_str (fst kr) @ '': '' @ snd kr) ordered)
         @ ''}'')"

text \<open>Python's truth value of a JSON-like object.\<close>

fun truthy :: "json \<Rightarrow> bool" where
  "truthy JNull = False"
| "truthy (JBool b) = b"
| "truthy (JInt i) = (i \<noteq> 0)"
| "truthy (JStr s) = (s \<noteq> [])"
| "truthy (JList xs) = (xs \<noteq> [])"
| "truthy (JDict kvs) = (kvs \<noteq> [])"

section \<open>The store: \<open>core/models.py\<close> and \<open>core/database.py\<close>\<close>

subsection \<open>Dataclasses\<close>

datatype device_type = AP | CLIENT | BRIDGE | ADHOC | UNKNOWN

fun device_type_value :: "device_type \<Rightarrow> string" where
  "device_type_value AP = ''ap''"
| "device_type_value CLIENT = ''client''"
| "device_type_value BRIDGE = ''bridge''"
| "device_type_value ADHOC = ''adhoc''"
| "device_type_value UNKNOWN = ''unknown''"

datatype bt_device_type = BT_CLASSIC | BT_BLE | BT_DUAL | BT_UNKNOWN

fun bt_device_type_value :: "bt_device_type \<Rightarrow> string" where
  "bt_device_type_value BT_CLASSIC = ''classic''"
| "bt_device_type_value BT_BLE = ''ble''"
| "bt_device_type_value BT_DUAL = ''dual''"
| "bt_device_type_value BT_UNKNOWN = ''unknown''"

datatype scan_status = RUNNING | STOPPED | ERROR | STARTING | STOPPING

fun scan_status_value :: "scan_status \<Rightarrow> string" where
  "scan_status_value RUNNING = ''running''"
| "scan_status_value STOPPED = ''stopped''"
| "scan_status_value ERROR = ''error''"
| "scan_status_value STARTING = ''starting''"
| "scan_status_value STOPPING = ''stopping''"

text \<open>\<open>ScanSession\<close>. Python floats are modelled as reals throughout.\<close>

record scan_session =
  ss_session_id :: string
  ss_start_time :: datetime
  ss_end_time :: "datetime option"
  ss_status :: "scan_status pyfield"
  ss_property_id :: "string option"
  ss_operator :: "string option"
  ss_scan_type :: string
  ss_notes :: "string option"
  ss_node_id :: "string option"
  ss_swarm_session_id :: "string option"
  ss_wifi_device_count :: int
  ss_bt_device_count :: int

text \<open>\<open>WiFiDevice\<close>.\<close>

record wifi_device =
  wd_device_key :: string
  wd_bssid :: string
  wd_essid :: "string option"
  wd_device_type :: "device_type pyfield"
  wd_channel :: "int option"
  wd_frequency :: "int option"
  wd_signal_dbm :: "int option"
  wd_encryption :: "string option"
  wd_manufacturer :: "string option"
  wd_packets_total :: int
  wd_first_seen :: "datetime pyfield"
  wd_last_seen :: "datetime pyfield"
  wd_gps_lat :: "real option"
  wd_gps_lon :: "real option"
  wd_gps_alt :: "real option"
  wd_gps_valid :: bool
  wd_fingerprint_hash :: "string option"
  wd_fingerprint_data :: "(string \<times> json) list option"
  wd_is_known :: bool
  wd_identified_as :: "string option"
  wd_session_id :: "string option"
  wd_is_duplicate :: bool
  wd_duplicate_of_id :: "int option"
  wd_seen_by_nodes :: "string list"

text \<open>\<open>BTDevice\<close>.\<close>

record bt_device =
  bd_device_key :: string
  bd_mac_address :: string
  bd_device_name :: "string option"
  bd_device_type :: "bt_device_type pyfield"
  bd_device_class :: "string option"
  bd_rssi :: "int option"
  bd_manufacturer :: "string option"
  bd_service_uuids :: "string list"
  bd_first_seen :: "datetime pyfield"
  bd_last_seen :: "datetime pyfield"
  bd_gps_lat :: "real option"
  bd_gps_lon :: "real option"
  bd_gps_alt :: "real option"
  bd_gps_valid :: bool
  bd_fingerprint_hash :: "string option"
  bd_fingerprint_data :: "(string \<times> json) list option"
  bd_is_known :: bool
  bd_identified_as :: "string option"
  bd_session_id :: "string option"
  bd_is_duplicate :: bool
  bd_duplicate_of_id :: "int option"
  bd_seen_by_nodes :: "string list"

text \<open>\<open>FingerprintSignature\<close>.\<close>

record fingerprint_signature =
  fs_fingerprint_hash :: string
  fs_device_type :: string
  fs_device_model :: "string option"
  fs_os_version :: "string option"
  fs_confidence :: real
  fs_identifiers :: "(string \<times> json) list"
  fs_first_seen :: datetime
  fs_times_seen :: int
  fs_notes :: "string option"

text \<open>
  \<open>x.value\<close> and \<open>x.isoformat()\<close> on a field that may hold a plain string: a \<open>str\<close> has
  neither attribute.
\<close>

fun attr_value :: "('a \<Rightarrow> string) \<Rightarrow> 'a pyfield \<Rightarrow> py_error + string" where
  "attr_value val (Typed x) = Inr (val x)"
| "attr_value val (JsonStr s) = Inl AttributeError"

fun attr_isoformat :: "datetime pyfield \<Rightarrow> py_error + string" where
  "attr_isoformat (Typed t) = Inr (isoformat t)"
| "attr_isoformat (JsonStr s) = Inl AttributeError"

text \<open>
  \<open>WiFiDevice.to_dict\<close> and \<open>BTDevice.to_dict\<close>. The dict has one entry for every
  dataclass field but \<open>duplicate_of_id\<close>; it is represented by the record of the fields,
  where \<open>device_type\<close>, \<open>first_seen\<close> and \<open>last_seen\<close> hold the strings that \<open>.value\<close> and
  \<open>.isoformat()\<close> returned.
\<close>

definition WiFiDevice_to_dict :: "wifi_device \<Rightarrow> py_error + wifi_device" where
  "WiFiDevice_to_dict d =
     (case attr_value device_type_value (wd_device_type d) of
        Inl e \<Rightarrow> Inl e
      | Inr ty \<Rightarrow>
     (case attr_isoformat (wd_first_seen d) of
        Inl e \<Rightarrow> Inl e
      | Inr fs \<Rightarrow>
     (case attr_isoformat (wd_last_seen d) of
        Inl e \<Rightarrow> Inl e
      | Inr ls \<Rightarrow>
          Inr (d\<lparr>wd_device_type := JsonStr ty, wd_first_seen := JsonStr fs,
                 wd_last_seen := JsonStr ls, wd_duplicate_of_id := None\<rparr>))))"

definition BTDevice_to_dict :: "bt_device \<Rightarrow> py_error + bt_device" where
  "BTDevice_to_dict d =
     (case attr_value bt_device_type_value (bd_device_type d) of
        Inl e \<Rightarrow> Inl e
      | Inr ty \<Rightarrow>
     (case attr_isoformat (bd_first_seen d) of
        Inl e \<Rightarrow> Inl e
      | Inr fs \<Rightarrow>
     (case attr_isoformat (bd_last_seen d) of
        Inl e \<Rightarrow> Inl e
      | Inr ls \<Rightarrow>
          Inr (d\<lparr>bd_device_type := JsonStr ty, bd_first_seen := JsonStr fs,
                 bd_last_seen := JsonStr ls, bd_duplicate_of_id := None\<rparr>))))"

text \<open>
  \<open>WiFiDevice(**data)\<close> and \<open>BTDevice(**data)\<close> for a dict that \<open>to_dict\<close> built: the
  generated constructor stores every value as it is, and \<open>duplicate_of_id\<close> takes its
  default.
\<close>

definition WiFiDevice_kwargs :: "wifi_device \<Rightarrow> wifi_device" where
  "WiFiDevice_kwargs dat = dat\<lparr>wd_duplicate_of_id := None\<rparr>"

definition BTDevice_kwargs :: "bt_device \<Rightarrow> bt_device" where
  "BTDevice_kwargs dat = dat\<lparr>bd_duplicate_of_id := None\<rparr>"

subsection \<open>Tables\<close>

text \<open>
  One record per table of \<open>SCHEMA\<close> that the modelled operations touch. A column that
  may be \<open>NULL\<close> is an \<open>option\<close>. \<open>DATETIME\<close> and \<open>JSON\<close> columns hold text.
\<close>

record session_row =
  s_id :: nat
  s_session_id :: string
  s_start_time :: string
  s_end_time :: "string option"
  s_status :: string
  s_property_id :: "string option"
  s_operator :: "string option"
  s_scan_type :: string
  s_notes :: "string option"
  s_node_id :: "string option"
  s_swarm_session_id :: "string option"
  s_wifi_device_count :: int
  s_bt_device_count :: int

record wifi_row =
  w_id :: nat
  w_session_id :: string
  w_device_key :: string
  w_bssid :: string
  w_essid :: "string option"
  w_device_type :: string
  w_channel :: "int option"
  w_frequency :: "int option"
  w_signal_dbm :: "int option"
  w_encryption :: "string option"
  w_manufacturer :: "string option"
  w_packets_total :: int
  w_first_seen :: string
  w_last_seen :: string
  w_gps_lat :: "real option"
  w_gps_lon :: "real option"
  w_gps_alt :: "real option"
  w_gps_valid :: bool
  w_fingerprint_hash :: "string option"
  w_fingerprint_data :: "string option"
  w_is_known :: bool
  w_identified_as :: "string option"
  w_is_duplicate :: bool
  w_duplicate_of_id :: "int option"
  w_seen_by_nodes :: string

record bt_row =
  b_id :: nat
  b_session_id :: string
  b_device_key :: string
  b_mac_address :: string
  b_device_name :: "string option"
  b_device_type :: string
  b_device_class :: "string option"
  b_rssi :: "int option"
  b_manufacturer :: "string option"
  b_service_uuids :: "string option"
  b_first_seen :: string
  b_last_seen :: string
  b_gps_lat :: "real option"
  b_gps_lon :: "real option"
  b_gps_alt :: "real option"
  b_gps_valid :: bool
  b_fingerprint_hash :: "string option"
  b_fingerprint_data :: "string option"
  b_is_known :: bool
  b_identified_as :: "string option"
  b_is_duplicate :: bool
  b_duplicate_of_id :: "int option"
  b_seen_by_nodes :: string

record gps_row =
  g_id :: nat
  g_session_id :: string
  g_timestamp :: string
  g_latitude :: "real option"
  g_longitude :: "real option"
  g_altitude :: "real option"
  g_speed :: "real option"
  g_track :: "real option"
  g_fix_quality :: int
  g_hdop :: "real option"
  g_satellites :: int

record sig_row =
  sg_id :: nat
  sg_fingerprint_hash :: string
  sg_device_type :: string
  sg_device_model :: "string option"
  sg_os_version :: "string option"
  sg_confidence :: real
  sg_identifiers :: string
  sg_first_seen :: string
  sg_times_seen :: "int option"
  sg_notes :: "string option"

text \<open>
  The database: every table is the list of its rows in rowid order, and \<open>seq_*\<close> is the
  largest rowid that \<open>AUTOINCREMENT\<close> has handed out for the table.
\<close>

record db =
  scan_sessions :: "session_row list"
  wifi_devices :: "wifi_row list"
  bt_devices :: "bt_row list"
  gps_track :: "gps_row list"
  fingerprint_signatures :: "sig_row list"
  seq_sessions :: nat
  seq_wifi :: nat
  seq_bt :: nat
  seq_gps :: nat
  seq_sig :: nat

text \<open>The database after \<open>initialize_schema\<close> on a new file.\<close>

definition initialize_schema :: db where
  "initialize_schema =
     \<lparr>scan_sessions = [], wifi_devices = [], bt_devices = [], gps_track = [],
      fingerprint_signatures = [], seq_sessions = 0, seq_wifi = 0, seq_bt = 0,
      seq_gps = 0, seq_sig = 0\<rparr>"

text \<open>SQL's \<open>COALESCE(?, column)\<close>.\<close>

definition coalesce :: "'a option \<Rightarrow> 'a option \<Rightarrow> 'a option" where
  "coalesce new old = (case new of Some v \<Rightarrow> Some v | None \<Rightarrow> old)"

text \<open>
  \<open>json.dumps(device.fingerprint_data) if device.fingerprint_data else None\<close>: an empty
  dict is false in Python.
\<close>

definition fingerprint_data_param :: "(string \<times> json) list option \<Rightarrow> string option" where
  "fingerprint_data_param fd =
     (case fd of
        None \<Rightarrow> None
      | Some kvs \<Rightarrow> if kvs = [] then None else Some (json_dumps False (JDict kvs)))"

definition dumps_str_list :: "string list \<Rightarrow> string" where
  "dumps_str_list xs = json_dumps False (JList (map JStr xs))"

text \<open>
  The foreign key \<open>session_id REFERENCES scan_sessions(session_id)\<close>, enforced because
  \<open>connect\<close> runs \<open>PRAGMA foreign_keys = ON\<close>.
\<close>

definition session_exists :: "db \<Rightarrow> string \<Rightarrow> bool" where
  "session_exists d sid = (\<exists>r \<in> set (scan_sessions d). s_session_id r = sid)"

subsection \<open>Sessions\<close>

text \<open>
  Every operation runs in \<open>with self.transaction()\<close>: an exception rolls back, so the
  result is either the exception or the committed database.
\<close>

definition status_param :: "scan_status pyfield \<Rightarrow> string" where
  "status_param st = (case st of Typed x \<Rightarrow> scan_status_value x | JsonStr x \<Rightarrow> x)"

definition create_session :: "scan_session \<Rightarrow> db \<Rightarrow> py_error + (nat \<times> db)" where
  "create_session session d =
     (if session_exists d (ss_session_id session) then Inl IntegrityError
      else
        let rid = Suc (seq_sessions d);
            row = \<lparr>s_id = rid,
                   s_session_id = ss_session_id session,
                   s_start_time = isoformat (ss_start_time session),
                   s_end_time = None,
                   s_status = status_param (ss_status session),
                   s_property_id = ss_property_id session,
                   s_operator = ss_operator session,
                   s_scan_type = ss_scan_type session,
                   s_notes = ss_notes session,
                   s_node_id = ss_node_id session,
                   s_swarm_session_id = ss_swarm_session_id session,
                   s_wifi_device_count = 0,
                   s_bt_device_count = 0\<rparr>
        in Inr (rid, d\<lparr>scan_sessions := scan_sessions d @ [row], seq_sessions := rid\<rparr>))"

text \<open>
  \<open>end_session(session_id, end_time)\<close>; \<open>now\<close> is what \<open>datetime.utcnow()\<close> returns when
  no end time is passed.
\<close>

definition end_session :: "datetime \<Rightarrow> string \<Rightarrow> datetime option \<Rightarrow> db \<Rightarrow> db" where
  "end_session now session_id end_time d =
     (let et = (case end_time of Some t \<Rightarrow> t | None \<Rightarrow> now)
      in d\<lparr>scan_sessions :=
             map (\<lambda>r. if s_session_id r = session_id
                       then r\<lparr>s_end_time := Some (isoformat et)\<rparr> else r)
                 (scan_sessions d)\<rparr>)"

definition update_session :: "scan_session \<Rightarrow> db \<Rightarrow> db" where
  "update_session session d =
     d\<lparr>scan_sessions :=
          map (\<lambda>r. if s_session_id r = ss_session_id session
                    then r\<lparr>s_end_time := map_option isoformat (ss_end_time session),
                           s_status := status_param (ss_status session),
                           s_wifi_device_count := ss_wifi_device_count session,
                           s_bt_device_count := ss_bt_device_count session\<rparr>
                    else r)
              (scan_sessions d)\<rparr>"

definition get_session :: "db \<Rightarrow> string \<Rightarrow> session_row option" where
  "get_session d session_id = find (\<lambda>r. s_session_id r = session_id) (scan_sessions d)"

subsection \<open>Wi-Fi and Bluetooth devices\<close>

text \<open>The \<open>UPDATE wifi_devices SET ... WHERE id = ?\<close> of \<open>_do_insert_wifi\<close>, on one row.\<close>

definition wifi_update_row :: "wifi_device \<Rightarrow> string \<Rightarrow> wifi_row \<Rightarrow> wifi_row" where
  "wifi_update_row device ls r =
     r\<lparr>w_essid := coalesce (wd_essid device) (w_essid r),
       w_channel := coalesce (wd_channel device) (w_channel r),
       w_frequency := coalesce (wd_frequency device) (w_frequency r),
       w_signal_dbm := wd_signal_dbm device,
       w_encryption := coalesce (wd_encryption device) (w_encryption r),
       w_packets_total := wd_packets_total device,
       w_last_seen := ls,
       w_gps_lat := wd_gps_lat device,
       w_gps_lon := wd_gps_lon device,
       w_gps_alt := wd_gps_alt device,
       w_gps_valid := wd_gps_valid device,
       w_fingerprint_hash := coalesce (wd_fingerprint_hash device) (w_fingerprint_hash r),
       w_fingerprint_data :=
         coalesce (fingerprint_data_param (wd_fingerprint_data device)) (w_fingerprint_data r)\<rparr>"

text \<open>The row that the \<open>INSERT INTO wifi_devices\<close> of \<open>_do_insert_wifi\<close> writes.\<close>

definition wifi_new_row ::
  "nat \<Rightarrow> string \<Rightarrow> wifi_device \<Rightarrow> string \<Rightarrow> string \<Rightarrow> string \<Rightarrow> wifi_row" where
  "wifi_new_row rid sid device ty fs ls =
     \<lparr>w_id = rid,
      w_session_id = sid,
      w_device_key = wd_device_key device,
      w_bssid = wd_bssid device,
      w_essid = wd_essid device,
      w_device_type = ty,
      w_channel = wd_channel device,
      w_frequency = wd_frequency device,
      w_signal_dbm = wd_signal_dbm device,
      w_encryption = wd_encryption device,
      w_manufacturer = wd_manufacturer device,
      w_packets_total = wd_packets_total device,
      w_first_seen = fs,
      w_last_seen = ls,
      w_gps_lat = wd_gps_lat device,
      w_gps_lon = wd_gps_lon device,
      w_gps_alt = wd_gps_alt device,
      w_gps_valid = wd_gps_valid device,
      w_fingerprint_hash = wd_fingerprint_hash device,
      w_fingerprint_data = fingerprint_data_param (wd_fingerprint_data device),
      w_is_known = wd_is_known device,
      w_identified_as = wd_identified_as device,
      w_is_duplicate = False,
      w_duplicate_of_id = None,
      w_seen_by_nodes = dumps_str_list (wd_seen_by_nodes device)\<rparr>"

text \<open>
  \<open>_do_insert_wifi\<close>. The parameter tuple is built before \<open>execute\<close> runs, so an
  \<open>AttributeError\<close> of \<open>.value\<close> or \<open>.isoformat()\<close> comes before any constraint of the
  table. \<open>session_id = NULL\<close> matches no row.
\<close>

definition do_insert_wifi :: "wifi_device \<Rightarrow> db \<Rightarrow> py_error + db" where
  "do_insert_wifi device d =
     (case find (\<lambda>r. Some (w_session_id r) = wd_session_id device
                      \<and> w_device_key r = wd_device_key device) (wifi_devices d) of
        Some existing \<Rightarrow>
          (case attr_isoformat (wd_last_seen device) of
             Inl e \<Rightarrow> Inl e
           | Inr ls \<Rightarrow>
               Inr (d\<lparr>wifi_devices :=
                        map (\<lambda>r. if w_id r = w_id existing
                                  then wifi_update_row device ls r else r)
                            (wifi_devices d)\<rparr>))
      | None \<Rightarrow>
          (case attr_value device_type_value (wd_device_type device) of
             Inl e \<Rightarrow> Inl e
           | Inr ty \<Rightarrow>
          (case attr_isoformat (wd_first_seen device) of
             Inl e \<Rightarrow> Inl e
           | Inr fs \<Rightarrow>
          (case attr_isoformat (wd_last_seen device) of
             Inl e \<Rightarrow> Inl e
           | Inr ls \<Rightarrow>
          (case wd_session_id device of
             None \<Rightarrow> Inl IntegrityError
           | Some sid \<Rightarrow>
               if \<not> session_exists d sid then Inl IntegrityError
               else
                 let rid = Suc (seq_wifi d)
                 in Inr (d\<lparr>wifi_devices :=
                             wifi_devices d @ [wifi_new_row rid sid device ty fs ls],
                           seq_wifi := rid\<rparr>))))))"

definition bt_update_row :: "bt_device \<Rightarrow> string \<Rightarrow> bt_row \<Rightarrow> bt_row" where
  "bt_update_row device ls r =
     r\<lparr>b_device_name := coalesce (bd_device_name device) (b_device_name r),
       b_device_class := coalesce (bd_device_class device) (b_device_class r),
       b_rssi := bd_rssi device,
       b_service_uuids :=
         coalesce (Some (dumps_str_list (bd_service_uuids device))) (b_service_uuids r),
       b_last_seen := ls,
       b_gps_lat := bd_gps_lat device,
       b_gps_lon := bd_gps_lon device,
       b_gps_alt := bd_gps_alt device,
       b_gps_valid := bd_gps_valid device,
       b_fingerprint_hash := coalesce (bd_fingerprint_hash device) (b_fingerprint_hash r),
       b_fingerprint_data :=
         coalesce (fingerprint_data_param (bd_fingerprint_data device)) (b_fingerprint_data r)\<rparr>"

definition bt_new_row ::
  "nat \<Rightarrow> string \<Rightarrow> bt_device \<Rightarrow> string \<Rightarrow> string \<Rightarrow> string \<Rightarrow> bt_row" where
  "bt_new_row rid sid device ty fs ls =
     \<lparr>b_id = rid,
      b_session_id = sid,
      b_device_key = bd_device_key device,
      b_mac_address = bd_mac_address device,
      b_device_name = bd_device_name device,
      b_device_type = ty,
      b_device_class = bd_device_class device,
      b_rssi = bd_rssi device,
      b_manufacturer = bd_manufacturer device,
      b_service_uuids = Some (dumps_str_list (bd_service_uuids device)),
      b_first_seen = fs,
      b_last_seen = ls,
      b_gps_lat = bd_gps_lat device,
      b_gps_lon = bd_gps_lon device,
      b_gps_alt = bd_gps_alt device,
      b_gps_valid = bd_gps_valid device,
      b_fingerprint_hash = bd_fingerprint_hash device,
      b_fingerprint_data = fingerprint_data_param (bd_fingerprint_data device),
      b_is_known = bd_is_known device,
      b_identified_as = bd_identified_as device,
      b_is_duplicate = False,
      b_duplicate_of_id = None,
      b_seen_by_nodes = dumps_str_list (bd_seen_by_nodes device)\<rparr>"

definition do_insert_bt :: "bt_device \<Rightarrow> db \<Rightarrow> py_error + db" where
  "do_insert_bt device d =
     (case find (\<lambda>r. Some (b_session_id r) = bd_session_id device
                      \<and> b_device_key r = bd_device_key device) (bt_devices d) of
        Some existing \<Rightarrow>
          (case attr_isoformat (bd_last_seen device) of
             Inl e \<Rightarrow> Inl e
           | Inr ls \<Rightarrow>
               Inr (d\<lparr>bt_devices :=
                        map (\<lambda>r. if b_id r = b_id existing
                                  then bt_update_row device ls r else r)
                            (bt_devices d)\<rparr>))
      | None \<Rightarrow>
          (case attr_value bt_device_type_value (bd_device_type device) of
             Inl e \<Rightarrow> Inl e
           | Inr ty \<Rightarrow>
          (case attr_isoformat (bd_first_seen device) of
             Inl e \<Rightarrow> Inl e
           | Inr fs \<Rightarrow>
          (case attr_isoformat (bd_last_seen device) of
             Inl e \<Rightarrow> Inl e
           | Inr ls \<Rightarrow>
          (case bd_session_id device of
             None \<Rightarrow> Inl IntegrityError
           | Some sid \<Rightarrow>
               if \<not> session_exists d sid then Inl IntegrityError
               else
                 let rid = Suc (seq_bt d)
                 in Inr (d\<lparr>bt_devices :=
                             bt_devices d @ [bt_new_row rid sid device ty fs ls],
                           seq_bt := rid\<rparr>))))))"

subsection \<open>GPS track and fingerprint signatures\<close>

definition insert_gps_point ::
  "datetime \<Rightarrow> string \<Rightarrow> real option \<Rightarrow> real option \<Rightarrow> real option \<Rightarrow> real option
   \<Rightarrow> real option \<Rightarrow> int \<Rightarrow> real option \<Rightarrow> int \<Rightarrow> datetime option \<Rightarrow> db \<Rightarrow> py_error + db" where
  "insert_gps_point now session_id lat lon alt speed track fix_quality hdop satellites
       timestamp d =
     (let ts = (case timestamp of Some t \<Rightarrow> t | None \<Rightarrow> now)
      in if \<not> session_exists d session_id then Inl IntegrityError
         else
           let rid = Suc (seq_gps d);
               row = \<lparr>g_id = rid, g_session_id = session_id, g_timestamp = isoformat ts,
                      g_latitude = lat, g_longitude = lon, g_altitude = alt,
                      g_speed = speed, g_track = track, g_fix_quality = fix_quality,
                      g_hdop = hdop, g_satellites = satellites\<rparr>
           in Inr (d\<lparr>gps_track := gps_track d @ [row], seq_gps := rid\<rparr>))"

text \<open>
  The row that \<open>insert_signature\<close> inserts: \<open>times_seen\<close> is not among the inserted
  columns and takes the column default 1.
\<close>

definition sig_new_row :: "nat \<Rightarrow> fingerprint_signature \<Rightarrow> sig_row" where
  "sig_new_row rid sig =
     \<lparr>sg_id = rid,
      sg_fingerprint_hash = fs_fingerprint_hash sig,
      sg_device_type = fs_device_type sig,
      sg_device_model = fs_device_model sig,
      sg_os_version = fs_os_version sig,
      sg_confidence = fs_confidence sig,
      sg_identifiers = json_dumps False (JDict (fs_identifiers sig)),
      sg_first_seen = isoformat (fs_first_seen sig),
      sg_times_seen = Some 1,
      sg_notes = fs_notes sig\<rparr>"

text \<open>\<open>insert_signature\<close>; \<open>None + 1\<close> is a \<open>TypeError\<close>.\<close>

definition insert_signature :: "fingerprint_signature \<Rightarrow> db \<Rightarrow> py_error + db" where
  "insert_signature sig d =
     (case find (\<lambda>r. sg_fingerprint_hash r = fs_fingerprint_hash sig)
             (fingerprint_signatures d) of
        Some existing \<Rightarrow>
          (case sg_times_seen existing of
             None \<Rightarrow> Inl TypeError
           | Some n \<Rightarrow>
               Inr (d\<lparr>fingerprint_signatures :=
                        map (\<lambda>r. if sg_id r = sg_id existing
                                  then r\<lparr>sg_times_seen := Some (n + 1)\<rparr> else r)
                            (fingerprint_signatures d)\<rparr>))
      | None \<Rightarrow>
          let rid = Suc (seq_sig d)
          in Inr (d\<lparr>fingerprint_signatures := fingerprint_signatures d @ [sig_new_row rid sig],
                    seq_sig := rid\<rparr>))"

definition get_signature :: "db \<Rightarrow> string \<Rightarrow> sig_row option" where
  "get_signature d fingerprint_hash =
     find (\<lambda>r. sg_fingerprint_hash r = fingerprint_hash) (fingerprint_signatures d)"

text \<open>Calling \<open>insert_signature\<close> once for every element of a list, in order.\<close>

fun insert_signatures :: "fingerprint_signature list \<Rightarrow> db \<Rightarrow> py_error + db" where
  "insert_signatures [] d = Inr d"
| "insert_signatures (sig # sigs) d =
     (case insert_signature sig d of Inl e \<Rightarrow> Inl e | Inr d' \<Rightarrow> insert_signatures sigs d')"

subsection \<open>Spatial query and statistics\<close>

text \<open>
  \<open>get_devices_near\<close>: the query reads \<open>wifi_devices\<close> only. A row whose latitude or
  longitude is \<open>NULL\<close> fails \<open>BETWEEN\<close>. \<open>if session_id:\<close> adds the session filter for a
  non-empty string. The result pairs every row with its \<open>dist_sq\<close> column.
\<close>

definition near_row ::
  "real \<Rightarrow> real \<Rightarrow> real \<Rightarrow> string option \<Rightarrow> wifi_row \<Rightarrow> (wifi_row \<times> real) option" where
  "near_row lat lon deg_radius session_id r =
     (case (w_gps_lat r, w_gps_lon r) of
        (Some la, Some lo) \<Rightarrow>
          if lat - deg_radius \<le> la \<and> la \<le> lat + deg_radius
             \<and> lon - deg_radius \<le> lo \<and> lo \<le> lon + deg_radius
             \<and> (case session_id of
                   None \<Rightarrow> True
                 | Some sid \<Rightarrow> sid = [] \<or> w_session_id r = sid)
          then Some (r, (la - lat) * (la - lat) + (lo - lon) * (lo - lon))
          else None
      | _ \<Rightarrow> None)"

definition get_devices_near ::
  "db \<Rightarrow> real \<Rightarrow> real \<Rightarrow> real \<Rightarrow> string option \<Rightarrow> (wifi_row \<times> real) list" where
  "get_devices_near d lat lon radius_m session_id =
     (let deg_radius = radius_m / 111000
      in sort_key snd (List.map_filter (near_row lat lon deg_radius session_id) (wifi_devices d)))"

record session_stats =
  st_wifi_devices :: nat
  st_wifi_unknown :: nat
  st_bt_devices :: nat
  st_bt_unknown :: nat
  st_gps_points :: nat

definition get_session_stats :: "db \<Rightarrow> string \<Rightarrow> session_stats" where
  "get_session_stats d session_id =
     \<lparr>st_wifi_devices = length (filter (\<lambda>r. w_session_id r = session_id) (wifi_devices d)),
      st_wifi_unknown =
        length (filter (\<lambda>r. w_session_id r = session_id \<and> \<not> w_is_known r) (wifi_devices d)),
      st_bt_devices = length (filter (\<lambda>r. b_session_id r = session_id) (bt_devices d)),
      st_bt_unknown =
        length (filter (\<lambda>r. b_session_id r = session_id \<and> \<not> b_is_known r) (bt_devices d)),
      st_gps_points = length (filter (\<lambda>r. g_session_id r = session_id) (gps_track d))\<rparr>"

subsection \<open>Retry, buffer and recovery\<close>

text \<open>
  A line of a buffer file, by what \<open>json.loads\<close> makes of it: the dict that
  \<open>_buffer_to_file\<close> wrote for a Wi-Fi or a Bluetooth device, or text that is not JSON.
\<close>

datatype buffer_line = WifiLine wifi_device | BtLine bt_device | GarbledLine

text \<open>The store: the database and the files of \<open>backup_dir\<close>, by name.\<close>

record store =
  st_db :: db
  st_backup_dir :: "(string \<times> buffer_line list) list"

definition is_sqlite_error :: "py_error \<Rightarrow> bool" where
  "is_sqlite_error e = (e = IntegrityError)"

text \<open>
  The loop \<open>for attempt in range(retries)\<close> of \<open>insert_wifi_device\<close>: the result of the
  first attempt that returns, an exception that is no \<open>sqlite3.Error\<close>, or \<open>None\<close> when
  every attempt raised an \<open>sqlite3.Error\<close>.
\<close>

fun insert_wifi_attempts :: "nat \<Rightarrow> wifi_device \<Rightarrow> db \<Rightarrow> (py_error + db) option" where
  "insert_wifi_attempts 0 device d = None"
| "insert_wifi_attempts (Suc n) device d =
     (case do_insert_wifi device d of
        Inr d' \<Rightarrow> Some (Inr d')
      | Inl e \<Rightarrow> if is_sqlite_error e then insert_wifi_attempts n device d else Some (Inl e))"

fun insert_bt_attempts :: "nat \<Rightarrow> bt_device \<Rightarrow> db \<Rightarrow> (py_error + db) option" where
  "insert_bt_attempts 0 device d = None"
| "insert_bt_attempts (Suc n) device d =
     (case do_insert_bt device d of
        Inr d' \<Rightarrow> Some (Inr d')
      | Inl e \<Rightarrow> if is_sqlite_error e then insert_bt_attempts n device d else Some (Inl e))"

text \<open>
  \<open>_buffer_to_file(record_type, data)\<close> at \<open>int(time.time()) = epoch\<close>: the line is
  appended to the file of that name, which is created when it does not exist.
\<close>

definition buffer_file_name :: "string \<Rightarrow> int \<Rightarrow> string" where
  "buffer_file_name record_type epoch =
     ''buffer_'' @ record_type @ ''_'' @ py_str_int epoch @ ''.jsonl''"

definition buffer_to_file ::
  "string \<Rightarrow> buffer_line \<Rightarrow> int \<Rightarrow> (string \<times> buffer_line list) list
   \<Rightarrow> (string \<times> buffer_line list) list" where
  "buffer_to_file record_type line epoch dir =
     (let name = buffer_file_name record_type epoch
      in if name \<in> set (map fst dir)
         then map (\<lambda>f. if fst f = name then (fst f, snd f @ [line]) else f) dir
         else dir @ [(name, [line])])"

definition insert_wifi_device ::
  "int \<Rightarrow> wifi_device \<Rightarrow> nat \<Rightarrow> store \<Rightarrow> py_error + (bool \<times> store)" where
  "insert_wifi_device epoch device retries st =
     (case insert_wifi_attempts retries device (st_db st) of
        Some (Inr d') \<Rightarrow> Inr (True, st\<lparr>st_db := d'\<rparr>)
      | Some (Inl e) \<Rightarrow> Inl e
      | None \<Rightarrow>
          (case WiFiDevice_to_dict device of
             Inl e \<Rightarrow> Inl e
           | Inr dat \<Rightarrow>
               Inr (False,
                    st\<lparr>st_backup_dir :=
                         buffer_to_file ''wifi'' (WifiLine dat) epoch (st_backup_dir st)\<rparr>)))"

definition insert_bt_device ::
  "int \<Rightarrow> bt_device \<Rightarrow> nat \<Rightarrow> store \<Rightarrow> py_error + (bool \<times> store)" where
  "insert_bt_device epoch device retries st =
     (case insert_bt_attempts retries device (st_db st) of
        Some (Inr d') \<Rightarrow> Inr (True, st\<lparr>st_db := d'\<rparr>)
      | Some (Inl e) \<Rightarrow> Inl e
      | None \<Rightarrow>
          (case BTDevice_to_dict device of
             Inl e \<Rightarrow> Inl e
           | Inr dat \<Rightarrow>
               Inr (False,
                    st\<lparr>st_backup_dir :=
                         buffer_to_file ''bt'' (BtLine dat) epoch (st_backup_dir st)\<rparr>)))"

text \<open>\<open>backup_dir.glob("buffer_*.jsonl")\<close> and \<open>buffer_file.stem.split("_")[1]\<close>.\<close>

definition glob_buffer ::
  "(string \<times> buffer_line list) list \<Rightarrow> (string \<times> buffer_line list) list" where
  "glob_buffer dir =
     filter (\<lambda>f. prefix ''buffer_'' (fst f) \<and> suffix ''.jsonl'' (fst f)
                  \<and> 13 \<le> length (fst f)) dir"

definition record_type_of :: "string \<Rightarrow> string" where
  "record_type_of name =
     takeWhile (\<lambda>c. c \<noteq> CHR ''_'') (drop 7 (take (length name - 6) name))"

text \<open>
  The body of \<open>try\<close> in \<open>import_buffered_records\<close> for one line: the exception it
  raises, or the database and whether \<open>imported\<close> was incremented. A dict of the other
  device class has keyword arguments that the dataclass does not take.
\<close>

definition replay_line :: "string \<Rightarrow> buffer_line \<Rightarrow> db \<Rightarrow> py_error + (db \<times> bool)" where
  "replay_line record_type line d =
     (case line of
        GarbledLine \<Rightarrow> Inl JSONDecodeError
      | WifiLine dat \<Rightarrow>
          if record_type = ''wifi'' then
            (case do_insert_wifi (WiFiDevice_kwargs dat) d of
               Inl e \<Rightarrow> Inl e
             | Inr d' \<Rightarrow> Inr (d', True))
          else if record_type = ''bt'' then Inl TypeError
          else Inr (d, False)
      | BtLine dat \<Rightarrow>
          if record_type = ''wifi'' then Inl TypeError
          else if record_type = ''bt'' then
            (case do_insert_bt (BTDevice_kwargs dat) d of
               Inl e \<Rightarrow> Inl e
             | Inr d' \<Rightarrow> Inr (d', True))
          else Inr (d, False))"

text \<open>\<open>for line in f\<close>: \<open>except Exception\<close> logs and goes on with the next line.\<close>

fun replay_lines :: "string \<Rightarrow> buffer_line list \<Rightarrow> db \<Rightarrow> nat \<Rightarrow> db \<times> nat" where
  "replay_lines record_type [] d imported = (d, imported)"
| "replay_lines record_type (line # rest) d imported =
     (case replay_line record_type line d of
        Inl e \<Rightarrow> replay_lines record_type rest d imported
      | Inr (d', counted) \<Rightarrow>
          replay_lines record_type rest d' (if counted then imported + 1 else imported))"

definition unlink :: "string \<Rightarrow> (string \<times> buffer_line list) list \<Rightarrow> (string \<times> buffer_line list) list" where
  "unlink name dir = filter (\<lambda>f. fst f \<noteq> name) dir"

text \<open>\<open>for buffer_file in ...\<close>: replay the lines, then \<open>buffer_file.unlink()\<close>.\<close>

fun import_files :: "(string \<times> buffer_line list) list \<Rightarrow> store \<Rightarrow> nat \<Rightarrow> nat \<times> store" where
  "import_files [] st imported = (imported, st)"
| "import_files (f # fs) st imported =
     (case replay_lines (record_type_of (fst f)) (snd f) (st_db st) imported of
        (d', imported') \<Rightarrow>
          import_files fs
            (st\<lparr>st_db := d', st_backup_dir := unlink (fst f) (st_backup_dir st)\<rparr>) imported')"

definition import_buffered_records :: "store \<Rightarrow> nat \<times> store" where
  "import_buffered_records st = import_files (glob_buffer (st_backup_dir st)) st 0"

section \<open>The upstream device poller: \<open>scanners/kismet_controller.py\<close>\<close>

text \<open>
  \<open>d.get(key, default)\<close> on a dict, and the same call on any JSON value: only a dict has
  the method.
\<close>

definition dict_get :: "(string \<times> json) list \<Rightarrow> string \<Rightarrow> json \<Rightarrow> json" where
  "dict_get kvs key dflt = (case map_of kvs key of Some v \<Rightarrow> v | None \<Rightarrow> dflt)"

fun json_get :: "json \<Rightarrow> string \<Rightarrow> json \<Rightarrow> py_error + json" where
  "json_get (JDict kvs) key dflt = Inr (dict_get kvs key dflt)"
| "json_get v key dflt = Inl AttributeError"

text \<open>
  \<open>KismetDevice\<close>. The fields that \<open>_parse_device\<close> copies from the raw record hold
  whatever JSON value the record has; \<open>None\<close> is \<open>JNull\<close>.
\<close>

record kismet_device =
  kd_mac :: json
  kd_device_type :: string
  kd_first_seen :: datetime
  kd_last_seen :: datetime
  kd_channel :: json
  kd_frequency :: json
  kd_rssi :: json
  kd_ssid :: json
  kd_encryption :: json
  kd_manufacturer :: json
  kd_probe_ssids :: "json list"
  kd_bt_name :: json
  kd_bt_class :: json
  kd_bt_type :: "string option"
  kd_kismet_key :: json
  kd_packets :: json

text \<open>
  \<open>datetime.fromtimestamp(t) if t else datetime.utcnow()\<close>: \<open>fromtimestamp\<close> is the
  library function on integer seconds, \<open>now\<close> is what \<open>utcnow()\<close> returns; a value that
  is no number is a \<open>TypeError\<close>.
\<close>

definition parse_timestamp :: "(int \<Rightarrow> datetime) \<Rightarrow> datetime \<Rightarrow> json \<Rightarrow> py_error + datetime" where
  "parse_timestamp fromtimestamp now t =
     (if \<not> truthy t then Inr now
      else case t of
             JInt i \<Rightarrow> Inr (fromtimestamp i)
           | JBool b \<Rightarrow> Inr (fromtimestamp 1)
           | _ \<Rightarrow> Inl TypeError)"

text \<open>
  The comprehension over \<open>probe_map\<close>: every element must have \<open>get\<close>; an element whose
  SSID is false in Python is skipped.
\<close>

fun probe_ssids_of :: "json list \<Rightarrow> py_error + json list" where
  "probe_ssids_of [] = Inr []"
| "probe_ssids_of (p # ps) =
     (case json_get p ''dot11.probedssid.ssid'' JNull of
        Inl e \<Rightarrow> Inl e
      | Inr v \<Rightarrow>
          (case probe_ssids_of ps of
             Inl e \<Rightarrow> Inl e
           | Inr rest \<Rightarrow>
               if truthy v
               then (case json_get p ''dot11.probedssid.ssid'' (JStr []) of
                       Inl e \<Rightarrow> Inl e
                     | Inr s \<Rightarrow> Inr (s # rest))
               else Inr rest))"

text \<open>The \<open>if\<close>/\<open>elif\<close>/\<open>else\<close> of \<open>_parse_device\<close> on the raw type label.\<close>

definition device_type_of :: "json \<Rightarrow> string" where
  "device_type_of dev_type =
     (if dev_type = JStr ''Wi-Fi Device'' then ''wifi''
      else if dev_type \<in> {JStr ''BR/EDR'', JStr ''BTLE''} then ''bluetooth''
      else ''unknown'')"

definition parse_device ::
  "(int \<Rightarrow> datetime) \<Rightarrow> datetime \<Rightarrow> json \<Rightarrow> py_error + kismet_device" where
  "parse_device fromtimestamp now raw =
     (case raw of
        JDict kvs \<Rightarrow>
          (let mac = dict_get kvs ''kismet.device.base.macaddr'' (JStr ''00:00:00:00:00:00'');
               dev_type = dict_get kvs ''kismet.device.base.type'' (JStr ''unknown'');
               device_type = device_type_of dev_type;
               first_time = dict_get kvs ''kismet.device.base.first_time'' (JInt 0);
               last_time = dict_get kvs ''kismet.device.base.last_time'' (JInt 0)
           in case parse_timestamp fromtimestamp now first_time of
                Inl e \<Rightarrow> Inl e
              | Inr first_seen \<Rightarrow>
             (case parse_timestamp fromtimestamp now last_time of
                Inl e \<Rightarrow> Inl e
              | Inr last_seen \<Rightarrow>
                 let device =
                       \<lparr>kd_mac = mac,
                        kd_device_type = device_type,
                        kd_first_seen = first_seen,
                        kd_last_seen = last_seen,
                        kd_channel = dict_get kvs ''kismet.device.base.channel'' (JInt 0),
                        kd_frequency = dict_get kvs ''kismet.device.base.frequency'' (JInt 0),
                        kd_rssi =
                          dict_get kvs
                            ''kismet.device.base.signal/kismet.common.signal.last_signal''
                            (JInt (- 100)),
                        kd_ssid = JNull,
                        kd_encryption = JNull,
                        kd_manufacturer = dict_get kvs ''kismet.device.base.manuf'' (JStr []),
                        kd_probe_ssids = [],
                        kd_bt_name = JNull,
                        kd_bt_class = JNull,
                        kd_bt_type = None,
                        kd_kismet_key = dict_get kvs ''kismet.device.base.key'' (JStr []),
                        kd_packets = dict_get kvs ''kismet.device.base.packets.total'' (JInt 0)\<rparr>
                 in if device_type = ''wifi'' then
                      (let dot11 = dict_get kvs ''dot11.device'' (JDict [])
                       in case json_get dot11 ''dot11.device.last_beaconed_ssid'' (JStr []) of
                            Inl e \<Rightarrow> Inl e
                          | Inr ssid \<Rightarrow>
                         (case json_get dot11 ''dot11.device.probed_ssid_map'' (JList []) of
                            Inl e \<Rightarrow> Inl e
                          | Inr probe_map \<Rightarrow>
                             (case probe_map of
                                JList ps \<Rightarrow>
                                  (case probe_ssids_of ps of
                                     Inl e \<Rightarrow> Inl e
                                   | Inr ssids \<Rightarrow>
                                       Inr (device\<lparr>kd_ssid := ssid, kd_probe_ssids := ssids\<rparr>))
                              | _ \<Rightarrow> Inr (device\<lparr>kd_ssid := ssid\<rparr>))))
                    else if device_type = ''bluetooth'' then
                      Inr (device\<lparr>kd_bt_name := dict_get kvs ''kismet.device.base.name'' (JStr []),
                                 kd_bt_type :=
                                   Some (if dev_type = JStr ''BTLE'' then ''ble'' else ''classic'')\<rparr>)
                    else Inr device))
      | _ \<Rightarrow> Inl AttributeError)"

text \<open>
  The controller. A callback is a function of the device that changes the world outside
  the controller; an exception of a callback is caught and logged in \<open>_poll_devices\<close>, so a
  callback is total here. \<open>_devices\<close> is a dict in insertion order.
\<close>

record 'w kismet_controller =
  kc_devices :: "(json \<times> kismet_device) list"
  kc_new_device_callbacks :: "(kismet_device \<Rightarrow> 'w \<Rightarrow> 'w) list"
  kc_device_update_callbacks :: "(kismet_device \<Rightarrow> 'w \<Rightarrow> 'w) list"
  kc_last_poll_time :: "real option"

text \<open>A dict key: lists and dicts are unhashable, and \<open>True == 1\<close>, \<open>False == 0\<close>.\<close>

fun dict_key :: "json \<Rightarrow> py_error + json" where
  "dict_key (JList xs) = Inl TypeError"
| "dict_key (JDict kvs) = Inl TypeError"
| "dict_key (JBool b) = Inr (JInt (if b then 1 else 0))"
| "dict_key v = Inr v"

fun dict_set :: "'k \<Rightarrow> 'v \<Rightarrow> ('k \<times> 'v) list \<Rightarrow> ('k \<times> 'v) list" where
  "dict_set k v [] = [(k, v)]"
| "dict_set k v (p # ps) = (if fst p = k then (k, v) # ps else p # dict_set k v ps)"

definition run_callbacks :: "('a \<Rightarrow> 'w \<Rightarrow> 'w) list \<Rightarrow> 'a \<Rightarrow> 'w \<Rightarrow> 'w" where
  "run_callbacks callbacks x w = fold (\<lambda>callback. callback x) callbacks w"

text \<open>
  The response of the capture daemon as \<open>_api_request\<close> returns it: \<open>None\<close> after a
  connection error, a timeout or an HTTP error, the parsed JSON body otherwise (\<open>{}\<close> for an
  empty body). \<open>get_devices\<close> posts \<open>last_time\<close> when it is true in Python, and returns
  \<open>result if result else []\<close>.
\<close>

definition request_last_time :: "real option \<Rightarrow> int option" where
  "request_last_time last_time =
     (case last_time of
        None \<Rightarrow> None
      | Some t \<Rightarrow> if t = 0 then None else Some (if 0 \<le> t then \<lfloor>t\<rfloor> else \<lceil>t\<rceil>))"

definition get_devices :: "(int option \<Rightarrow> json option) \<Rightarrow> real option \<Rightarrow> json" where
  "get_devices daemon last_time =
     (case daemon (request_last_time last_time) of
        None \<Rightarrow> JList []
      | Some result \<Rightarrow> if truthy result then result else JList [])"

text \<open>What \<open>for raw in raw_devices\<close> iterates over.\<close>

fun json_iter :: "json \<Rightarrow> py_error + json list" where
  "json_iter (JList xs) = Inr xs"
| "json_iter (JDict kvs) = Inr (map (\<lambda>kv. JStr (fst kv)) kvs)"
| "json_iter (JStr s) = Inr (map (\<lambda>c. JStr [c]) s)"
| "json_iter v = Inl TypeError"

text \<open>
  The body of the loop of \<open>_poll_devices\<close> for one raw record, and the loop: an exception
  leaves the loop with the state as it is then.
\<close>

definition poll_one ::
  "(int \<Rightarrow> datetime) \<Rightarrow> datetime \<Rightarrow> json \<Rightarrow> 'w kismet_controller \<times> 'w
   \<Rightarrow> py_error + ('w kismet_controller \<times> 'w)" where
  "poll_one fromtimestamp now raw cw =
     (case parse_device fromtimestamp now raw of
        Inl e \<Rightarrow> Inl e
      | Inr device \<Rightarrow>
          (case dict_key (kd_mac device) of
             Inl e \<Rightarrow> Inl e
           | Inr key \<Rightarrow>
               let c = fst cw; w = snd cw
               in (case map_of (kc_devices c) key of
                     None \<Rightarrow>
                       Inr (c\<lparr>kc_devices := dict_set key device (kc_devices c)\<rparr>,
                            run_callbacks (kc_new_device_callbacks c) device w)
                   | Some existing \<Rightarrow>
                       Inr (c\<lparr>kc_devices := dict_set key device (kc_devices c)\<rparr>,
                            run_callbacks (kc_device_update_callbacks c) device w))))"

fun poll_loop_body ::
  "(int \<Rightarrow> datetime) \<Rightarrow> datetime \<Rightarrow> json list \<Rightarrow> 'w kismet_controller \<times> 'w
   \<Rightarrow> py_error option \<times> 'w kismet_controller \<times> 'w" where
  "poll_loop_body fromtimestamp now [] cw = (None, cw)"
| "poll_loop_body fromtimestamp now (raw # raws) cw =
     (case poll_one fromtimestamp now raw cw of
        Inl e \<Rightarrow> (Some e, cw)
      | Inr cw' \<Rightarrow> poll_loop_body fromtimestamp now raws cw')"

text \<open>
  \<open>_poll_devices\<close>, with the daemon and \<open>time.time()\<close> at the end of the poll as
  parameters. The result is the exception that left the function, if any, and the state.
\<close>

definition poll_devices ::
  "(int \<Rightarrow> datetime) \<Rightarrow> datetime \<Rightarrow> real \<Rightarrow> (int option \<Rightarrow> json option)
   \<Rightarrow> 'w kismet_controller \<times> 'w \<Rightarrow> py_error option \<times> 'w kismet_controller \<times> 'w" where
  "poll_devices fromtimestamp now time daemon cw =
     (case json_iter (get_devices daemon (kc_last_poll_time (fst cw))) of
        Inl e \<Rightarrow> (Some e, cw)
      | Inr raws \<Rightarrow>
          (case poll_loop_body fromtimestamp now raws cw of
             (Some e, cw') \<Rightarrow> (Some e, cw')
           | (None, cw') \<Rightarrow> (None, (fst cw')\<lparr>kc_last_poll_time := Some time\<rparr>, snd cw')))"

section \<open>The GPS service: \<open>scanners/gps_logger.py\<close>\<close>

text \<open>\<open>GPSPosition\<close> of \<open>gps_logger.py\<close>, \<open>to_tuple\<close> and \<open>GPSPosition.invalid()\<close>.\<close>

record gps_position =
  gp_latitude :: real
  gp_longitude :: real
  gp_altitude :: real
  gp_timestamp :: datetime
  gp_speed :: real
  gp_heading :: real
  gp_hdop :: real
  gp_fix_quality :: int
  gp_satellites :: int
  gp_valid :: bool

definition to_tuple :: "gps_position \<Rightarrow> real \<times> real \<times> real \<times> datetime" where
  "to_tuple p = (gp_latitude p, gp_longitude p, gp_altitude p, gp_timestamp p)"

definition invalid_position :: "datetime \<Rightarrow> gps_position" where
  "invalid_position now =
     \<lparr>gp_latitude = 0, gp_longitude = 0, gp_altitude = 0, gp_timestamp = now,
      gp_speed = 0, gp_heading = 0, gp_hdop = 99, gp_fix_quality = 0, gp_satellites = 0,
      gp_valid = False\<rparr>"

text \<open>
  The packet of the gpsd library, by what \<open>_parse_gpsd_packet\<close> asks of it: the result of
  each method, \<open>Inl\<close> when the call raises, and \<open>None\<close> for an attribute that
  \<open>hasattr\<close> does not find. \<open>pk_movement_track\<close> is \<open>movement().get('track')\<close>,
  \<open>pk_position_precision\<close> is the first component of \<open>position_precision()\<close> when that is
  true in Python, and \<open>pk_sats\<close> holds the \<open>used\<close> flag of every satellite.
\<close>

record gpsd_packet =
  pk_position :: "py_error + real \<times> real"
  pk_altitude :: "(py_error + real) option"
  pk_speed :: "(py_error + real) option"
  pk_movement_track :: "(py_error + real option) option"
  pk_position_precision :: "py_error + real option"
  pk_sats :: "py_error + bool list"
  pk_mode :: "int option"

text \<open>
  \<open>_parse_gpsd_packet\<close>: an exception of \<open>position()\<close>, \<open>altitude()\<close>, \<open>speed()\<close> or
  \<open>movement()\<close> gives the invalid placeholder; an exception while reading the precision
  or the satellites gives the defaults 99.0 and 0.
\<close>

definition parse_gpsd_packet :: "datetime \<Rightarrow> real \<Rightarrow> int \<Rightarrow> gpsd_packet \<Rightarrow> gps_position" where
  "parse_gpsd_packet now min_hdop min_satellites packet =
     (case pk_position packet of
        Inl e \<Rightarrow> invalid_position now
      | Inr (lat, lon) \<Rightarrow>
     (case (case pk_altitude packet of None \<Rightarrow> Inr 0 | Some r \<Rightarrow> r) of
        Inl e \<Rightarrow> invalid_position now
      | Inr alt \<Rightarrow>
     (case (case pk_speed packet of None \<Rightarrow> Inr 0 | Some r \<Rightarrow> r) of
        Inl e \<Rightarrow> invalid_position now
      | Inr speed \<Rightarrow>
     (case (case pk_movement_track packet of
              None \<Rightarrow> Inr 0
            | Some (Inl e) \<Rightarrow> Inl e
            | Some (Inr None) \<Rightarrow> Inr 0
            | Some (Inr (Some track)) \<Rightarrow> Inr track) of
        Inl e \<Rightarrow> invalid_position now
      | Inr heading \<Rightarrow>
          let hdop = (case pk_position_precision packet of
                        Inl e \<Rightarrow> 99
                      | Inr None \<Rightarrow> 99
                      | Inr (Some h) \<Rightarrow> h);
              satellites = (case pk_sats packet of
                              Inl e \<Rightarrow> 0
                            | Inr used \<Rightarrow> int (length (filter (\<lambda>u. u) used)));
              mode = (case pk_mode packet of None \<Rightarrow> 0 | Some m \<Rightarrow> m);
              fix_quality = (if 2 \<le> mode then 1 else 0);
              valid = (hdop \<le> min_hdop \<and> min_satellites \<le> satellites \<and> 2 \<le> mode)
          in \<lparr>gp_latitude = lat, gp_longitude = lon, gp_altitude = alt, gp_timestamp = now,
              gp_speed = speed, gp_heading = heading, gp_hdop = hdop,
              gp_fix_quality = fix_quality, gp_satellites = satellites,
              gp_valid = valid\<rparr>))))"

text \<open>
  The logger. A callback changes the world outside the logger; \<open>_update_position\<close>
  catches and logs an exception of a callback, so a callback is total here.
\<close>

record 'w gps_logger =
  gl_history_size :: int
  gl_min_hdop :: real
  gl_min_satellites :: int
  gl_current_position :: "gps_position option"
  gl_position_history :: "gps_position list"
  gl_callbacks :: "(gps_position \<Rightarrow> 'w \<Rightarrow> 'w) list"
  gl_fix_count :: int
  gl_no_fix_count :: int
  gl_last_fix_time :: "datetime option"

text \<open>The slice \<open>xs[-n:]\<close>: the last \<open>n\<close> elements for a positive \<open>n\<close>, and \<open>xs[k:]\<close> for \<open>n = -k\<close>.\<close>

definition slice_last :: "int \<Rightarrow> 'a list \<Rightarrow> 'a list" where
  "slice_last n xs = (if 0 < n then drop (length xs - nat n) xs else drop (nat (- n)) xs)"

text \<open>
  \<open>_update_position\<close>, with \<open>GPSD_AVAILABLE\<close>, the result of \<open>gpsd.get_current()\<close> and
  \<open>datetime.utcnow()\<close> as parameters.
\<close>

definition update_position ::
  "bool \<Rightarrow> py_error + gpsd_packet \<Rightarrow> datetime \<Rightarrow> 'w gps_logger \<times> 'w \<Rightarrow> 'w gps_logger \<times> 'w" where
  "update_position gpsd_available get_current now gw =
     (if \<not> gpsd_available then gw
      else case get_current of
             Inl e \<Rightarrow> gw
           | Inr packet \<Rightarrow>
               let g = fst gw; w = snd gw;
                   position = parse_gpsd_packet now (gl_min_hdop g) (gl_min_satellites g) packet;
                   g1 = g\<lparr>gl_current_position := Some position\<rparr>;
                   g2 = (if gp_valid position then
                           let history = gl_position_history g1 @ [position]
                           in g1\<lparr>gl_position_history :=
                                   (if gl_history_size g1 < int (length history)
                                    then slice_last (gl_history_size g1) history
                                    else history),
                                 gl_fix_count := gl_fix_count g1 + 1,
                                 gl_last_fix_time := Some (gp_timestamp position)\<rparr>
                         else g1\<lparr>gl_no_fix_count := gl_no_fix_count g1 + 1\<rparr>)
               in (g2, run_callbacks (gl_callbacks g2) position w))"

definition get_current_position ::
  "datetime \<Rightarrow> 'w gps_logger \<Rightarrow> real \<times> real \<times> real \<times> datetime" where
  "get_current_position now g =
     (case gl_current_position g of
        Some p \<Rightarrow> if gp_valid p then to_tuple p else (0, 0, 0, now)
      | None \<Rightarrow> (0, 0, 0, now))"

section \<open>The Wi-Fi fingerprinter: \<open>fingerprinting/wifi_fingerprint.py\<close>\<close>

subsection \<open>\<open>hashlib.sha256\<close>\<close>

text \<open>
  SHA-256 as FIPS 180-4 defines it, on bytes and 32-bit words held in natural numbers
  with the reduction modulo \<open>2 ^ 32\<close> written out.
\<close>

unbundle bit_operations_syntax

definition K256 :: "nat list" where
  "K256 =
    [0x428a2f98, 0x71374491, 0xb5c0fbcf, 0xe9b5dba5,
     0x3956c25b, 0x59f111f1, 0x923f82a4, 0xab1c5ed5,
     0xd807aa98, 0x12835b01, 0x243185be, 0x550c7dc3,
     0x72be5d74, 0x80deb1fe, 0x9bdc06a7, 0xc19bf174,
     0xe49b69c1, 0xefbe4786, 0x0fc19dc6, 0x240ca1cc,
     0x2de92c6f, 0x4a7484aa, 0x5cb0a9dc, 0x76f988da,
     0x983e5152, 0xa831c66d, 0xb00327c8, 0xbf597fc7,
     0xc6e00bf3, 0xd5a79147, 0x06ca6351, 0x14292967,
     0x27b70a85, 0x2e1b2138, 0x4d2c6dfc, 0x53380d13,
     0x650a7354, 0x766a0abb, 0x81c2c92e, 0x92722c85,
     0xa2bfe8a1, 0xa81a664b, 0xc24b8b70, 0xc76c51a3,
     0xd192e819, 0xd6990624, 0xf40e3585, 0x106aa070,
     0x19a4c116, 0x1e376c08, 0x2748774c, 0x34b0bcb5,
     0x391c0cb3, 0x4ed8aa4a, 0x5b9cca4f, 0x682e6ff3,
     0x748f82ee, 0x78a5636f, 0x84c87814, 0x8cc70208,
     0x90befffa, 0xa4506ceb, 0xbef9a3f7, 0xc67178f2]"

type_synonym sha_state = "nat \<times> nat \<times> nat \<times> nat \<times> nat \<times> nat \<times> nat \<times> nat"

definition H256 :: sha_state where
  "H256 =
    (0x6a09e667, 0xbb67ae85, 0x3c6ef372, 0xa54ff53a,
     0x510e527f, 0x9b05688c, 0x1f83d9ab, 0x5be0cd19)"

definition add32 :: "nat \<Rightarrow> nat \<Rightarrow> nat" where
  "add32 x y = (x + y) mod 4294967296"

definition rotr :: "nat \<Rightarrow> nat \<Rightarrow> nat" where
  "rotr n x = x div 2 ^ n + (x mod 2 ^ n) * 2 ^ (32 - n)"

definition Ch :: "nat \<Rightarrow> nat \<Rightarrow> nat \<Rightarrow> nat" where
  "Ch x y z = (x AND y) XOR ((4294967295 - x) AND z)"

definition Maj :: "nat \<Rightarrow> nat \<Rightarrow> nat \<Rightarrow> nat" where
  "Maj x y z = (x AND y) XOR (x AND z) XOR (y AND z)"

definition bsig0 :: "nat \<Rightarrow> nat" where
  "bsig0 x = rotr 2 x XOR rotr 13 x XOR rotr 22 x"

definition bsig1 :: "nat \<Rightarrow> nat" where
  "bsig1 x = rotr 6 x XOR rotr 11 x XOR rotr 25 x"

definition ssig0 :: "nat \<Rightarrow> nat" where
  "ssig0 x = rotr 7 x XOR rotr 18 x XOR x div 8"

definition ssig1 :: "nat \<Rightarrow> nat" where
  "ssig1 x = rotr 17 x XOR rotr 19 x XOR x div 1024"

text \<open>
  The message schedule. \<open>ws\<close> holds the words computed so far, the latest first, so that
  \<open>ws ! 1\<close> is \<open>W (t - 2)\<close> and \<open>ws ! 15\<close> is \<open>W (t - 16)\<close>.
\<close>

definition next_word :: "nat list \<Rightarrow> nat" where
  "next_word ws = add32 (add32 (ssig1 (ws ! 1)) (ws ! 6)) (add32 (ssig0 (ws ! 14)) (ws ! 15))"

fun schedule :: "nat \<Rightarrow> nat list \<Rightarrow> nat list" where
  "schedule 0 ws = rev ws"
| "schedule (Suc n) ws = schedule n (next_word ws # ws)"

fun temp1 :: "sha_state \<Rightarrow> nat \<Rightarrow> nat \<Rightarrow> nat" where
  "temp1 (a, b, c, d, e, f, g, h) k w =
     add32 (add32 (add32 (add32 h (bsig1 e)) (Ch e f g)) k) w"

fun temp2 :: "sha_state \<Rightarrow> nat" where
  "temp2 (a, b, c, d, e, f, g, h) = add32 (bsig0 a) (Maj a b c)"

fun shift_state :: "nat \<Rightarrow> nat \<Rightarrow> sha_state \<Rightarrow> sha_state" where
  "shift_state t1 t2 (a, b, c, d, e, f, g, h) = (add32 t1 t2, a, b, c, add32 d t1, e, f, g)"

definition sha_round :: "sha_state \<Rightarrow> nat \<Rightarrow> nat \<Rightarrow> sha_state" where
  "sha_round s k w = shift_state (temp1 s k w) (temp2 s) s"

fun rounds :: "sha_state \<Rightarrow> nat list \<Rightarrow> nat list \<Rightarrow> sha_state" where
  "rounds s (k # ks) (w # ws) = rounds (sha_round s k w) ks ws"
| "rounds s ks ws = s"

fun add_state :: "sha_state \<Rightarrow> sha_state \<Rightarrow> sha_state" where
  "add_state (a, b, c, d, e, f, g, h) (a', b', c', d', e', f', g', h') =
     (add32 a a', add32 b b', add32 c c', add32 d d',
      add32 e e', add32 f f', add32 g g', add32 h h')"

definition compress :: "sha_state \<Rightarrow> nat list \<Rightarrow> sha_state" where
  "compress s block = add_state s (rounds s K256 (schedule 48 (rev block)))"

fun sha_blocks :: "sha_state \<Rightarrow> nat list \<Rightarrow> sha_state" where
  "sha_blocks s ws =
     (if length ws < 16 then s else sha_blocks (compress s (take 16 ws)) (drop 16 ws))"

declare sha_blocks.simps [simp del]

text \<open>
  Padding: the byte \<open>0x80\<close>, zero bytes up to 56 modulo 64, and the length of the message
  in bits as 8 bytes, the most significant first; then the bytes are read as big-endian
  words.
\<close>

definition sha256_pad :: "nat list \<Rightarrow> nat list" where
  "sha256_pad bs =
     bs @ [128] @ replicate ((119 - length bs mod 64) mod 64) 0
     @ map (\<lambda>i. 8 * length bs div 256 ^ i mod 256) [7, 6, 5, 4, 3, 2, 1, 0]"

fun be_words :: "nat list \<Rightarrow> nat list" where
  "be_words (a # b # c # d # bs) = (((a * 256 + b) * 256 + c) * 256 + d) # be_words bs"
| "be_words bs = []"

definition sha256 :: "nat list \<Rightarrow> sha_state" where
  "sha256 bs = sha_blocks H256 (be_words (sha256_pad bs))"

definition hex_word :: "nat \<Rightarrow> string" where
  "hex_word w = map (\<lambda>i. hex_digit (w div 16 ^ i)) [7, 6, 5, 4, 3, 2, 1, 0]"

fun hexdigest :: "sha_state \<Rightarrow> string" where
  "hexdigest (a, b, c, d, e, f, g, h) = concat (map hex_word [a, b, c, d, e, f, g, h])"

text \<open>\<open>str.encode()\<close>: UTF-8, for code points below 256.\<close>

definition encode :: "string \<Rightarrow> nat list" where
  "encode s =
     concat (map (\<lambda>c. if (of_char c :: nat) < 128 then [of_char c]
                       else [192 + of_char c div 64, 128 + of_char c mod 64]) s)"

subsection \<open>\<open>int(s, 16)\<close> and \<open>str.upper()\<close>\<close>

text \<open>
  \<open>int(s, 16)\<close>: white space around the number is skipped, then come an optional sign, an
  optional prefix \<open>0x\<close> or \<open>0X\<close>, and hexadecimal digits, with single underscores allowed
  between digits and after the prefix. \<open>None\<close> stands for \<open>ValueError\<close>.
\<close>

definition is_space :: "char \<Rightarrow> bool" where
  "is_space c =
     ((9 \<le> (of_char c :: nat) \<and> (of_char c :: nat) \<le> 13)
      \<or> (28 \<le> (of_char c :: nat) \<and> (of_char c :: nat) \<le> 32)
      \<or> (of_char c :: nat) = 133 \<or> (of_char c :: nat) = 160)"

definition hex_value :: "char \<Rightarrow> nat option" where
  "hex_value c =
     (let n = (of_char c :: nat) in
      if 48 \<le> n \<and> n \<le> 57 then Some (n - 48)
      else if 97 \<le> n \<and> n \<le> 102 then Some (n - 87)
      else if 65 \<le> n \<and> n \<le> 70 then Some (n - 55)
      else None)"

fun hex_digits :: "nat \<Rightarrow> bool \<Rightarrow> string \<Rightarrow> nat option" where
  "hex_digits acc after_digit [] = (if after_digit then Some acc else None)"
| "hex_digits acc after_digit (c # cs) =
     (if c = CHR ''_'' then
        (if after_digit \<and> cs \<noteq> [] then hex_digits acc False cs else None)
      else case hex_value c of
             None \<Rightarrow> None
           | Some d \<Rightarrow> hex_digits (16 * acc + d) True cs)"

fun strip_sign :: "string \<Rightarrow> bool \<times> string" where
  "strip_sign (c # cs) =
     (if c = CHR ''-'' then (True, cs) else if c = CHR ''+'' then (False, cs)
      else (False, c # cs))"
| "strip_sign [] = (False, [])"

fun strip_prefix16 :: "string \<Rightarrow> string" where
  "strip_prefix16 (z # x # cs) =
     (if z = CHR ''0'' \<and> (x = CHR ''x'' \<or> x = CHR ''X'')
      then (case cs of [] \<Rightarrow> [] | c # cs' \<Rightarrow> if c = CHR ''_'' then cs' else c # cs')
      else z # x # cs)"
| "strip_prefix16 cs = cs"

definition int16 :: "string \<Rightarrow> int option" where
  "int16 s =
     (let stripped = rev (dropWhile is_space (rev (dropWhile is_space s)));
          signed = strip_sign stripped
      in map_option (\<lambda>n. if fst signed then - int n else int n)
           (hex_digits 0 False (strip_prefix16 (snd signed))))"

text \<open>\<open>str.upper()\<close>, for ASCII text.\<close>

definition upper_char :: "char \<Rightarrow> char" where
  "upper_char c =
     (if 97 \<le> (of_char c :: nat) \<and> (of_char c :: nat) \<le> 122
      then char_of ((of_char c :: nat) - 32) else c)"

definition upper :: "string \<Rightarrow> string" where
  "upper s = map upper_char s"

subsection \<open>Capabilities and the fingerprint\<close>

text \<open>
  A vendor-specific information element is a \<open>dict\<close> with string values, as
  \<open>extract_vendor_ies\<close> of \<open>tshark_capture.py\<close> builds it; \<open>ie_get\<close> is \<open>ie.get(key)\<close> and
  \<open>ie_get_default\<close> is \<open>ie.get(key, default)\<close>.
\<close>

type_synonym vendor_ie = "(string \<times> string) list"

definition ie_get :: "vendor_ie \<Rightarrow> string \<Rightarrow> string option" where
  "ie_get ie key = map_of ie key"

definition ie_get_default :: "vendor_ie \<Rightarrow> string \<Rightarrow> string \<Rightarrow> string" where
  "ie_get_default ie key dflt = (case map_of ie key of Some v \<Rightarrow> v | None \<Rightarrow> dflt)"

record wifi_capabilities =
  wc_supported_rates :: "int list"
  wc_extended_rates :: "int list"
  wc_ht_supported :: bool
  wc_ht_capabilities :: int
  wc_ht_ampdu_params :: int
  wc_ht_mcs_set :: string
  wc_vht_supported :: bool
  wc_vht_capabilities :: int
  wc_vht_mcs_set :: string
  wc_he_supported :: bool
  wc_power_capability :: "int \<times> int"
  wc_vendor_ies :: "vendor_ie list"
  wc_wps_enabled :: bool
  wc_wps_manufacturer :: string
  wc_wps_model :: string
  wc_wps_device_name :: string

text \<open>\<open>WiFiCapabilities(supported_rates=..., extended_rates=..., vendor_ies=...)\<close>.\<close>

definition WiFiCapabilities :: "int list \<Rightarrow> int list \<Rightarrow> vendor_ie list \<Rightarrow> wifi_capabilities" where
  "WiFiCapabilities supported_rates extended_rates vendor_ies =
     \<lparr>wc_supported_rates = supported_rates, wc_extended_rates = extended_rates,
      wc_ht_supported = False, wc_ht_capabilities = 0, wc_ht_ampdu_params = 0,
      wc_ht_mcs_set = [], wc_vht_supported = False, wc_vht_capabilities = 0,
      wc_vht_mcs_set = [], wc_he_supported = False, wc_power_capability = (0, 0),
      wc_vendor_ies = vendor_ies, wc_wps_enabled = False, wc_wps_manufacturer = [],
      wc_wps_model = [], wc_wps_device_name = []\<rparr>"

text \<open>\<open>x or []\<close> for an optional list, and the truth value of an optional string.\<close>

definition or_empty :: "'a list option \<Rightarrow> 'a list" where
  "or_empty xs = (case xs of None \<Rightarrow> [] | Some l \<Rightarrow> l)"

definition str_truthy :: "string option \<Rightarrow> bool" where
  "str_truthy s = (case s of None \<Rightarrow> False | Some t \<Rightarrow> t \<noteq> [])"

text \<open>
  The body of the loop over the vendor elements in \<open>extract_capabilities\<close>;
  \<open>_parse_wps_attributes\<close> does nothing.
\<close>

definition check_wps :: "vendor_ie \<Rightarrow> wifi_capabilities \<Rightarrow> wifi_capabilities" where
  "check_wps ie caps =
     (let oui = ie_get_default ie ''oui'' []
      in if oui = ''00:50:f2'' \<and> ie_get ie ''type'' = Some ''4''
         then caps\<lparr>wc_wps_enabled := True\<rparr> else caps)"

definition extract_capabilities ::
  "int list option \<Rightarrow> int list option \<Rightarrow> string option \<Rightarrow> string option
     \<Rightarrow> vendor_ie list option \<Rightarrow> wifi_capabilities" where
  "extract_capabilities supported_rates extended_rates ht_capabilities vht_capabilities
       vendor_ies =
     (let caps = WiFiCapabilities (or_empty supported_rates) (or_empty extended_rates)
                   (or_empty vendor_ies);
          caps1 = (if str_truthy ht_capabilities then
                     caps\<lparr>wc_ht_supported := True,
                          wc_ht_capabilities :=
                            (case int16 (the ht_capabilities) of
                               Some v \<Rightarrow> v | None \<Rightarrow> wc_ht_capabilities caps)\<rparr>
                   else caps);
          caps2 = (if str_truthy vht_capabilities then
                     caps1\<lparr>wc_vht_supported := True,
                           wc_vht_capabilities :=
                             (case int16 (the vht_capabilities) of
                                Some v \<Rightarrow> v | None \<Rightarrow> wc_vht_capabilities caps1)\<rparr>
                   else caps1)
      in fold check_wps (wc_vendor_ies caps2) caps2)"

text \<open>
  The dict \<open>features\<close> of \<open>compute_fingerprint\<close>, in the order of insertion; \<open>sorted(set(...))\<close>
  is \<open>sort (remdups ...)\<close>.
\<close>

definition features :: "wifi_capabilities \<Rightarrow> string list option \<Rightarrow> json" where
  "features capabilities probe_ssids =
     JDict
       ([(''rates'', JList (map JInt (sort (wc_supported_rates capabilities
                                              @ wc_extended_rates capabilities)))),
         (''ht'', JBool (wc_ht_supported capabilities)),
         (''ht_caps'', JInt (wc_ht_capabilities capabilities)),
         (''vht'', JBool (wc_vht_supported capabilities)),
         (''vht_caps'', JInt (wc_vht_capabilities capabilities)),
         (''he'', JBool (wc_he_supported capabilities)),
         (''wps'', JBool (wc_wps_enabled capabilities)),
         (''vendor_ouis'',
            JList (map JStr (sort (remdups
              (map (\<lambda>ie. ie_get_default ie ''oui'' [])
                 (filter (\<lambda>ie. str_truthy (ie_get ie ''oui''))
                    (wc_vendor_ies capabilities)))))))]
        @ (if or_empty probe_ssids \<noteq> []
           then [(''probe_ssids'',
                    JList (map JStr (sort (remdups
                      (filter (\<lambda>s. s \<noteq> []) (or_empty probe_ssids))))))]
           else []))"

definition compute_fingerprint :: "wifi_capabilities \<Rightarrow> string list option \<Rightarrow> string" where
  "compute_fingerprint capabilities probe_ssids =
     (let canonical = json_dumps True (features capabilities probe_ssids)
      in hexdigest (sha256 (encode canonical)))"

subsection \<open>Probe profiles and signature data\<close>

text \<open>
  \<open>ProbeProfile\<close>. The set \<open>probed_ssids\<close> is a list without duplicates;
  \<open>list(profile.probed_ssids)\<close> lists it in some order, here the order of insertion, and
  \<open>compute_fingerprint\<close> sorts it.
\<close>

record probe_profile =
  pp_mac :: string
  pp_probed_ssids :: "string list"
  pp_probe_count :: int
  pp_first_seen :: "datetime option"
  pp_last_seen :: "datetime option"
  pp_avg_probe_interval :: real
  pp_probe_burst_size :: int
  pp_capabilities :: "wifi_capabilities option"

definition ProbeProfile :: "string \<Rightarrow> probe_profile" where
  "ProbeProfile mac =
     \<lparr>pp_mac = mac, pp_probed_ssids = [], pp_probe_count = 0, pp_first_seen = None,
      pp_last_seen = None, pp_avg_probe_interval = 0, pp_probe_burst_size = 0,
      pp_capabilities = None\<rparr>"

definition add_probe :: "string \<Rightarrow> datetime \<Rightarrow> probe_profile \<Rightarrow> probe_profile" where
  "add_probe ssid timestamp p =
     p\<lparr>pp_probed_ssids :=
         (if ssid \<noteq> [] then List.insert ssid (pp_probed_ssids p) else pp_probed_ssids p),
       pp_probe_count := pp_probe_count p + 1,
       pp_first_seen :=
         (case pp_first_seen p of None \<Rightarrow> Some timestamp | Some t \<Rightarrow> Some t),
       pp_last_seen := Some timestamp\<rparr>"

record wifi_fingerprinter =
  wf_probe_profiles :: "string \<rightharpoonup> probe_profile"
  wf_fingerprint_cache :: "string \<rightharpoonup> string"

definition WiFiFingerprinter :: wifi_fingerprinter where
  "WiFiFingerprinter = \<lparr>wf_probe_profiles = Map.empty, wf_fingerprint_cache = Map.empty\<rparr>"

text \<open>\<open>fingerprint_from_probe\<close>, with \<open>datetime.utcnow()\<close> as the parameter \<open>now\<close>.\<close>

definition fingerprint_from_probe ::
  "datetime \<Rightarrow> string \<Rightarrow> string \<Rightarrow> int list \<Rightarrow> string option \<Rightarrow> string option
     \<Rightarrow> vendor_ie list option \<Rightarrow> datetime option \<Rightarrow> wifi_fingerprinter
     \<Rightarrow> string \<times> wifi_fingerprinter" where
  "fingerprint_from_probe now mac ssid supported_rates ht_capabilities vht_capabilities
       vendor_ies timestamp fp =
     (let timestamp' = (case timestamp of Some t \<Rightarrow> t | None \<Rightarrow> now);
          mac' = upper mac;
          profiles = (case wf_probe_profiles fp mac' of
                        None \<Rightarrow> (wf_probe_profiles fp)(mac' \<mapsto> ProbeProfile mac')
                      | Some p \<Rightarrow> wf_probe_profiles fp);
          profile = add_probe ssid timestamp' (the (profiles mac'));
          caps = extract_capabilities (Some supported_rates) None ht_capabilities
                   vht_capabilities vendor_ies;
          profile' = profile\<lparr>pp_capabilities := Some caps\<rparr>;
          fingerprint = compute_fingerprint caps (Some (pp_probed_ssids profile'))
      in (fingerprint,
          fp\<lparr>wf_probe_profiles := profiles(mac' \<mapsto> profile'),
             wf_fingerprint_cache := (wf_fingerprint_cache fp)(mac' \<mapsto> fingerprint)\<rparr>))"

definition identify_device_type :: "wifi_capabilities \<Rightarrow> string" where
  "identify_device_type capabilities =
     (if wc_vht_supported capabilities \<and> wc_ht_supported capabilities
         \<and> 8 \<le> length (wc_supported_rates capabilities) then ''smartphone''
      else if wc_vht_supported capabilities \<and> 3 < length (wc_vendor_ies capabilities)
        then ''laptop''
      else if \<not> wc_ht_supported capabilities \<and> length (wc_supported_rates capabilities) \<le> 4
        then ''iot''
      else if \<not> wc_ht_supported capabilities \<and> 54 \<in> set (wc_supported_rates capabilities)
        then ''legacy_wifi_g''
      else if \<not> wc_ht_supported capabilities
              \<and> list_all (\<lambda>r. r \<le> 11) (wc_supported_rates capabilities)
        then ''legacy_wifi_b''
      else ''unknown'')"

definition is_likely_randomized_mac :: "string \<Rightarrow> bool" where
  "is_likely_randomized_mac mac =
     (let mac' = filter (\<lambda>c. c \<noteq> CHR '':'' \<and> c \<noteq> CHR ''-'') (upper mac)
      in if length mac' \<noteq> 12 then False
         else case int16 [mac' ! 1] of
                None \<Rightarrow> False
              | Some second_nibble \<Rightarrow> second_nibble div 2 mod 2 \<noteq> 0)"

definition get_signature_data :: "string \<Rightarrow> bool \<Rightarrow> wifi_fingerprinter \<Rightarrow> json option" where
  "get_signature_data mac include_probes fp =
     (case wf_probe_profiles fp (upper mac) of
        None \<Rightarrow> None
      | Some profile \<Rightarrow>
     (case wf_fingerprint_cache fp (upper mac) of
        None \<Rightarrow> None
      | Some fingerprint \<Rightarrow>
          if fingerprint = [] then None
          else Some (JDict
            ([(''mac'', JStr (upper mac)),
              (''fingerprint_hash'', JStr fingerprint),
              (''device_type'', JStr ''wifi''),
              (''first_seen'',
                 case pp_first_seen profile of Some t \<Rightarrow> JStr (isoformat t) | None \<Rightarrow> JNull),
              (''last_seen'',
                 case pp_last_seen profile of Some t \<Rightarrow> JStr (isoformat t) | None \<Rightarrow> JNull)]
             @ (case pp_capabilities profile of
                  None \<Rightarrow> []
                | Some caps \<Rightarrow>
                    [(''capabilities'', JDict
                        [(''supported_rates'', JList (map JInt (wc_supported_rates caps))),
                         (''extended_rates'', JList (map JInt (wc_extended_rates caps))),
                         (''ht_supported'', JBool (wc_ht_supported caps)),
                         (''ht_capabilities'', JInt (wc_ht_capabilities caps)),
                         (''vht_supported'', JBool (wc_vht_supported caps)),
                         (''vht_capabilities'', JInt (wc_vht_capabilities caps)),
                         (''wps_enabled'', JBool (wc_wps_enabled caps)),
                         (''vendor_oui_count'', JInt (int (length (wc_vendor_ies caps))))]),
                     (''inferred_device_type'', JStr (identify_device_type caps))])
             @ (if include_probes \<and> pp_probed_ssids profile \<noteq> []
                then [(''probed_ssids'', JList (map JStr (pp_probed_ssids profile)))]
                else [])
             @ [(''is_randomized_mac'', JBool (is_likely_randomized_mac mac))]))))"

section \<open>Scenarios\<close>

text \<open>Running one step after another, as statements in sequence: an exception ends the run.\<close>

definition bind_err :: "'e + 'a \<Rightarrow> ('a \<Rightarrow> 'e + 'b) \<Rightarrow> 'e + 'b" where
  "bind_err m f = (case m of Inl e \<Rightarrow> Inl e | Inr x \<Rightarrow> f x)"

fun is_typed :: "'a pyfield \<Rightarrow> bool" where
  "is_typed (Typed x) = True"
| "is_typed (JsonStr s) = False"

text \<open>A device object as the dataclass annotations describe it.\<close>

definition wifi_typed :: "wifi_device \<Rightarrow> bool" where
  "wifi_typed w =
     (is_typed (wd_device_type w) \<and> is_typed (wd_first_seen w) \<and> is_typed (wd_last_seen w))"

definition bt_typed :: "bt_device \<Rightarrow> bool" where
  "bt_typed b =
     (is_typed (bd_device_type b) \<and> is_typed (bd_first_seen b) \<and> is_typed (bd_last_seen b))"

text \<open>The arguments of one call of \<open>insert_gps_point\<close>.\<close>

record gps_point_args =
  ga_lat :: "real option"
  ga_lon :: "real option"
  ga_alt :: "real option"
  ga_speed :: "real option"
  ga_track :: "real option"
  ga_fix_quality :: int
  ga_hdop :: "real option"
  ga_satellites :: int
  ga_timestamp :: "datetime option"

fun insert_gps_points ::
  "datetime \<Rightarrow> string \<Rightarrow> gps_point_args list \<Rightarrow> db \<Rightarrow> py_error + db" where
  "insert_gps_points now session_id [] d = Inr d"
| "insert_gps_points now session_id (a # as) d =
     bind_err
       (insert_gps_point now session_id (ga_lat a) (ga_lon a) (ga_alt a) (ga_speed a)
          (ga_track a) (ga_fix_quality a) (ga_hdop a) (ga_satellites a) (ga_timestamp a) d)
       (insert_gps_points now session_id as)"

text \<open>
  The session lifecycle of the specification's first end-to-end scenario: create the
  session, insert two Wi-Fi devices and one Bluetooth device with the default three
  retries, insert the GPS points, and call \<open>end_session\<close>.
\<close>

definition session_lifecycle ::
  "datetime \<Rightarrow> int \<Rightarrow> scan_session \<Rightarrow> wifi_device \<Rightarrow> wifi_device \<Rightarrow> bt_device
   \<Rightarrow> gps_point_args list \<Rightarrow> datetime option \<Rightarrow> store \<Rightarrow> py_error + store" where
  "session_lifecycle now epoch session w1 w2 b points end_time st =
     bind_err (create_session session (st_db st)) (\<lambda>created.
     bind_err (insert_wifi_device epoch w1 3 (st\<lparr>st_db := snd created\<rparr>)) (\<lambda>r1.
     bind_err (insert_wifi_device epoch w2 3 (snd r1)) (\<lambda>r2.
     bind_err (insert_bt_device epoch b 3 (snd r2)) (\<lambda>r3.
     bind_err (insert_gps_points now (ss_session_id session) points (st_db (snd r3))) (\<lambda>d5.
       Inr ((snd r3)\<lparr>st_db := end_session now (ss_session_id session) end_time d5\<rparr>))))))"

text \<open>A new database and an empty backup directory.\<close>

definition empty_store :: store where
  "empty_store = \<lparr>st_db = initialize_schema, st_backup_dir = []\<rparr>"

text \<open>
  The objects of the scenario, with the dataclass defaults for every field that the
  scenario does not name.
\<close>

definition scenario_session :: scan_session where
  "scenario_session =
     \<lparr>ss_session_id = ''airdump_scan_20251225_120000'',
      ss_start_time = Datetime ''2025-12-25T12:00:00'',
      ss_end_time = None, ss_status = Typed STARTING, ss_property_id = None,
      ss_operator = None, ss_scan_type = ''both'', ss_notes = None, ss_node_id = None,
      ss_swarm_session_id = None, ss_wifi_device_count = 0, ss_bt_device_count = 0\<rparr>"

definition scenario_wifi :: "string \<Rightarrow> string \<Rightarrow> wifi_device" where
  "scenario_wifi key bssid =
     \<lparr>wd_device_key = key, wd_bssid = bssid, wd_essid = None,
      wd_device_type = Typed UNKNOWN, wd_channel = None, wd_frequency = None,
      wd_signal_dbm = None, wd_encryption = None, wd_manufacturer = None,
      wd_packets_total = 0,
      wd_first_seen = Typed (Datetime ''2025-12-25T12:00:01''),
      wd_last_seen = Typed (Datetime ''2025-12-25T12:00:01''),
      wd_gps_lat = None, wd_gps_lon = None, wd_gps_alt = None, wd_gps_valid = False,
      wd_fingerprint_hash = None, wd_fingerprint_data = None, wd_is_known = False,
      wd_identified_as = None, wd_session_id = Some ''airdump_scan_20251225_120000'',
      wd_is_duplicate = False, wd_duplicate_of_id = None, wd_seen_by_nodes = []\<rparr>"

definition scenario_bt :: "string \<Rightarrow> string \<Rightarrow> bt_device" where
  "scenario_bt key mac =
     \<lparr>bd_device_key = key, bd_mac_address = mac, bd_device_name = None,
      bd_device_type = Typed BT_UNKNOWN, bd_device_class = None, bd_rssi = None,
      bd_manufacturer = None, bd_service_uuids = [],
      bd_first_seen = Typed (Datetime ''2025-12-25T12:00:02''),
      bd_last_seen = Typed (Datetime ''2025-12-25T12:00:02''),
      bd_gps_lat = None, bd_gps_lon = None, bd_gps_alt = None, bd_gps_valid = False,
      bd_fingerprint_hash = None, bd_fingerprint_data = None, bd_is_known = False,
      bd_identified_as = None, bd_session_id = Some ''airdump_scan_20251225_120000'',
      bd_is_duplicate = False, bd_duplicate_of_id = None, bd_seen_by_nodes = []\<rparr>"

definition scenario_point :: gps_point_args where
  "scenario_point =
     \<lparr>ga_lat = Some 51.5, ga_lon = Some (- 0.1), ga_alt = Some 30, ga_speed = None,
      ga_track = None, ga_fix_quality = 0, ga_hdop = None, ga_satellites = 0,
      ga_timestamp = None\<rparr>"

definition scenario_lifecycle :: "py_error + store" where
  "scenario_lifecycle =
     session_lifecycle (Datetime ''2025-12-25T12:10:00'') 1766664000 scenario_session
       (scenario_wifi ''wifi_key_0'' ''AA:BB:CC:DD:EE:00'')
       (scenario_wifi ''wifi_key_1'' ''AA:BB:CC:DD:EE:01'')
       (scenario_bt ''bt_key_0'' ''11:22:33:44:55:00'')
       (replicate 5 scenario_point) None empty_store"

text \<open>The \<open>status\<close> column that \<open>get_session\<close> reads after a run.\<close>

definition session_status :: "py_error + store \<Rightarrow> string \<Rightarrow> string option" where
  "session_status res session_id =
     (case res of
        Inl e \<Rightarrow> None
      | Inr st \<Rightarrow> map_option s_status (get_session (st_db st) session_id))"

text \<open>
  The devices of the specification's upsert scenario: a first observation, a second one
  with an ESSID, and a third one with no ESSID and an empty \<open>fingerprint_data\<close> dict;
  and the store after the session was created and the first observations were inserted.
\<close>

definition upsert_first :: wifi_device where
  "upsert_first =
     (scenario_wifi ''wifi_key_0'' ''AA:BB:CC:DD:EE:00'')
       \<lparr>wd_signal_dbm := Some (- 60), wd_packets_total := 10, wd_essid := None,
        wd_fingerprint_data := Some [(''device_type'', JStr ''wifi'')]\<rparr>"

definition upsert_second :: wifi_device where
  "upsert_second =
     (scenario_wifi ''wifi_key_0'' ''AA:BB:CC:DD:EE:00'')
       \<lparr>wd_signal_dbm := Some (- 45), wd_packets_total := 100, wd_essid := Some ''Guest'',
        wd_last_seen := Typed (Datetime ''2025-12-25T12:05:00'')\<rparr>"

definition upsert_third :: wifi_device where
  "upsert_third = upsert_second\<lparr>wd_essid := None, wd_fingerprint_data := Some []\<rparr>"

definition upsert_bt_first :: bt_device where
  "upsert_bt_first =
     (scenario_bt ''bt_key_0'' ''11:22:33:44:55:00'')
       \<lparr>bd_rssi := Some (- 70), bd_device_name := Some ''Headset''\<rparr>"

definition upsert_bt_second :: bt_device where
  "upsert_bt_second =
     (scenario_bt ''bt_key_0'' ''11:22:33:44:55:00'')
       \<lparr>bd_rssi := Some (- 50), bd_device_name := None,
        bd_last_seen := Typed (Datetime ''2025-12-25T12:05:00'')\<rparr>"

definition upsert_store :: store where
  "upsert_store =
     (case bind_err (create_session scenario_session initialize_schema) (\<lambda>created.
           bind_err (do_insert_wifi upsert_first (snd created)) (do_insert_bt upsert_bt_first))
      of Inl e \<Rightarrow> empty_store
       | Inr d \<Rightarrow> \<lparr>st_db = d, st_backup_dir = []\<rparr>)"

text \<open>The \<open>fingerprint_data\<close> column of the Wi-Fi rows after a call of \<open>insert_wifi_device\<close>.\<close>

definition stored_fingerprint_data :: "py_error + (bool \<times> store) \<Rightarrow> string option list" where
  "stored_fingerprint_data res =
     (case res of
        Inl e \<Rightarrow> []
      | Inr r \<Rightarrow> map w_fingerprint_data (wifi_devices (st_db (snd r))))"

text \<open>
  The database of the unit test \<open>test_get_devices_near\<close>, with a Bluetooth device at
  the centre of the query.
\<close>

definition near_wifi :: "string \<Rightarrow> string \<Rightarrow> real \<Rightarrow> real \<Rightarrow> wifi_device" where
  "near_wifi key bssid lat lon =
     (scenario_wifi key bssid)\<lparr>wd_gps_lat := Some lat, wd_gps_lon := Some lon,
                                wd_gps_valid := True\<rparr>"

definition near_db :: db where
  "near_db =
     initialize_schema
       \<lparr>wifi_devices :=
          [wifi_new_row 1 ''airdump_scan_20251225_120000''
             (near_wifi ''key_2'' ''AA:BB:CC:DD:EE:02'' 51.5084 (- 0.1278))
             ''unknown'' ''2025-12-25T12:00:01'' ''2025-12-25T12:00:01'',
           wifi_new_row 2 ''airdump_scan_20251225_120000''
             (near_wifi ''key_1'' ''AA:BB:CC:DD:EE:01'' 51.5075 (- 0.1279))
             ''unknown'' ''2025-12-25T12:00:01'' ''2025-12-25T12:00:01'',
           wifi_new_row 3 ''airdump_scan_20251225_120000''
             (near_wifi ''key_0'' ''AA:BB:CC:DD:EE:00'' 51.5074 (- 0.1278))
             ''unknown'' ''2025-12-25T12:00:01'' ''2025-12-25T12:00:01''],
        bt_devices :=
          [bt_new_row 1 ''airdump_scan_20251225_120000''
             ((scenario_bt ''bt_key_0'' ''11:22:33:44:55:00'')
                \<lparr>bd_gps_lat := Some 51.5074, bd_gps_lon := Some (- 0.1278),
                 bd_gps_valid := True\<rparr>)
             ''unknown'' ''2025-12-25T12:00:02'' ''2025-12-25T12:00:02'']\<rparr>"

text \<open>
  The buffering scenario: the insert of a Wi-Fi device fails on every retry because its
  session row does not exist yet, so the device is buffered to a file; the session is
  then created and \<open>import_buffered_records\<close> is called.
\<close>

definition drain_device :: wifi_device where
  "drain_device = scenario_wifi ''wifi_key_0'' ''AA:BB:CC:DD:EE:00''"

definition drain_scenario :: "py_error + (nat \<times> store)" where
  "drain_scenario =
     bind_err (insert_wifi_device 1766664000 drain_device 3 empty_store) (\<lambda>buffered.
     bind_err (create_session scenario_session (st_db (snd buffered))) (\<lambda>created.
       Inr (import_buffered_records ((snd buffered)\<lparr>st_db := snd created\<rparr>))))"

text \<open>The names and line counts of the files in \<open>backup_dir\<close> after an insert.\<close>

definition buffered_files :: "py_error + (bool \<times> store) \<Rightarrow> (string \<times> nat) list" where
  "buffered_files res =
     (case res of
        Inl e \<Rightarrow> []
      | Inr r \<Rightarrow> map (\<lambda>f. (fst f, length (snd f))) (st_backup_dir (snd r)))"

text \<open>
  What a drain leaves: the number it returns, the names of the files in \<open>backup_dir\<close>
  and the device keys in \<open>wifi_devices\<close>.
\<close>

definition drain_outcome :: "py_error + (nat \<times> store) \<Rightarrow> (nat \<times> string list \<times> string list) option" where
  "drain_outcome res =
     (case res of
        Inl e \<Rightarrow> None
      | Inr r \<Rightarrow> Some (fst r, map fst (st_backup_dir (snd r)),
                        map w_device_key (wifi_devices (st_db (snd r)))))"

text \<open>
  A stand-in for \<open>datetime.fromtimestamp\<close>, which the scenarios below need as a value:
  the text of the result names the timestamp.
\<close>

definition fromtimestamp_text :: "int \<Rightarrow> datetime" where
  "fromtimestamp_text i = Datetime (''@'' @ py_str_int i)"

text \<open>A capture daemon that cannot be reached: every request ends in a transport error.\<close>

definition transport_error :: "int option \<Rightarrow> json option" where
  "transport_error last_time = None"

text \<open>
  Raw records of the repository's own test data: the first and the third entry of
  \<open>MOCK_KISMET_WIFI_DEVICES\<close> in \<open>tests/mocks/mock_data.py\<close>, and the record of the unit
  test \<open>test_parse_device_wifi\<close>.
\<close>

definition mock_wifi_ap :: json where
  "mock_wifi_ap =
     JDict [(''kismet.device.base.key'', JStr ''wifi_ap_001''),
            (''kismet.device.base.macaddr'', JStr ''AA:BB:CC:DD:EE:FF''),
            (''kismet.device.base.name'', JStr ''CorporateWiFi''),
            (''kismet.device.base.type'', JStr ''Wi-Fi AP''),
            (''kismet.device.base.channel'', JStr ''6''),
            (''kismet.device.base.frequency'', JInt 2437000),
            (''kismet.device.base.first_time'', JInt 1735120000),
            (''kismet.device.base.last_time'', JInt 1735121000),
            (''kismet.device.base.packets.total'', JInt 5000),
            (''kismet.device.base.crypt'', JStr ''WPA2''),
            (''kismet.device.base.manuf'', JStr ''Cisco''),
            (''dot11.device'',
               JDict [(''dot11.device.last_beaconed_ssid'', JStr ''CorporateWiFi''),
                      (''dot11.device.num_clients'', JInt 10)])]"

definition mock_wifi_client :: json where
  "mock_wifi_client =
     JDict [(''kismet.device.base.key'', JStr ''wifi_client_001''),
            (''kismet.device.base.macaddr'', JStr ''DA:A1:19:00:11:22''),
            (''kismet.device.base.name'', JStr []),
            (''kismet.device.base.type'', JStr ''Wi-Fi Client''),
            (''kismet.device.base.channel'', JStr ''6''),
            (''kismet.device.base.first_time'', JInt 1735120500),
            (''kismet.device.base.last_time'', JInt 1735121000),
            (''kismet.device.base.packets.total'', JInt 100),
            (''kismet.device.base.manuf'', JStr ''Apple''),
            (''dot11.device'',
               JDict [(''dot11.device.probed_ssid_map'',
                         JList [JDict [(''dot11.probedssid.ssid'', JStr ''HomeWiFi'')]])])]"

definition test_wifi_device :: json where
  "test_wifi_device =
     JDict [(''kismet.device.base.macaddr'', JStr ''AA:BB:CC:DD:EE:FF''),
            (''kismet.device.base.type'', JStr ''Wi-Fi Device''),
            (''kismet.device.base.first_time'', JInt 1735142400),
            (''kismet.device.base.last_time'', JInt 1735142500),
            (''kismet.device.base.channel'', JInt 6),
            (''kismet.device.base.frequency'', JInt 2437),
            (''kismet.device.base.signal/kismet.common.signal.last_signal'', JInt (- 45)),
            (''kismet.device.base.manuf'', JStr ''Apple''),
            (''kismet.device.base.packets.total'', JInt 150),
            (''dot11.device'', JDict [(''dot11.device.last_beaconed_ssid'', JStr ''TestNetwork'')])]"

text \<open>The \<open>device_type\<close> and \<open>bt_type\<close> of a parsed record.\<close>

definition parsed_types :: "py_error + kismet_device \<Rightarrow> (string \<times> string option) option" where
  "parsed_types res =
     (case res of Inl e \<Rightarrow> None | Inr device \<Rightarrow> Some (kd_device_type device, kd_bt_type device))"

text \<open>
  A controller that has polled at time 100, with one callback of each kind that counts
  its calls, and the devices and the two counters after a poll.
\<close>

definition polled_controller :: "(nat \<times> nat) kismet_controller" where
  "polled_controller =
     \<lparr>kc_devices = [],
      kc_new_device_callbacks = [\<lambda>device w. (Suc (fst w), snd w)],
      kc_device_update_callbacks = [\<lambda>device w. (fst w, Suc (snd w))],
      kc_last_poll_time = Some 100\<rparr>"

definition poll_outcome ::
  "py_error option \<times> (nat \<times> nat) kismet_controller \<times> (nat \<times> nat)
   \<Rightarrow> py_error option \<times> real option \<times> string list \<times> nat \<times> nat" where
  "poll_outcome res =
     (fst res, kc_last_poll_time (fst (snd res)),
      map (\<lambda>kv. kd_device_type (snd kv)) (kc_devices (fst (snd res))), snd (snd res))"

text \<open>
  A logger with the default thresholds, a history of size 100 and two subscribers that
  log every sample they get; a packet with no fix, and a packet with a 3D fix.
\<close>

definition logging_gps :: "(gps_position list \<times> gps_position list) gps_logger" where
  "logging_gps =
     \<lparr>gl_history_size = 100, gl_min_hdop = 10, gl_min_satellites = 4,
      gl_current_position = None, gl_position_history = [],
      gl_callbacks = [\<lambda>p w. (fst w @ [p], snd w), \<lambda>p w. (fst w, snd w @ [p])],
      gl_fix_count = 0, gl_no_fix_count = 0, gl_last_fix_time = None\<rparr>"

definition no_fix_packet :: gpsd_packet where
  "no_fix_packet =
     \<lparr>pk_position = Inl NoFixError, pk_altitude = Some (Inl NoFixError),
      pk_speed = Some (Inl NoFixError), pk_movement_track = Some (Inl NoFixError),
      pk_position_precision = Inr None, pk_sats = Inr [], pk_mode = Some 1\<rparr>"

definition fix_packet :: gpsd_packet where
  "fix_packet =
     \<lparr>pk_position = Inr (51.5074, - 0.1278), pk_altitude = Some (Inr 50),
      pk_speed = Some (Inr 5), pk_movement_track = Some (Inr (Some 90)),
      pk_position_precision = Inr (Some 1.5),
      pk_sats = Inr [True, True, True, True, True, False], pk_mode = Some 3\<rparr>"

text \<open>
  The probe of the fingerprint scenario: MAC \<open>AA:BB:CC:DD:EE:FF\<close>, SSID \<open>HomeWiFi\<close>, rates
  6, 12, 24 and 48 and HT capabilities \<open>1234\<close>, processed first without vendor elements
  and then, by the same fingerprinter, with the given ones. \<open>scenario_probes\<close> gives the
  two fingerprints and the signature data after the second probe.
\<close>

definition wps_ie :: vendor_ie where
  "wps_ie = [(''oui'', ''00:50:f2''), (''type'', ''4'')]"

definition wps_ie_upper :: vendor_ie where
  "wps_ie_upper = [(''oui'', ''00:50:F2''), (''type'', ''4'')]"

definition scenario_probe ::
  "vendor_ie list option \<Rightarrow> wifi_fingerprinter \<Rightarrow> string \<times> wifi_fingerprinter" where
  "scenario_probe vendor_ies fp =
     fingerprint_from_probe (Datetime ''2025-12-25T12:00:00'') ''AA:BB:CC:DD:EE:FF''
       ''HomeWiFi'' [6, 12, 24, 48] (Some ''1234'') None vendor_ies None fp"

definition scenario_probes :: "vendor_ie list option \<Rightarrow> string \<times> string \<times> json option" where
  "scenario_probes vendor_ies =
     (let first = scenario_probe None WiFiFingerprinter;
          second = scenario_probe vendor_ies (snd first)
      in (fst first, fst second, get_signature_data ''AA:BB:CC:DD:EE:FF'' True (snd second)))"

text \<open>The entry \<open>key\<close> of the dict \<open>capabilities\<close> in the signature data.\<close>

definition signature_capability :: "json option \<Rightarrow> string \<Rightarrow> json option" where
  "signature_capability data key =
     (case data of
        Some (JDict kvs) \<Rightarrow>
          (case map_of kvs ''capabilities'' of
             Some (JDict caps) \<Rightarrow> map_of caps key
           | _ \<Rightarrow> None)
      | _ \<Rightarrow> None)"

text \<open>The signature of the unit test \<open>test_signature_times_seen_increment\<close>.\<close>

definition example_signature :: fingerprint_signature where
  "example_signature =
     \<lparr>fs_fingerprint_hash = ''dup_hash'', fs_device_type = ''phone'',
      fs_device_model = None, fs_os_version = None, fs_confidence = 0,
      fs_identifiers = [], fs_first_seen = Datetime ''2025-12-25T12:00:00'',
      fs_times_seen = 1, fs_notes = None\<rparr>"

section \<open>Properties of the store\<close>

subsection \<open>Lists as tables\<close>

lemma find_append_fresh:
  "\<forall>r\<in>set xs. \<not> P r \<Longrightarrow> P x \<Longrightarrow> find P (xs @ [x]) = Some x"
  by (induction xs) auto

lemma find_none_fresh:
  "\<forall>r\<in>set xs. \<not> P r \<Longrightarrow> find P xs = None"
  by (induction xs) auto

lemma map_upd_last:
  "\<forall>r\<in>set xs. \<not> Q r \<Longrightarrow> Q x \<Longrightarrow>
     map (\<lambda>r. if Q r then f r else r) (xs @ [x]) = xs @ [f x]"
  by (induction xs) auto

subsection \<open>Signatures\<close>

lemma insert_signature_fresh:
  assumes "\<forall>r\<in>set (fingerprint_signatures d). sg_fingerprint_hash r \<noteq> fs_fingerprint_hash sig"
  shows "insert_signature sig d =
           Inr (d\<lparr>fingerprint_signatures :=
                    fingerprint_signatures d @ [sig_new_row (Suc (seq_sig d)) sig],
                  seq_sig := Suc (seq_sig d)\<rparr>)"
  using assms by (simp add: insert_signature_def find_none_fresh Let_def)

lemma insert_signature_again:
  assumes "fingerprint_signatures d = old @ [row\<lparr>sg_times_seen := Some k\<rparr>]"
    and "\<forall>r\<in>set old. sg_fingerprint_hash r \<noteq> sg_fingerprint_hash row"
    and "\<forall>r\<in>set old. sg_id r \<noteq> sg_id row"
    and "fs_fingerprint_hash s = sg_fingerprint_hash row"
  shows "insert_signature s d =
           Inr (d\<lparr>fingerprint_signatures := old @ [row\<lparr>sg_times_seen := Some (k + 1)\<rparr>]\<rparr>)"
proof -
  let ?x = "row\<lparr>sg_times_seen := Some k\<rparr>"
  have f: "find (\<lambda>r. sg_fingerprint_hash r = fs_fingerprint_hash s) (old @ [?x]) = Some ?x"
    using assms(2,4) by (intro find_append_fresh) auto
  have m: "map (\<lambda>r. if sg_id r = sg_id ?x then r\<lparr>sg_times_seen := Some (k + 1)\<rparr> else r)
             (old @ [?x])
           = old @ [?x\<lparr>sg_times_seen := Some (k + 1)\<rparr>]"
    using assms(3) by (intro map_upd_last) auto
  show ?thesis
    unfolding insert_signature_def assms(1) f using m by simp
qed

lemma insert_signatures_again:
  assumes "fingerprint_signatures d = old @ [row\<lparr>sg_times_seen := Some k\<rparr>]"
    and "\<forall>r\<in>set old. sg_fingerprint_hash r \<noteq> sg_fingerprint_hash row"
    and "\<forall>r\<in>set old. sg_id r \<noteq> sg_id row"
    and "\<forall>s\<in>set sigs. fs_fingerprint_hash s = sg_fingerprint_hash row"
  shows "\<exists>d'. insert_signatures sigs d = Inr d' \<and>
           fingerprint_signatures d' =
             old @ [row\<lparr>sg_times_seen := Some (k + int (length sigs))\<rparr>]"
  using assms
proof (induction sigs arbitrary: d k)
  case Nil
  then show ?case by simp
next
  case (Cons s sigs)
  let ?d = "d\<lparr>fingerprint_signatures := old @ [row\<lparr>sg_times_seen := Some (k + 1)\<rparr>]\<rparr>"
  have step: "insert_signature s d = Inr ?d"
    using Cons.prems by (intro insert_signature_again) auto
  have "\<exists>d'. insert_signatures sigs ?d = Inr d' \<and>
           fingerprint_signatures d' =
             old @ [row\<lparr>sg_times_seen := Some (k + 1 + int (length sigs))\<rparr>]"
    using Cons.prems by (intro Cons.IH) auto
  then show ?case using step by (auto simp: algebra_simps)
qed

text \<open>
  Claim C3. Let the signatures table hold no row with the fingerprint hash of \<open>sig\<close>
  (and, as \<open>AUTOINCREMENT\<close> keeps it, no rowid above the table's sequence). Calling
  \<open>insert_signature\<close> n times with signatures of that hash, \<open>sig\<close> first, succeeds and
  leaves the old rows as they were plus exactly one row for the hash: the row that the
  first call inserted, with \<open>times_seen = n\<close> and every other column unchanged.
\<close>

theorem insert_signature_n_times:
  assumes fresh:
      "\<forall>r\<in>set (fingerprint_signatures d). sg_fingerprint_hash r \<noteq> fs_fingerprint_hash sig"
    and ids: "\<forall>r\<in>set (fingerprint_signatures d). sg_id r \<le> seq_sig d"
    and same: "\<forall>s\<in>set sigs. fs_fingerprint_hash s = fs_fingerprint_hash sig"
  shows "\<exists>d'. insert_signatures (sig # sigs) d = Inr d' \<and>
           fingerprint_signatures d' =
             fingerprint_signatures d @
               [(sig_new_row (Suc (seq_sig d)) sig)
                  \<lparr>sg_times_seen := Some (int (length (sig # sigs)))\<rparr>]"
proof -
  let ?row = "sig_new_row (Suc (seq_sig d)) sig"
  let ?d1 = "d\<lparr>fingerprint_signatures := fingerprint_signatures d @ [?row],
                  seq_sig := Suc (seq_sig d)\<rparr>"
  have first: "insert_signature sig d = Inr ?d1"
    using fresh by (rule insert_signature_fresh)
  have "\<exists>d'. insert_signatures sigs ?d1 = Inr d' \<and>
           fingerprint_signatures d' =
             fingerprint_signatures d @ [?row\<lparr>sg_times_seen := Some (1 + int (length sigs))\<rparr>]"
  proof (rule insert_signatures_again)
    show "fingerprint_signatures ?d1 =
            fingerprint_signatures d @ [?row\<lparr>sg_times_seen := Some 1\<rparr>]"
      by (simp add: sig_new_row_def)
    show "\<forall>r\<in>set (fingerprint_signatures d). sg_fingerprint_hash r \<noteq> sg_fingerprint_hash ?row"
      using fresh by (simp add: sig_new_row_def)
    show "\<forall>r\<in>set (fingerprint_signatures d). sg_id r \<noteq> sg_id ?row"
      using ids by (auto simp: sig_new_row_def)
    show "\<forall>s\<in>set sigs. fs_fingerprint_hash s = sg_fingerprint_hash ?row"
      using same by (simp add: sig_new_row_def)
  qed
  then show ?thesis using first by (auto simp: algebra_simps)
qed

theorem insert_signature_n_times_witness:
  "\<exists>d'. insert_signatures [example_signature, example_signature, example_signature]
            initialize_schema = Inr d' \<and>
         fingerprint_signatures d' =
           [(sig_new_row 1 example_signature)\<lparr>sg_times_seen := Some 3\<rparr>]"
proof -
  have a: "\<forall>r\<in>set (fingerprint_signatures initialize_schema).
             sg_fingerprint_hash r \<noteq> fs_fingerprint_hash example_signature"
    by (simp add: initialize_schema_def)
  have b: "\<forall>r\<in>set (fingerprint_signatures initialize_schema). sg_id r \<le> seq_sig initialize_schema"
    by (simp add: initialize_schema_def)
  have c: "\<forall>s\<in>set [example_signature, example_signature].
             fs_fingerprint_hash s = fs_fingerprint_hash example_signature"
    by simp
  have e: "fingerprint_signatures initialize_schema = []" "seq_sig initialize_schema = 0"
    by (simp_all add: initialize_schema_def)
  show ?thesis
    using insert_signature_n_times [OF a b c] unfolding e by simp
qed

subsection \<open>Session lifecycle\<close>

lemma wifi_new_row_key [simp]:
  "w_session_id (wifi_new_row rid sid w ty fs ls) = sid"
  "w_device_key (wifi_new_row rid sid w ty fs ls) = wd_device_key w"
  "w_id (wifi_new_row rid sid w ty fs ls) = rid"
  by (simp_all add: wifi_new_row_def)

lemma bt_new_row_key [simp]:
  "b_session_id (bt_new_row rid sid b ty fs ls) = sid"
  "b_device_key (bt_new_row rid sid b ty fs ls) = bd_device_key b"
  "b_id (bt_new_row rid sid b ty fs ls) = rid"
  by (simp_all add: bt_new_row_def)

lemma is_typed_iff: "is_typed x \<longleftrightarrow> (\<exists>v. x = Typed v)"
  by (cases x) simp_all

lemma session_exists_cong:
  "scan_sessions d' = scan_sessions d \<Longrightarrow> session_exists d' sid = session_exists d sid"
  by (simp add: session_exists_def)

lemma do_insert_wifi_new:
  assumes "wd_device_type w = Typed t" "wd_first_seen w = Typed f" "wd_last_seen w = Typed l"
    and "wd_session_id w = Some sid" "session_exists d sid"
    and "\<forall>r\<in>set (wifi_devices d). \<not> (w_session_id r = sid \<and> w_device_key r = wd_device_key w)"
  shows "do_insert_wifi w d =
            Inr (d\<lparr>wifi_devices := wifi_devices d @
                      [wifi_new_row (Suc (seq_wifi d)) sid w (device_type_value t)
                         (isoformat f) (isoformat l)],
                   seq_wifi := Suc (seq_wifi d)\<rparr>)"
proof -
  have "find (\<lambda>r. Some (w_session_id r) = wd_session_id w \<and> w_device_key r = wd_device_key w)
          (wifi_devices d) = None"
    using assms(4,6) by (intro find_none_fresh) auto
  then show ?thesis
    using assms by (simp add: do_insert_wifi_def Let_def)
qed

lemma do_insert_bt_new:
  assumes "bd_device_type b = Typed t" "bd_first_seen b = Typed f" "bd_last_seen b = Typed l"
    and "bd_session_id b = Some sid" "session_exists d sid"
    and "\<forall>r\<in>set (bt_devices d). \<not> (b_session_id r = sid \<and> b_device_key r = bd_device_key b)"
  shows "do_insert_bt b d =
            Inr (d\<lparr>bt_devices := bt_devices d @
                      [bt_new_row (Suc (seq_bt d)) sid b (bt_device_type_value t)
                         (isoformat f) (isoformat l)],
                   seq_bt := Suc (seq_bt d)\<rparr>)"
proof -
  have "find (\<lambda>r. Some (b_session_id r) = bd_session_id b \<and> b_device_key r = bd_device_key b)
          (bt_devices d) = None"
    using assms(4,6) by (intro find_none_fresh) auto
  then show ?thesis
    using assms by (simp add: do_insert_bt_def Let_def)
qed

lemma insert_wifi_device_ok:
  assumes "do_insert_wifi w (st_db st) = Inr d'"
  shows "insert_wifi_device epoch w (Suc n) st = Inr (True, st\<lparr>st_db := d'\<rparr>)"
  using assms by (simp add: insert_wifi_device_def)

lemma insert_bt_device_ok:
  assumes "do_insert_bt b (st_db st) = Inr d'"
  shows "insert_bt_device epoch b (Suc n) st = Inr (True, st\<lparr>st_db := d'\<rparr>)"
  using assms by (simp add: insert_bt_device_def)

lemma insert_gps_points_ok:
  assumes "session_exists d sid"
  shows "\<exists>rows. insert_gps_points now sid points d =
            Inr (d\<lparr>gps_track := gps_track d @ rows, seq_gps := seq_gps d + length points\<rparr>)
          \<and> length rows = length points \<and> (\<forall>r\<in>set rows. g_session_id r = sid)"
  using assms
proof (induction points arbitrary: d)
  case Nil
  then show ?case by (simp add: bind_err_def)
next
  case (Cons a as)
  let ?row = "\<lparr>g_id = Suc (seq_gps d), g_session_id = sid,
                g_timestamp = isoformat (case ga_timestamp a of Some t \<Rightarrow> t | None \<Rightarrow> now),
                g_latitude = ga_lat a, g_longitude = ga_lon a, g_altitude = ga_alt a,
                g_speed = ga_speed a, g_track = ga_track a, g_fix_quality = ga_fix_quality a,
                g_hdop = ga_hdop a, g_satellites = ga_satellites a\<rparr>"
  let ?d = "d\<lparr>gps_track := gps_track d @ [?row], seq_gps := Suc (seq_gps d)\<rparr>"
  have one: "insert_gps_point now sid (ga_lat a) (ga_lon a) (ga_alt a) (ga_speed a)
          (ga_track a) (ga_fix_quality a) (ga_hdop a) (ga_satellites a) (ga_timestamp a) d = Inr ?d"
    using Cons.prems by (simp add: insert_gps_point_def Let_def)
  have "session_exists ?d sid"
    using Cons.prems by (simp add: session_exists_def)
  from Cons.IH [OF this] obtain rows where
    r: "insert_gps_points now sid as ?d =
            Inr (?d\<lparr>gps_track := gps_track ?d @ rows, seq_gps := seq_gps ?d + length as\<rparr>)"
       "length rows = length as" "\<forall>r\<in>set rows. g_session_id r = sid"
    by blast
  show ?case
    by (rule exI [of _ "?row # rows"]) (use one r in \<open>simp add: bind_err_def\<close>)
qed

lemma create_session_fresh:
  assumes "\<not> session_exists d (ss_session_id s)"
  shows "\<exists>rid d'. create_session s d = Inr (rid, d') \<and>
           wifi_devices d' = wifi_devices d \<and> bt_devices d' = bt_devices d \<and>
           gps_track d' = gps_track d \<and>
           session_exists d' (ss_session_id s) \<and>
           map_option s_status (get_session d' (ss_session_id s)) =
             Some (status_param (ss_status s))"
proof -
  have "\<forall>r\<in>set (scan_sessions d). \<not> (s_session_id r = ss_session_id s)"
    using assms by (auto simp: session_exists_def)
  then show ?thesis
    using assms
    by (simp add: create_session_def Let_def session_exists_def get_session_def find_append_fresh)
qed

lemma find_map_upd:
  "(\<And>r. P r \<Longrightarrow> P (f r)) \<Longrightarrow>
     find P (map (\<lambda>r. if P r then f r else r) xs) = map_option f (find P xs)"
  by (induction xs) auto

lemma get_session_end_session:
  "get_session (end_session now sid et d) sid =
     map_option (\<lambda>r. r\<lparr>s_end_time := Some (isoformat (case et of Some t \<Rightarrow> t | None \<Rightarrow> now))\<rparr>)
       (get_session d sid)"
  unfolding get_session_def end_session_def Let_def
  by (simp add: find_map_upd [where P = "\<lambda>r. s_session_id r = sid"])

lemma end_session_tables [simp]:
  "wifi_devices (end_session now sid et d) = wifi_devices d"
  "bt_devices (end_session now sid et d) = bt_devices d"
  "gps_track (end_session now sid et d) = gps_track d"
  by (simp_all add: end_session_def Let_def)

lemma filter_fresh_append:
  "\<forall>r\<in>set xs. \<not> P r \<Longrightarrow> \<forall>r\<in>set ys. P r \<Longrightarrow> length (filter P (xs @ ys)) = length ys"
  by (induction xs) auto

text \<open>
  Claim C9, as the code has it. On a store that knows nothing of the session, creating
  the session, inserting two typed Wi-Fi devices of the session with distinct device
  keys, one typed Bluetooth device and five GPS points, and calling \<open>end_session\<close>
  succeeds; \<open>get_session_stats\<close> then counts 2 Wi-Fi devices, 1 Bluetooth device and 5 GPS
  points, and the session row has its \<open>end_time\<close> set and the \<open>status\<close> that it was created
  with: \<open>end_session\<close> writes \<open>end_time\<close> only.
\<close>

theorem session_lifecycle_stats:
  assumes fresh: "\<not> session_exists (st_db st) (ss_session_id session)"
    and nw: "\<forall>r\<in>set (wifi_devices (st_db st)). w_session_id r \<noteq> ss_session_id session"
    and nb: "\<forall>r\<in>set (bt_devices (st_db st)). b_session_id r \<noteq> ss_session_id session"
    and ng: "\<forall>r\<in>set (gps_track (st_db st)). g_session_id r \<noteq> ss_session_id session"
    and w1: "wifi_typed w1" "wd_session_id w1 = Some (ss_session_id session)"
    and w2: "wifi_typed w2" "wd_session_id w2 = Some (ss_session_id session)"
    and keys: "wd_device_key w1 \<noteq> wd_device_key w2"
    and b: "bt_typed b" "bd_session_id b = Some (ss_session_id session)"
    and five: "length points = 5"
  shows "\<exists>st'. session_lifecycle now epoch session w1 w2 b points end_time st = Inr st' \<and>
           st_wifi_devices (get_session_stats (st_db st') (ss_session_id session)) = 2 \<and>
           st_bt_devices (get_session_stats (st_db st') (ss_session_id session)) = 1 \<and>
           st_gps_points (get_session_stats (st_db st') (ss_session_id session)) = 5 \<and>
           map_option s_status (get_session (st_db st') (ss_session_id session)) =
             Some (status_param (ss_status session)) \<and>
           map_option s_end_time (get_session (st_db st') (ss_session_id session)) =
             Some (Some (isoformat (case end_time of Some t \<Rightarrow> t | None \<Rightarrow> now)))"
proof -
  let ?sid = "ss_session_id session"
  let ?d0 = "st_db st"
  obtain rid d1 where c: "create_session session ?d0 = Inr (rid, d1)"
    and d1: "wifi_devices d1 = wifi_devices ?d0" "bt_devices d1 = bt_devices ?d0"
      "gps_track d1 = gps_track ?d0" "session_exists d1 ?sid"
    and g1: "map_option s_status (get_session d1 ?sid) = Some (status_param (ss_status session))"
    using create_session_fresh [OF fresh] by force
  obtain t1 f1 l1 where tw1: "wd_device_type w1 = Typed t1" "wd_first_seen w1 = Typed f1"
      "wd_last_seen w1 = Typed l1"
    using w1(1) by (auto simp: wifi_typed_def is_typed_iff)
  obtain t2 f2 l2 where tw2: "wd_device_type w2 = Typed t2" "wd_first_seen w2 = Typed f2"
      "wd_last_seen w2 = Typed l2"
    using w2(1) by (auto simp: wifi_typed_def is_typed_iff)
  obtain tb fb lb where tb: "bd_device_type b = Typed tb" "bd_first_seen b = Typed fb"
      "bd_last_seen b = Typed lb"
    using b(1) by (auto simp: bt_typed_def is_typed_iff)
  let ?r1 = "wifi_new_row (Suc (seq_wifi d1)) ?sid w1 (device_type_value t1)
               (isoformat f1) (isoformat l1)"
  let ?d2 = "d1\<lparr>wifi_devices := wifi_devices d1 @ [?r1], seq_wifi := Suc (seq_wifi d1)\<rparr>"
  have i1: "do_insert_wifi w1 d1 = Inr ?d2"
    using tw1 w1(2) d1 nw by (intro do_insert_wifi_new) auto
  let ?r2 = "wifi_new_row (Suc (seq_wifi ?d2)) ?sid w2 (device_type_value t2)
               (isoformat f2) (isoformat l2)"
  let ?d3 = "?d2\<lparr>wifi_devices := wifi_devices ?d2 @ [?r2], seq_wifi := Suc (seq_wifi ?d2)\<rparr>"
  have e2: "session_exists ?d2 ?sid"
    using d1(4) by (simp add: session_exists_def)
  have i2: "do_insert_wifi w2 ?d2 = Inr ?d3"
    using tw2 w2(2) e2 d1 nw keys by (intro do_insert_wifi_new) auto
  let ?rb = "bt_new_row (Suc (seq_bt ?d3)) ?sid b (bt_device_type_value tb)
               (isoformat fb) (isoformat lb)"
  let ?d4 = "?d3\<lparr>bt_devices := bt_devices ?d3 @ [?rb], seq_bt := Suc (seq_bt ?d3)\<rparr>"
  have e3: "session_exists ?d3 ?sid"
    using d1(4) by (simp add: session_exists_def)
  have i3: "do_insert_bt b ?d3 = Inr ?d4"
    using tb b(2) e3 d1 nb by (intro do_insert_bt_new) auto
  have e4: "session_exists ?d4 ?sid"
    using d1(4) by (simp add: session_exists_def)
  obtain rows where
    i4: "insert_gps_points now ?sid points ?d4 =
            Inr (?d4\<lparr>gps_track := gps_track ?d4 @ rows, seq_gps := seq_gps ?d4 + length points\<rparr>)"
    and rows: "length rows = length points" "\<forall>r\<in>set rows. g_session_id r = ?sid"
    using insert_gps_points_ok [OF e4] by blast
  let ?d5 = "?d4\<lparr>gps_track := gps_track ?d4 @ rows, seq_gps := seq_gps ?d4 + length points\<rparr>"
  let ?st' = "st\<lparr>st_db := end_session now ?sid end_time ?d5\<rparr>"
  have run: "session_lifecycle now epoch session w1 w2 b points end_time st = Inr ?st'"
    unfolding session_lifecycle_def
    using c i4
      insert_wifi_device_ok [of w1 "st\<lparr>st_db := d1\<rparr>" ?d2 epoch 2]
      insert_wifi_device_ok [of w2 "st\<lparr>st_db := ?d2\<rparr>" ?d3 epoch 2]
      insert_bt_device_ok [of b "st\<lparr>st_db := ?d3\<rparr>" ?d4 epoch 2]
      i1 i2 i3
    by (simp add: bind_err_def numeral_3_eq_3)
  have sw: "st_wifi_devices (get_session_stats (st_db ?st') ?sid) = 2"
    using filter_fresh_append [of "wifi_devices ?d0" "\<lambda>r. w_session_id r = ?sid" "[?r1, ?r2]"] nw d1
    by (simp add: get_session_stats_def)
  have sb: "st_bt_devices (get_session_stats (st_db ?st') ?sid) = 1"
    using filter_fresh_append [of "bt_devices ?d0" "\<lambda>r. b_session_id r = ?sid" "[?rb]"] nb d1
    by (simp add: get_session_stats_def)
  have sg: "st_gps_points (get_session_stats (st_db ?st') ?sid) = 5"
    using filter_fresh_append [of "gps_track ?d0" "\<lambda>r. g_session_id r = ?sid" rows] ng d1 rows five
    by (simp add: get_session_stats_def)
  have gs: "get_session ?d5 ?sid = get_session d1 ?sid"
    by (simp add: get_session_def)
  have db': "st_db ?st' = end_session now ?sid end_time ?d5"
    by simp
  have gs': "get_session (st_db ?st') ?sid =
      map_option (\<lambda>r. r\<lparr>s_end_time :=
          Some (isoformat (case end_time of Some t \<Rightarrow> t | None \<Rightarrow> now))\<rparr>)
        (get_session d1 ?sid)"
    by (simp only: db' get_session_end_session gs)
  have s1: "map_option s_status (get_session (st_db ?st') ?sid) =
             Some (status_param (ss_status session))"
    unfolding gs' using g1 by (auto simp: option.map_comp comp_def)
  have s2: "map_option s_end_time (get_session (st_db ?st') ?sid) =
             Some (Some (isoformat (case end_time of Some t \<Rightarrow> t | None \<Rightarrow> now)))"
    unfolding gs' using g1 by (auto simp: option.map_comp comp_def)
  show ?thesis
    using run sw sb sg s1 s2 by blast
qed

theorem session_lifecycle_stats_witness:
  "\<exists>st'. scenario_lifecycle = Inr st' \<and>
     st_wifi_devices (get_session_stats (st_db st') ''airdump_scan_20251225_120000'') = 2 \<and>
     st_bt_devices (get_session_stats (st_db st') ''airdump_scan_20251225_120000'') = 1 \<and>
     st_gps_points (get_session_stats (st_db st') ''airdump_scan_20251225_120000'') = 5 \<and>
     map_option s_status (get_session (st_db st') ''airdump_scan_20251225_120000'') =
       Some ''starting'' \<and>
     map_option s_end_time (get_session (st_db st') ''airdump_scan_20251225_120000'') =
       Some (Some ''2025-12-25T12:10:00'')"
proof -
  have sid: "ss_session_id scenario_session = ''airdump_scan_20251225_120000''"
    by (simp add: scenario_session_def)
  have st: "status_param (ss_status scenario_session) = ''starting''"
    by (simp add: scenario_session_def status_param_def)
  have db: "scan_sessions (st_db empty_store) = []" "wifi_devices (st_db empty_store) = []"
    "bt_devices (st_db empty_store) = []" "gps_track (st_db empty_store) = []"
    by (simp_all add: empty_store_def initialize_schema_def)
  show ?thesis
    unfolding scenario_lifecycle_def
    using session_lifecycle_stats
      [of empty_store scenario_session "scenario_wifi ''wifi_key_0'' ''AA:BB:CC:DD:EE:00''"
          "scenario_wifi ''wifi_key_1'' ''AA:BB:CC:DD:EE:01''"
          "scenario_bt ''bt_key_0'' ''11:22:33:44:55:00''" "replicate 5 scenario_point"
          "Datetime ''2025-12-25T12:10:00''" 1766664000 None]
    unfolding sid st
    by (simp add: db session_exists_def wifi_typed_def bt_typed_def scenario_wifi_def
          scenario_bt_def)
qed

text \<open>
  In the scenario of the specification, with a session created with the default status,
  the status after \<open>end_session\<close> is \<open>starting\<close>, not \<open>stopped\<close>.
\<close>

theorem end_session_status_counterexample:
  "session_status scenario_lifecycle ''airdump_scan_20251225_120000'' = Some ''starting'' \<and>
   session_status scenario_lifecycle ''airdump_scan_20251225_120000'' \<noteq> Some ''stopped''"
  unfolding scenario_lifecycle_def session_status_def
  by code_simp

subsection \<open>Upsert of devices\<close>

lemma map_upd_unique:
  assumes "find P xs = Some old" "\<forall>r\<in>set xs. key r = key old \<longrightarrow> r = old"
  shows "map (\<lambda>r. if key r = key old then f r else r) xs
         = map (\<lambda>r. if r = old then f old else r) xs"
  using assms by (intro map_cong) auto

lemma wifi_merge:
  assumes found: "find (\<lambda>r. Some (w_session_id r) = wd_session_id w
                         \<and> w_device_key r = wd_device_key w) (wifi_devices (st_db st)) = Some old"
    and ids: "\<forall>r\<in>set (wifi_devices (st_db st)). w_id r = w_id old \<longrightarrow> r = old"
    and typed: "is_typed (wd_last_seen w)"
    and retries: "0 < retries"
  shows "\<exists>st' new. insert_wifi_device epoch w retries st = Inr (True, st') \<and>
           st_backup_dir st' = st_backup_dir st \<and>
           wifi_devices (st_db st') =
             map (\<lambda>r. if r = old then new else r) (wifi_devices (st_db st)) \<and>
           w_essid new = (case wd_essid w of Some v \<Rightarrow> Some v | None \<Rightarrow> w_essid old) \<and>
           w_encryption new =
             (case wd_encryption w of Some v \<Rightarrow> Some v | None \<Rightarrow> w_encryption old) \<and>
           w_fingerprint_hash new =
             (case wd_fingerprint_hash w of Some v \<Rightarrow> Some v | None \<Rightarrow> w_fingerprint_hash old) \<and>
           w_fingerprint_data new =
             (case wd_fingerprint_data w of
                None \<Rightarrow> w_fingerprint_data old
              | Some kvs \<Rightarrow> if kvs = [] then w_fingerprint_data old
                            else Some (json_dumps False (JDict kvs))) \<and>
           w_signal_dbm new = wd_signal_dbm w \<and>
           w_packets_total new = wd_packets_total w \<and>
           attr_isoformat (wd_last_seen w) = Inr (w_last_seen new) \<and>
           w_gps_lat new = wd_gps_lat w \<and> w_gps_lon new = wd_gps_lon w \<and>
           w_gps_alt new = wd_gps_alt w \<and> w_gps_valid new = wd_gps_valid w \<and>
           w_first_seen new = w_first_seen old \<and>
           w_device_key new = w_device_key old \<and>
           w_bssid new = w_bssid old"
proof -
  obtain l where l: "wd_last_seen w = Typed l"
    using typed by (auto simp: is_typed_iff)
  obtain n where n: "retries = Suc n"
    using retries by (cases retries) auto
  let ?new = "wifi_update_row w (isoformat l) old"
  let ?d = "(st_db st)\<lparr>wifi_devices :=
              map (\<lambda>r. if r = old then ?new else r) (wifi_devices (st_db st))\<rparr>"
  have m: "map (\<lambda>r. if w_id r = w_id old then wifi_update_row w (isoformat l) r else r)
             (wifi_devices (st_db st))
           = map (\<lambda>r. if r = old then ?new else r) (wifi_devices (st_db st))"
    using found ids by (rule map_upd_unique)
  have ins: "do_insert_wifi w (st_db st) = Inr ?d"
    unfolding do_insert_wifi_def found using l m by simp
  have run: "insert_wifi_device epoch w retries st = Inr (True, st\<lparr>st_db := ?d\<rparr>)"
    unfolding n using ins by (rule insert_wifi_device_ok)
  show ?thesis
    apply (rule exI [of _ "st\<lparr>st_db := ?d\<rparr>"])
    apply (rule exI [of _ ?new])
    using run l
    by (simp add: wifi_update_row_def coalesce_def fingerprint_data_param_def
          split: option.splits)
qed

lemma bt_merge:
  assumes found: "find (\<lambda>r. Some (b_session_id r) = bd_session_id b
                         \<and> b_device_key r = bd_device_key b) (bt_devices (st_db st)) = Some old"
    and ids: "\<forall>r\<in>set (bt_devices (st_db st)). b_id r = b_id old \<longrightarrow> r = old"
    and typed: "is_typed (bd_last_seen b)"
    and retries: "0 < retries"
  shows "\<exists>st' new. insert_bt_device epoch b retries st = Inr (True, st') \<and>
           st_backup_dir st' = st_backup_dir st \<and>
           bt_devices (st_db st') =
             map (\<lambda>r. if r = old then new else r) (bt_devices (st_db st)) \<and>
           b_device_name new =
             (case bd_device_name b of Some v \<Rightarrow> Some v | None \<Rightarrow> b_device_name old) \<and>
           b_device_class new =
             (case bd_device_class b of Some v \<Rightarrow> Some v | None \<Rightarrow> b_device_class old) \<and>
           b_fingerprint_hash new =
             (case bd_fingerprint_hash b of Some v \<Rightarrow> Some v | None \<Rightarrow> b_fingerprint_hash old) \<and>
           b_fingerprint_data new =
             (case bd_fingerprint_data b of
                None \<Rightarrow> b_fingerprint_data old
              | Some kvs \<Rightarrow> if kvs = [] then b_fingerprint_data old
                            else Some (json_dumps False (JDict kvs))) \<and>
           b_rssi new = bd_rssi b \<and>
           attr_isoformat (bd_last_seen b) = Inr (b_last_seen new) \<and>
           b_gps_lat new = bd_gps_lat b \<and> b_gps_lon new = bd_gps_lon b \<and>
           b_gps_alt new = bd_gps_alt b \<and> b_gps_valid new = bd_gps_valid b \<and>
           b_first_seen new = b_first_seen old \<and>
           b_device_key new = b_device_key old \<and>
           b_mac_address new = b_mac_address old"
proof -
  obtain l where l: "bd_last_seen b = Typed l"
    using typed by (auto simp: is_typed_iff)
  obtain n where n: "retries = Suc n"
    using retries by (cases retries) auto
  let ?new = "bt_update_row b (isoformat l) old"
  let ?d = "(st_db st)\<lparr>bt_devices :=
              map (\<lambda>r. if r = old then ?new else r) (bt_devices (st_db st))\<rparr>"
  have m: "map (\<lambda>r. if b_id r = b_id old then bt_update_row b (isoformat l) r else r)
             (bt_devices (st_db st))
           = map (\<lambda>r. if r = old then ?new else r) (bt_devices (st_db st))"
    using found ids by (rule map_upd_unique)
  have ins: "do_insert_bt b (st_db st) = Inr ?d"
    unfolding do_insert_bt_def found using l m by simp
  have run: "insert_bt_device epoch b retries st = Inr (True, st\<lparr>st_db := ?d\<rparr>)"
    unfolding n using ins by (rule insert_bt_device_ok)
  show ?thesis
    apply (rule exI [of _ "st\<lparr>st_db := ?d\<rparr>"])
    apply (rule exI [of _ ?new])
    using run l
    by (simp add: bt_update_row_def coalesce_def fingerprint_data_param_def
          split: option.splits)
qed

text \<open>
  Claim C4, as the code has it. When \<open>insert_wifi_device\<close> or \<open>insert_bt_device\<close> is
  called with at least one retry for a \<open>(session_id, device_key)\<close> that has a row (whose
  rowid no other row has), with a \<open>datetime\<close> as \<open>last_seen\<close>, the call succeeds, buffers
  nothing and changes that row only. In the row, \<open>essid\<close>, \<open>encryption\<close>,
  \<open>fingerprint_hash\<close>, \<open>device_name\<close> and \<open>device_class\<close> keep their value unless the
  incoming value is non-null, and are replaced then; \<open>fingerprint_data\<close> keeps its value
  unless the incoming dict is non-null and not empty, and is replaced by its JSON text
  then; \<open>signal_dbm\<close> or \<open>rssi\<close>, \<open>packets_total\<close> (Wi-Fi), \<open>last_seen\<close> and the GPS
  columns take the incoming values; \<open>first_seen\<close>, \<open>device_key\<close> and \<open>bssid\<close> or
  \<open>mac_address\<close> are not written.
\<close>

theorem device_merge:
  "(find (\<lambda>r. Some (w_session_id r) = wd_session_id w \<and> w_device_key r = wd_device_key w)
      (wifi_devices (st_db st)) = Some old \<and>
    (\<forall>r\<in>set (wifi_devices (st_db st)). w_id r = w_id old \<longrightarrow> r = old) \<and>
    is_typed (wd_last_seen w) \<and> 0 < retries
    \<longrightarrow>
    (\<exists>st' new. insert_wifi_device epoch w retries st = Inr (True, st') \<and>
       st_backup_dir st' = st_backup_dir st \<and>
       wifi_devices (st_db st') =
         map (\<lambda>r. if r = old then new else r) (wifi_devices (st_db st)) \<and>
       w_essid new = (case wd_essid w of Some v \<Rightarrow> Some v | None \<Rightarrow> w_essid old) \<and>
       w_encryption new =
         (case wd_encryption w of Some v \<Rightarrow> Some v | None \<Rightarrow> w_encryption old) \<and>
       w_fingerprint_hash new =
         (case wd_fingerprint_hash w of Some v \<Rightarrow> Some v | None \<Rightarrow> w_fingerprint_hash old) \<and>
       w_fingerprint_data new =
         (case wd_fingerprint_data w of
            None \<Rightarrow> w_fingerprint_data old
          | Some kvs \<Rightarrow> if kvs = [] then w_fingerprint_data old
                        else Some (json_dumps False (JDict kvs))) \<and>
       w_signal_dbm new = wd_signal_dbm w \<and>
       w_packets_total new = wd_packets_total w \<and>
       attr_isoformat (wd_last_seen w) = Inr (w_last_seen new) \<and>
       w_gps_lat new = wd_gps_lat w \<and> w_gps_lon new = wd_gps_lon w \<and>
       w_gps_alt new = wd_gps_alt w \<and> w_gps_valid new = wd_gps_valid w \<and>
       w_first_seen new = w_first_seen old \<and>
       w_device_key new = w_device_key old \<and>
       w_bssid new = w_bssid old))
   \<and>
   (find (\<lambda>r. Some (b_session_id r) = bd_session_id b \<and> b_device_key r = bd_device_key b)
      (bt_devices (st_db st)) = Some bold \<and>
    (\<forall>r\<in>set (bt_devices (st_db st)). b_id r = b_id bold \<longrightarrow> r = bold) \<and>
    is_typed (bd_last_seen b) \<and> 0 < retries
    \<longrightarrow>
    (\<exists>st' new. insert_bt_device epoch b retries st = Inr (True, st') \<and>
       st_backup_dir st' = st_backup_dir st \<and>
       bt_devices (st_db st') =
         map (\<lambda>r. if r = bold then new else r) (bt_devices (st_db st)) \<and>
       b_device_name new =
         (case bd_device_name b of Some v \<Rightarrow> Some v | None \<Rightarrow> b_device_name bold) \<and>
       b_device_class new =
         (case bd_device_class b of Some v \<Rightarrow> Some v | None \<Rightarrow> b_device_class bold) \<and>
       b_fingerprint_hash new =
         (case bd_fingerprint_hash b of Some v \<Rightarrow> Some v | None \<Rightarrow> b_fingerprint_hash bold) \<and>
       b_fingerprint_data new =
         (case bd_fingerprint_data b of
            None \<Rightarrow> b_fingerprint_data bold
          | Some kvs \<Rightarrow> if kvs = [] then b_fingerprint_data bold
                        else Some (json_dumps False (JDict kvs))) \<and>
       b_rssi new = bd_rssi b \<and>
       attr_isoformat (bd_last_seen b) = Inr (b_last_seen new) \<and>
       b_gps_lat new = bd_gps_lat b \<and> b_gps_lon new = bd_gps_lon b \<and>
       b_gps_alt new = bd_gps_alt b \<and> b_gps_valid new = bd_gps_valid b \<and>
       b_first_seen new = b_first_seen bold \<and>
       b_device_key new = b_device_key bold \<and>
       b_mac_address new = b_mac_address bold))"
proof (intro conjI impI)
  assume "find (\<lambda>r. Some (w_session_id r) = wd_session_id w \<and> w_device_key r = wd_device_key w)
      (wifi_devices (st_db st)) = Some old \<and>
    (\<forall>r\<in>set (wifi_devices (st_db st)). w_id r = w_id old \<longrightarrow> r = old) \<and>
    is_typed (wd_last_seen w) \<and> 0 < retries"
  then show "\<exists>st' new. insert_wifi_device epoch w retries st = Inr (True, st') \<and>
       st_backup_dir st' = st_backup_dir st \<and>
       wifi_devices (st_db st') =
         map (\<lambda>r. if r = old then new else r) (wifi_devices (st_db st)) \<and>
       w_essid new = (case wd_essid w of Some v \<Rightarrow> Some v | None \<Rightarrow> w_essid old) \<and>
       w_encryption new =
         (case wd_encryption w of Some v \<Rightarrow> Some v | None \<Rightarrow> w_encryption old) \<and>
       w_fingerprint_hash new =
         (case wd_fingerprint_hash w of Some v \<Rightarrow> Some v | None \<Rightarrow> w_fingerprint_hash old) \<and>
       w_fingerprint_data new =
         (case wd_fingerprint_data w of
            None \<Rightarrow> w_fingerprint_data old
          | Some kvs \<Rightarrow> if kvs = [] then w_fingerprint_data old
                        else Some (json_dumps False (JDict kvs))) \<and>
       w_signal_dbm new = wd_signal_dbm w \<and>
       w_packets_total new = wd_packets_total w \<and>
       attr_isoformat (wd_last_seen w) = Inr (w_last_seen new) \<and>
       w_gps_lat new = wd_gps_lat w \<and> w_gps_lon new = wd_gps_lon w \<and>
       w_gps_alt new = wd_gps_alt w \<and> w_gps_valid new = wd_gps_valid w \<and>
       w_first_seen new = w_first_seen old \<and>
       w_device_key new = w_device_key old \<and>
       w_bssid new = w_bssid old"
    using wifi_merge [of w st old retries epoch] by blast
next
  assume "find (\<lambda>r. Some (b_session_id r) = bd_session_id b \<and> b_device_key r = bd_device_key b)
      (bt_devices (st_db st)) = Some bold \<and>
    (\<forall>r\<in>set (bt_devices (st_db st)). b_id r = b_id bold \<longrightarrow> r = bold) \<and>
    is_typed (bd_last_seen b) \<and> 0 < retries"
  then show "\<exists>st' new. insert_bt_device epoch b retries st = Inr (True, st') \<and>
       st_backup_dir st' = st_backup_dir st \<and>
       bt_devices (st_db st') =
         map (\<lambda>r. if r = bold then new else r) (bt_devices (st_db st)) \<and>
       b_device_name new =
         (case bd_device_name b of Some v \<Rightarrow> Some v | None \<Rightarrow> b_device_name bold) \<and>
       b_device_class new =
         (case bd_device_class b of Some v \<Rightarrow> Some v | None \<Rightarrow> b_device_class bold) \<and>
       b_fingerprint_hash new =
         (case bd_fingerprint_hash b of Some v \<Rightarrow> Some v | None \<Rightarrow> b_fingerprint_hash bold) \<and>
       b_fingerprint_data new =
         (case bd_fingerprint_data b of
            None \<Rightarrow> b_fingerprint_data bold
          | Some kvs \<Rightarrow> if kvs = [] then b_fingerprint_data bold
                        else Some (json_dumps False (JDict kvs))) \<and>
       b_rssi new = bd_rssi b \<and>
       attr_isoformat (bd_last_seen b) = Inr (b_last_seen new) \<and>
       b_gps_lat new = bd_gps_lat b \<and> b_gps_lon new = bd_gps_lon b \<and>
       b_gps_alt new = bd_gps_alt b \<and> b_gps_valid new = bd_gps_valid b \<and>
       b_first_seen new = b_first_seen bold \<and>
       b_device_key new = b_device_key bold \<and>
       b_mac_address new = b_mac_address bold"
    using bt_merge [of b st bold retries epoch] by blast
qed

lemma upsert_store_wifi:
  "wifi_devices (st_db upsert_store) =
     [wifi_new_row 1 ''airdump_scan_20251225_120000'' upsert_first ''unknown''
        ''2025-12-25T12:00:01'' ''2025-12-25T12:00:01'']"
  by (simp add: upsert_store_def bind_err_def create_session_def session_exists_def
        initialize_schema_def scenario_session_def Let_def do_insert_wifi_def upsert_first_def
        scenario_wifi_def do_insert_bt_def upsert_bt_first_def scenario_bt_def)

lemma upsert_store_bt:
  "bt_devices (st_db upsert_store) =
     [bt_new_row 1 ''airdump_scan_20251225_120000'' upsert_bt_first ''unknown''
        ''2025-12-25T12:00:02'' ''2025-12-25T12:00:02'']"
  by (simp add: upsert_store_def bind_err_def create_session_def session_exists_def
        initialize_schema_def scenario_session_def Let_def do_insert_wifi_def upsert_first_def
        scenario_wifi_def do_insert_bt_def upsert_bt_first_def scenario_bt_def)

theorem device_merge_witness:
  "(\<exists>st' new. insert_wifi_device 0 upsert_second 3 upsert_store = Inr (True, st') \<and>
      wifi_devices (st_db st') = [new] \<and>
      w_essid new = Some ''Guest'' \<and> w_signal_dbm new = Some (- 45) \<and>
      w_packets_total new = 100 \<and> w_last_seen new = ''2025-12-25T12:05:00'' \<and>
      w_first_seen new = ''2025-12-25T12:00:01'' \<and> w_bssid new = ''AA:BB:CC:DD:EE:00'' \<and>
      w_fingerprint_data new = Some (json_dumps False (JDict [(''device_type'', JStr ''wifi'')])))
   \<and>
   (\<exists>st' new. insert_bt_device 0 upsert_bt_second 3 upsert_store = Inr (True, st') \<and>
      bt_devices (st_db st') = [new] \<and>
      b_device_name new = Some ''Headset'' \<and> b_rssi new = Some (- 50) \<and>
      b_last_seen new = ''2025-12-25T12:05:00'' \<and>
      b_first_seen new = ''2025-12-25T12:00:02'' \<and> b_mac_address new = ''11:22:33:44:55:00'')"
proof -
  let ?old = "wifi_new_row 1 ''airdump_scan_20251225_120000'' upsert_first ''unknown''
        ''2025-12-25T12:00:01'' ''2025-12-25T12:00:01''"
  let ?bold = "bt_new_row 1 ''airdump_scan_20251225_120000'' upsert_bt_first ''unknown''
        ''2025-12-25T12:00:02'' ''2025-12-25T12:00:02''"
  note m = device_merge [of upsert_second upsert_store ?old 3 0 upsert_bt_second ?bold]
  have hw: "find (\<lambda>r. Some (w_session_id r) = wd_session_id upsert_second
                    \<and> w_device_key r = wd_device_key upsert_second)
      (wifi_devices (st_db upsert_store)) = Some ?old \<and>
    (\<forall>r\<in>set (wifi_devices (st_db upsert_store)). w_id r = w_id ?old \<longrightarrow> r = ?old) \<and>
    is_typed (wd_last_seen upsert_second) \<and> 0 < (3::nat)"
    by (simp add: upsert_store_wifi upsert_second_def upsert_first_def scenario_wifi_def)
  have hb: "find (\<lambda>r. Some (b_session_id r) = bd_session_id upsert_bt_second
                    \<and> b_device_key r = bd_device_key upsert_bt_second)
      (bt_devices (st_db upsert_store)) = Some ?bold \<and>
    (\<forall>r\<in>set (bt_devices (st_db upsert_store)). b_id r = b_id ?bold \<longrightarrow> r = ?bold) \<and>
    is_typed (bd_last_seen upsert_bt_second) \<and> 0 < (3::nat)"
    by (simp add: upsert_store_bt upsert_bt_second_def upsert_bt_first_def scenario_bt_def)
  from m hw obtain st' new where
    w: "insert_wifi_device 0 upsert_second 3 upsert_store = Inr (True, st')"
      "wifi_devices (st_db st') =
         map (\<lambda>r. if r = ?old then new else r) (wifi_devices (st_db upsert_store))"
      "w_essid new = (case wd_essid upsert_second of Some v \<Rightarrow> Some v | None \<Rightarrow> w_essid ?old)"
      "w_fingerprint_data new =
         (case wd_fingerprint_data upsert_second of
            None \<Rightarrow> w_fingerprint_data ?old
          | Some kvs \<Rightarrow> if kvs = [] then w_fingerprint_data ?old
                        else Some (json_dumps False (JDict kvs)))"
      "w_signal_dbm new = wd_signal_dbm upsert_second"
      "w_packets_total new = wd_packets_total upsert_second"
      "attr_isoformat (wd_last_seen upsert_second) = Inr (w_last_seen new)"
      "w_first_seen new = w_first_seen ?old"
      "w_bssid new = w_bssid ?old"
    by blast
  from m hb obtain bst' bnew where
    b: "insert_bt_device 0 upsert_bt_second 3 upsert_store = Inr (True, bst')"
      "bt_devices (st_db bst') =
         map (\<lambda>r. if r = ?bold then bnew else r) (bt_devices (st_db upsert_store))"
      "b_device_name bnew =
         (case bd_device_name upsert_bt_second of Some v \<Rightarrow> Some v | None \<Rightarrow> b_device_name ?bold)"
      "b_rssi bnew = bd_rssi upsert_bt_second"
      "attr_isoformat (bd_last_seen upsert_bt_second) = Inr (b_last_seen bnew)"
      "b_first_seen bnew = b_first_seen ?bold"
      "b_mac_address bnew = b_mac_address ?bold"
    by blast
  have wifi: "\<exists>st' new. insert_wifi_device 0 upsert_second 3 upsert_store = Inr (True, st') \<and>
      wifi_devices (st_db st') = [new] \<and>
      w_essid new = Some ''Guest'' \<and> w_signal_dbm new = Some (- 45) \<and>
      w_packets_total new = 100 \<and> w_last_seen new = ''2025-12-25T12:05:00'' \<and>
      w_first_seen new = ''2025-12-25T12:00:01'' \<and> w_bssid new = ''AA:BB:CC:DD:EE:00'' \<and>
      w_fingerprint_data new = Some (json_dumps False (JDict [(''device_type'', JStr ''wifi'')]))"
    apply (rule exI [of _ st'])
    apply (rule exI [of _ new])
    using w
    by (simp add: upsert_store_wifi upsert_second_def upsert_first_def scenario_wifi_def
          wifi_new_row_def fingerprint_data_param_def)
  have bt: "\<exists>st' new. insert_bt_device 0 upsert_bt_second 3 upsert_store = Inr (True, st') \<and>
      bt_devices (st_db st') = [new] \<and>
      b_device_name new = Some ''Headset'' \<and> b_rssi new = Some (- 50) \<and>
      b_last_seen new = ''2025-12-25T12:05:00'' \<and>
      b_first_seen new = ''2025-12-25T12:00:02'' \<and> b_mac_address new = ''11:22:33:44:55:00''"
    apply (rule exI [of _ bst'])
    apply (rule exI [of _ bnew])
    using b
    by (simp add: upsert_store_bt upsert_bt_second_def upsert_bt_first_def scenario_bt_def
          bt_new_row_def)
  show ?thesis using wifi bt by (rule conjI)
qed

text \<open>
  An incoming \<open>fingerprint_data\<close> that is the empty dict is not null, and the stored value
  is kept all the same.
\<close>

theorem empty_fingerprint_data_counterexample:
  "wd_fingerprint_data upsert_third = Some [] \<and>
   stored_fingerprint_data (insert_wifi_device 0 upsert_third 3 upsert_store) =
     [Some (json_dumps False (JDict [(''device_type'', JStr ''wifi'')]))] \<and>
   stored_fingerprint_data (insert_wifi_device 0 upsert_third 3 upsert_store) \<noteq>
     [Some (json_dumps False (JDict []))]"
  by (simp add: stored_fingerprint_data_def insert_wifi_device_def numeral_3_eq_3
        do_insert_wifi_def upsert_store_wifi upsert_third_def upsert_second_def
        upsert_first_def scenario_wifi_def wifi_new_row_def wifi_update_row_def coalesce_def
        fingerprint_data_param_def json_encode_str_def json_escape_char_def)

subsection \<open>Spatial query\<close>

lemma near_row_Some:
  assumes "near_row lat lon deg sid r = Some (r', dsq)"
  shows "r' = r \<and>
         (\<exists>la lo. w_gps_lat r = Some la \<and> w_gps_lon r = Some lo \<and>
            lat - deg \<le> la \<and> la \<le> lat + deg \<and> lon - deg \<le> lo \<and> lo \<le> lon + deg \<and>
            dsq = (la - lat) * (la - lat) + (lo - lon) * (lo - lon)) \<and>
         (\<forall>s. sid = Some s \<and> s \<noteq> [] \<longrightarrow> w_session_id r = s)"
  using assms
  by (auto simp: near_row_def split: option.splits if_splits)

lemma set_map_filter: "set (List.map_filter f xs) = {y. \<exists>x\<in>set xs. f x = Some y}"
  by (induction xs) (auto simp: List.map_filter_simps split: option.splits)

text \<open>
  Claim C10. \<open>get_devices_near\<close> does not depend on the \<open>bt_devices\<close> table: whatever
  rows that table holds, the result is the same. Every element of the result is a row of
  \<open>wifi_devices\<close> with non-null coordinates inside the box of half-side
  \<open>radius_m / 111000\<close> degrees around the point, paired with its squared-degree distance;
  a non-empty \<open>session_id\<close> restricts the rows to that session; and the result is in
  ascending order of that distance.
\<close>

theorem get_devices_near_wifi_only:
  "get_devices_near (d\<lparr>bt_devices := bs\<rparr>) lat lon radius_m sid =
     get_devices_near d lat lon radius_m sid \<and>
   (\<forall>x\<in>set (get_devices_near d lat lon radius_m sid).
      fst x \<in> set (wifi_devices d) \<and>
      (\<exists>la lo. w_gps_lat (fst x) = Some la \<and> w_gps_lon (fst x) = Some lo \<and>
         lat - radius_m / 111000 \<le> la \<and> la \<le> lat + radius_m / 111000 \<and>
         lon - radius_m / 111000 \<le> lo \<and> lo \<le> lon + radius_m / 111000 \<and>
         snd x = (la - lat) * (la - lat) + (lo - lon) * (lo - lon)) \<and>
      (\<forall>s. sid = Some s \<and> s \<noteq> [] \<longrightarrow> w_session_id (fst x) = s)) \<and>
   sorted (map snd (get_devices_near d lat lon radius_m sid))"
proof (intro conjI ballI)
  show "get_devices_near (d\<lparr>bt_devices := bs\<rparr>) lat lon radius_m sid =
     get_devices_near d lat lon radius_m sid"
    by (simp add: get_devices_near_def)
next
  show "sorted (map snd (get_devices_near d lat lon radius_m sid))"
    by (simp add: get_devices_near_def Let_def sorted_sort_key)
next
  fix x
  assume "x \<in> set (get_devices_near d lat lon radius_m sid)"
  then obtain r where r: "r \<in> set (wifi_devices d)"
      "near_row lat lon (radius_m / 111000) sid r = Some x"
    by (auto simp: get_devices_near_def Let_def set_map_filter)
  then have n: "near_row lat lon (radius_m / 111000) sid r = Some (fst x, snd x)"
    by simp
  note f = near_row_Some [OF n]
  show "fst x \<in> set (wifi_devices d)"
    using f r by simp
  show "\<exists>la lo. w_gps_lat (fst x) = Some la \<and> w_gps_lon (fst x) = Some lo \<and>
         lat - radius_m / 111000 \<le> la \<and> la \<le> lat + radius_m / 111000 \<and>
         lon - radius_m / 111000 \<le> lo \<and> lo \<le> lon + radius_m / 111000 \<and>
         snd x = (la - lat) * (la - lat) + (lo - lon) * (lo - lon)"
    using f by auto
  show "\<forall>s. sid = Some s \<and> s \<noteq> [] \<longrightarrow> w_session_id (fst x) = s"
    using f by auto
qed

lemma near_db_result:
  "map (\<lambda>x. w_device_key (fst x)) (get_devices_near near_db 51.5074 (- 0.1278) 50 None) =
     [''key_0'', ''key_1'']"
  by (simp add: get_devices_near_def near_db_def initialize_schema_def List.map_filter_simps
        near_row_def wifi_new_row_def near_wifi_def scenario_wifi_def)

theorem get_devices_near_wifi_only_witness:
  "map (\<lambda>x. w_device_key (fst x)) (get_devices_near near_db 51.5074 (- 0.1278) 50 None) =
     [''key_0'', ''key_1''] \<and>
   get_devices_near (near_db\<lparr>bt_devices := []\<rparr>) 51.5074 (- 0.1278) 50 None =
     get_devices_near near_db 51.5074 (- 0.1278) 50 None \<and>
   sorted (map snd (get_devices_near near_db 51.5074 (- 0.1278) 50 None))"
proof -
  note t = get_devices_near_wifi_only
      [where d = near_db and bs = "[]" and lat = "51.5074" and lon = "- 0.1278"
         and radius_m = 50 and sid = None]
  show ?thesis
    using near_db_result conjunct1 [OF t] conjunct2 [OF conjunct2 [OF t]]
    by (intro conjI)
qed

subsection \<open>Drain of the buffer\<close>

text \<open>
  A line that \<open>_buffer_to_file\<close> wrote never replays: the rebuilt dataclass holds
  strings where \<open>_do_insert_wifi\<close> calls \<open>.value\<close> and \<open>.isoformat()\<close>. And after
  \<open>import_buffered_records\<close> no buffer file is left, whatever the replay did.
\<close>

lemma to_dict_never_replays:
  assumes "WiFiDevice_to_dict device = Inr dat"
  shows "do_insert_wifi (WiFiDevice_kwargs dat) d = Inl AttributeError"
proof -
  obtain ty fs ls where
    dat: "dat = device\<lparr>wd_device_type := JsonStr ty, wd_first_seen := JsonStr fs,
                 wd_last_seen := JsonStr ls, wd_duplicate_of_id := None\<rparr>"
    using assms by (auto simp: WiFiDevice_to_dict_def split: sum.splits)
  show ?thesis
    unfolding dat by (simp add: do_insert_wifi_def WiFiDevice_kwargs_def split: option.splits)
qed

lemma bt_to_dict_never_replays:
  assumes "BTDevice_to_dict device = Inr dat"
  shows "do_insert_bt (BTDevice_kwargs dat) d = Inl AttributeError"
proof -
  obtain ty fs ls where
    dat: "dat = device\<lparr>bd_device_type := JsonStr ty, bd_first_seen := JsonStr fs,
                 bd_last_seen := JsonStr ls, bd_duplicate_of_id := None\<rparr>"
    using assms by (auto simp: BTDevice_to_dict_def split: sum.splits)
  show ?thesis
    unfolding dat by (simp add: do_insert_bt_def BTDevice_kwargs_def split: option.splits)
qed

lemma import_files_dir:
  "st_backup_dir (snd (import_files fs st n)) =
     filter (\<lambda>f. fst f \<notin> set (map fst fs)) (st_backup_dir st)"
proof (induction fs arbitrary: st n)
  case Nil
  then show ?case by simp
next
  case (Cons f fs)
  show ?case
    by (auto simp: Cons.IH unlink_def split: prod.splits intro: filter_cong)
qed

lemma import_unlinks_every_buffer_file:
  "glob_buffer (st_backup_dir (snd (import_buffered_records st))) = []"
  unfolding import_buffered_records_def import_files_dir
  by (auto simp: glob_buffer_def filter_empty_conv)

lemma name_prefix: "prefix ''buffer_'' ''buffer_wifi_1766664000.jsonl''"
  by code_simp

lemma name_suffix: "suffix ''.jsonl'' ''buffer_wifi_1766664000.jsonl''"
  by code_simp

lemma insert_wifi_attempts_integrity:
  "do_insert_wifi device d = Inl IntegrityError \<Longrightarrow> insert_wifi_attempts n device d = None"
  by (induction n) (simp_all add: is_sqlite_error_def)

lemma drain_device_buffered:
  "\<exists>dat. WiFiDevice_to_dict drain_device = Inr dat \<and>
     insert_wifi_device 1766664000 drain_device 3 empty_store =
       Inr (False, empty_store\<lparr>st_backup_dir :=
                     [(''buffer_wifi_1766664000.jsonl'', [WifiLine dat])]\<rparr>)"
proof -
  have fail: "do_insert_wifi drain_device (st_db empty_store) = Inl IntegrityError"
    by (simp add: do_insert_wifi_def drain_device_def scenario_wifi_def empty_store_def
          initialize_schema_def session_exists_def)
  obtain dat where dat: "WiFiDevice_to_dict drain_device = Inr dat"
    by (simp add: WiFiDevice_to_dict_def drain_device_def scenario_wifi_def)
  have name: "buffer_file_name ''wifi'' 1766664000 = ''buffer_wifi_1766664000.jsonl''"
    by (simp add: buffer_file_name_def py_str_int_def str_nat.simps dec_digit_def)
  have "insert_wifi_device 1766664000 drain_device 3 empty_store =
       Inr (False, empty_store\<lparr>st_backup_dir :=
                     [(''buffer_wifi_1766664000.jsonl'', [WifiLine dat])]\<rparr>)"
    unfolding insert_wifi_device_def insert_wifi_attempts_integrity [OF fail] dat
    by (simp add: buffer_to_file_def name empty_store_def)
  then show ?thesis using dat by blast
qed

text \<open>
  Claim C1, on the code. In the buffering scenario the insert leaves one buffer file with
  one line. The drain then returns 0, the file is gone and \<open>wifi_devices\<close> has no row:
  the replay of the line raised, the exception was logged, and the file was unlinked all
  the same, so the buffered record is lost.
\<close>

theorem drain_buffer_loses_record:
  "buffered_files (insert_wifi_device 1766664000 drain_device 3 empty_store) =
     [(''buffer_wifi_1766664000.jsonl'', 1)] \<and>
   drain_outcome drain_scenario = Some (0, [], [])"
proof -
  obtain dat where dat: "WiFiDevice_to_dict drain_device = Inr dat"
    and ins: "insert_wifi_device 1766664000 drain_device 3 empty_store =
       Inr (False, empty_store\<lparr>st_backup_dir :=
                     [(''buffer_wifi_1766664000.jsonl'', [WifiLine dat])]\<rparr>)"
    using drain_device_buffered by blast
  have files: "buffered_files (insert_wifi_device 1766664000 drain_device 3 empty_store) =
     [(''buffer_wifi_1766664000.jsonl'', 1)]"
    unfolding ins by (simp add: buffered_files_def)
  obtain rid d1 where c: "create_session scenario_session initialize_schema = Inr (rid, d1)"
    and w: "wifi_devices d1 = []"
    by (simp add: create_session_def session_exists_def initialize_schema_def Let_def)
  have glob: "glob_buffer [(''buffer_wifi_1766664000.jsonl'', [WifiLine dat])] =
               [(''buffer_wifi_1766664000.jsonl'', [WifiLine dat])]"
    by (simp add: glob_buffer_def name_prefix name_suffix)
  have rt: "record_type_of ''buffer_wifi_1766664000.jsonl'' = ''wifi''"
    by code_simp
  have replay: "replay_lines ''wifi'' [WifiLine dat] d1 0 = (d1, 0)"
    by (simp add: replay_line_def to_dict_never_replays [OF dat])
  have imp: "import_buffered_records
               \<lparr>st_db = d1, st_backup_dir = [(''buffer_wifi_1766664000.jsonl'', [WifiLine dat])]\<rparr>
             = (0, \<lparr>st_db = d1, st_backup_dir = []\<rparr>)"
    unfolding import_buffered_records_def
    by (simp add: glob rt replay unlink_def del: replay_lines.simps)
  have ds: "drain_scenario = Inr (0, \<lparr>st_db = d1, st_backup_dir = []\<rparr>)"
    unfolding drain_scenario_def ins
    using c imp by (simp add: bind_err_def empty_store_def)
  have "drain_outcome drain_scenario = Some (0, [], [])"
    unfolding ds by (simp add: drain_outcome_def w)
  then show ?thesis using files by simp
qed

section \<open>Properties of the poller\<close>

lemma device_type_of_cases:
  "device_type_of dev_type =
     (if dev_type = JStr ''Wi-Fi Device'' then ''wifi''
      else if dev_type = JStr ''BR/EDR'' \<or> dev_type = JStr ''BTLE'' then ''bluetooth''
      else ''unknown'')"
  by (simp add: device_type_of_def)

text \<open>
  Claim C6, on the code. The records that the repository's test data lists as Wi-Fi
  devices, with the type labels \<open>Wi-Fi AP\<close> and \<open>Wi-Fi Client\<close>, are parsed to the device
  type \<open>unknown\<close>; only the label \<open>Wi-Fi Device\<close> gives \<open>wifi\<close>.
\<close>

theorem parse_device_wifi_ap_unknown:
  "parsed_types (parse_device fromtimestamp_text (Datetime ''2025-12-25T12:00:00'') mock_wifi_ap)
     = Some (''unknown'', None) \<and>
   parsed_types (parse_device fromtimestamp_text (Datetime ''2025-12-25T12:00:00'')
                   mock_wifi_client)
     = Some (''unknown'', None) \<and>
   parsed_types (parse_device fromtimestamp_text (Datetime ''2025-12-25T12:00:00'')
                   test_wifi_device)
     = Some (''wifi'', None)"
  by (simp add: parsed_types_def parse_device_def mock_wifi_ap_def mock_wifi_client_def
        test_wifi_device_def dict_get_def device_type_of_def parse_timestamp_def Let_def)

lemma poll_one_last_poll_time:
  "poll_one f now raw cw = Inr cw' \<Longrightarrow>
     kc_last_poll_time (fst cw') = kc_last_poll_time (fst cw)"
  by (auto simp: poll_one_def Let_def split: sum.splits option.splits)

lemma poll_loop_body_last_poll_time:
  "kc_last_poll_time (fst (snd (poll_loop_body f now raws cw))) = kc_last_poll_time (fst cw)"
proof (induction raws arbitrary: cw)
  case Nil
  then show ?case by simp
next
  case (Cons raw raws)
  show ?case
  proof (cases "poll_one f now raw cw")
    case (Inl e)
    then show ?thesis by simp
  next
    case (Inr cw')
    then show ?thesis
      using Cons.IH [of cw'] poll_one_last_poll_time [OF Inr] by simp
  qed
qed

text \<open>
  Claim C2, on the code. \<open>_api_request\<close> answers every transport error with \<open>None\<close>, which
  \<open>get_devices\<close> turns into an empty device list, and \<open>_poll_devices\<close> does not test for
  it: a poll that fails in transport raises nothing, changes nothing else and still sets
  the cursor to the current time, so the devices of the failed interval are never
  requested again. The cursor is kept only by a poll that an exception leaves; every
  poll that ends without an exception sets it to the current time.
\<close>

theorem poll_devices_cursor:
  "(daemon (request_last_time (kc_last_poll_time (fst cw))) = None \<longrightarrow>
      poll_devices f now t daemon cw =
        (None, (fst cw)\<lparr>kc_last_poll_time := Some t\<rparr>, snd cw)) \<and>
   (fst (poll_devices f now t daemon cw) = None \<longrightarrow>
      kc_last_poll_time (fst (snd (poll_devices f now t daemon cw))) = Some t) \<and>
   (fst (poll_devices f now t daemon cw) \<noteq> None \<longrightarrow>
      kc_last_poll_time (fst (snd (poll_devices f now t daemon cw))) =
        kc_last_poll_time (fst cw))"
proof (intro conjI impI)
  assume "daemon (request_last_time (kc_last_poll_time (fst cw))) = None"
  then show "poll_devices f now t daemon cw =
        (None, (fst cw)\<lparr>kc_last_poll_time := Some t\<rparr>, snd cw)"
    by (simp add: poll_devices_def get_devices_def)
next
  assume "fst (poll_devices f now t daemon cw) = None"
  then show "kc_last_poll_time (fst (snd (poll_devices f now t daemon cw))) = Some t"
    by (auto simp: poll_devices_def split: sum.splits prod.splits option.splits)
next
  assume raised: "fst (poll_devices f now t daemon cw) \<noteq> None"
  show "kc_last_poll_time (fst (snd (poll_devices f now t daemon cw))) =
        kc_last_poll_time (fst cw)"
  proof (cases "json_iter (get_devices daemon (kc_last_poll_time (fst cw)))")
    case (Inl e)
    then show ?thesis by (simp add: poll_devices_def)
  next
    case (Inr raws)
    obtain r c w where res: "poll_loop_body f now raws cw = (r, c, w)"
      by (cases "poll_loop_body f now raws cw") auto
    have keep: "kc_last_poll_time c = kc_last_poll_time (fst cw)"
      using poll_loop_body_last_poll_time [of f now raws cw] res by simp
    show ?thesis
      using raised Inr res keep by (cases r) (simp_all add: poll_devices_def)
  qed
qed

theorem poll_devices_cursor_witness:
  "poll_outcome (poll_devices fromtimestamp_text (Datetime ''2025-12-25T12:00:00'') 102
       transport_error (polled_controller, (0, 0))) =
     (None, Some 102, [], 0, 0) \<and>
   poll_outcome (poll_devices fromtimestamp_text (Datetime ''2025-12-25T12:00:00'') 102
       (\<lambda>last_time. Some (JList [test_wifi_device, mock_wifi_ap]))
       (polled_controller, (0, 0))) =
     (None, Some 102, [''unknown''], 1, 1) \<and>
   poll_outcome (poll_devices fromtimestamp_text (Datetime ''2025-12-25T12:00:00'') 102
       (\<lambda>last_time. Some (JList [test_wifi_device, JStr ''error'']))
       (polled_controller, (0, 0))) =
     (Some AttributeError, Some 100, [''wifi''], 1, 0)"
proof -
  let ?now = "Datetime ''2025-12-25T12:00:00''"
  let ?cw = "(polled_controller, (0::nat, 0::nat))"
  let ?ok = "\<lambda>last_time :: int option. Some (JList [test_wifi_device, mock_wifi_ap])"
  let ?bad = "\<lambda>last_time :: int option. Some (JList [test_wifi_device, JStr ''error''])"
  have p1: "parse_device fromtimestamp_text ?now test_wifi_device =
              Inr \<lparr>kd_mac = JStr ''AA:BB:CC:DD:EE:FF'', kd_device_type = ''wifi'',
                   kd_first_seen = fromtimestamp_text 1735142400,
                   kd_last_seen = fromtimestamp_text 1735142500,
                   kd_channel = JInt 6, kd_frequency = JInt 2437, kd_rssi = JInt (- 45),
                   kd_ssid = JStr ''TestNetwork'', kd_encryption = JNull,
                   kd_manufacturer = JStr ''Apple'', kd_probe_ssids = [],
                   kd_bt_name = JNull, kd_bt_class = JNull, kd_bt_type = None,
                   kd_kismet_key = JStr [], kd_packets = JInt 150\<rparr>"
    by (simp add: parse_device_def test_wifi_device_def dict_get_def device_type_of_def
          parse_timestamp_def Let_def)
  have p2: "\<exists>device. parse_device fromtimestamp_text ?now mock_wifi_ap = Inr device \<and>
              kd_mac device = JStr ''AA:BB:CC:DD:EE:FF'' \<and> kd_device_type device = ''unknown''"
    by (simp add: parse_device_def mock_wifi_ap_def dict_get_def device_type_of_def
          parse_timestamp_def Let_def)
  have p3: "parse_device fromtimestamp_text ?now (JStr ''error'') = Inl AttributeError"
    by (simp add: parse_device_def)
  have a: "poll_outcome (poll_devices fromtimestamp_text ?now 102 transport_error ?cw) =
             (None, Some 102, [], 0, 0)"
    using conjunct1 [OF poll_devices_cursor
        [where daemon = transport_error and cw = ?cw and f = fromtimestamp_text
           and now = ?now and t = 102]]
    by (simp add: transport_error_def poll_outcome_def polled_controller_def)
  have b0: "poll_outcome (poll_devices fromtimestamp_text ?now 102 ?ok ?cw) =
             (None, kc_last_poll_time
                      (fst (snd (poll_devices fromtimestamp_text ?now 102 ?ok ?cw))),
              [''unknown''], 1, 1)"
    using p1 p2
    by (auto simp: poll_outcome_def poll_devices_def get_devices_def poll_one_def
          polled_controller_def run_callbacks_def Let_def)
  have b: "poll_outcome (poll_devices fromtimestamp_text ?now 102 ?ok ?cw) =
             (None, Some 102, [''unknown''], 1, 1)"
    using b0 conjunct1 [OF conjunct2 [OF poll_devices_cursor
        [where daemon = ?ok and cw = ?cw and f = fromtimestamp_text and now = ?now
           and t = 102]]]
    by (simp add: poll_outcome_def)
  have c0: "poll_outcome (poll_devices fromtimestamp_text ?now 102 ?bad ?cw) =
             (Some AttributeError,
              kc_last_poll_time
                (fst (snd (poll_devices fromtimestamp_text ?now 102 ?bad ?cw))),
              [''wifi''], 1, 0)"
    using p1 p3
    by (simp add: poll_outcome_def poll_devices_def get_devices_def poll_one_def
          polled_controller_def run_callbacks_def Let_def)
  have c: "poll_outcome (poll_devices fromtimestamp_text ?now 102 ?bad ?cw) =
             (Some AttributeError, Some 100, [''wifi''], 1, 0)"
    using c0 conjunct2 [OF conjunct2 [OF poll_devices_cursor
        [where daemon = ?bad and cw = ?cw and f = fromtimestamp_text and now = ?now
           and t = 102]]]
    by (simp add: poll_outcome_def polled_controller_def)
  show ?thesis using a b c by (intro conjI)
qed

text \<open>
  After a transport error the cursor of a controller that had polled at time 100 is the
  time of the failed poll, 102.
\<close>

lemma transport_error_advances_cursor:
  "poll_outcome (poll_devices fromtimestamp_text (Datetime ''2025-12-25T12:00:00'') 102
       transport_error (polled_controller, (0, 0))) =
     (None, Some 102, [], 0, 0) \<and>
   kc_last_poll_time polled_controller = Some 100"
  by (simp add: poll_outcome_def poll_devices_def get_devices_def transport_error_def
        polled_controller_def)

section \<open>Properties of the GPS service\<close>

lemma length_slice_last: "0 < n \<Longrightarrow> int (length (slice_last n xs)) \<le> n"
  by (auto simp: slice_last_def)

text \<open>
  Claim C8. For every packet that the GPS daemon returns, with \<open>position\<close> the sample that
  \<open>_parse_gpsd_packet\<close> makes of it: every registered callback is called with the sample,
  once and in the order of registration, valid or not; the sample becomes the current
  position; a valid sample is appended to the history, which is cut to its last
  \<open>history_size\<close> entries, and an invalid sample leaves the history as it was; and when the
  current sample is not valid, \<open>get_current_position\<close> returns zeros for latitude,
  longitude and altitude.
\<close>

theorem update_position_delivers:
  "update_position True (Inr packet) now (g, w) = (g', w') \<and>
   position = parse_gpsd_packet now (gl_min_hdop g) (gl_min_satellites g) packet
   \<longrightarrow>
   w' = fold (\<lambda>callback. callback position) (gl_callbacks g) w \<and>
   gl_current_position g' = Some position \<and>
   (gp_valid position \<longrightarrow>
      gl_position_history g' =
        (if gl_history_size g < int (length (gl_position_history g @ [position]))
         then slice_last (gl_history_size g) (gl_position_history g @ [position])
         else gl_position_history g @ [position]) \<and>
      (0 < gl_history_size g \<longrightarrow> int (length (gl_position_history g')) \<le> gl_history_size g)) \<and>
   (\<not> gp_valid position \<longrightarrow>
      gl_position_history g' = gl_position_history g \<and>
      get_current_position later g' = (0, 0, 0, later))"
proof (intro impI, elim conjE)
  assume run: "update_position True (Inr packet) now (g, w) = (g', w')"
    and pos: "position = parse_gpsd_packet now (gl_min_hdop g) (gl_min_satellites g) packet"
  show "w' = fold (\<lambda>callback. callback position) (gl_callbacks g) w \<and>
   gl_current_position g' = Some position \<and>
   (gp_valid position \<longrightarrow>
      gl_position_history g' =
        (if gl_history_size g < int (length (gl_position_history g @ [position]))
         then slice_last (gl_history_size g) (gl_position_history g @ [position])
         else gl_position_history g @ [position]) \<and>
      (0 < gl_history_size g \<longrightarrow> int (length (gl_position_history g')) \<le> gl_history_size g)) \<and>
   (\<not> gp_valid position \<longrightarrow>
      gl_position_history g' = gl_position_history g \<and>
      get_current_position later g' = (0, 0, 0, later))"
  proof (cases "gp_valid position")
    case True
    have g': "g' = g\<lparr>gl_current_position := Some position,
                     gl_position_history :=
                       (if gl_history_size g < int (length (gl_position_history g @ [position]))
                        then slice_last (gl_history_size g) (gl_position_history g @ [position])
                        else gl_position_history g @ [position]),
                     gl_fix_count := gl_fix_count g + 1,
                     gl_last_fix_time := Some (gp_timestamp position)\<rparr>"
      and w': "w' = fold (\<lambda>callback. callback position) (gl_callbacks g) w"
      using run True pos [symmetric]
      by (auto simp: update_position_def Let_def run_callbacks_def)
    have bound: "0 < gl_history_size g \<longrightarrow>
                   int (length (gl_position_history g')) \<le> gl_history_size g"
      unfolding g' using length_slice_last [of "gl_history_size g"] by auto
    show ?thesis
      using True w' bound by (simp add: g')
  next
    case False
    have g': "g' = g\<lparr>gl_current_position := Some position,
                     gl_no_fix_count := gl_no_fix_count g + 1\<rparr>"
      and w': "w' = fold (\<lambda>callback. callback position) (gl_callbacks g) w"
      using run False pos [symmetric]
      by (auto simp: update_position_def Let_def run_callbacks_def)
    show ?thesis
      using False w' by (simp add: g' get_current_position_def)
  qed
qed

theorem update_position_delivers_witness:
  "(\<exists>g' position.
      update_position True (Inr no_fix_packet) (Datetime ''2025-12-25T12:00:00'')
        (logging_gps, ([], [])) = (g', ([position], [position])) \<and>
      \<not> gp_valid position \<and>
      gl_current_position g' = Some position \<and>
      gl_position_history g' = [] \<and>
      get_current_position (Datetime ''2025-12-25T12:00:01'') g' =
        (0, 0, 0, Datetime ''2025-12-25T12:00:01'')) \<and>
   (\<exists>g' position.
      update_position True (Inr fix_packet) (Datetime ''2025-12-25T12:00:00'')
        (logging_gps, ([], [])) = (g', ([position], [position])) \<and>
      gp_valid position \<and>
      gl_current_position g' = Some position \<and>
      gl_position_history g' = [position] \<and>
      get_current_position (Datetime ''2025-12-25T12:00:01'') g' =
        (51.5074, - 0.1278, 50, Datetime ''2025-12-25T12:00:00''))"
proof -
  let ?now = "Datetime ''2025-12-25T12:00:00''"
  let ?later = "Datetime ''2025-12-25T12:00:01''"
  let ?p1 = "parse_gpsd_packet ?now (gl_min_hdop logging_gps) (gl_min_satellites logging_gps)
               no_fix_packet"
  let ?p2 = "parse_gpsd_packet ?now (gl_min_hdop logging_gps) (gl_min_satellites logging_gps)
               fix_packet"
  obtain g1 w1 where r1:
    "update_position True (Inr no_fix_packet) ?now (logging_gps, ([], [])) = (g1, w1)"
    by (cases "update_position True (Inr no_fix_packet) ?now (logging_gps, ([], []))") auto
  obtain g2 w2 where r2:
    "update_position True (Inr fix_packet) ?now (logging_gps, ([], [])) = (g2, w2)"
    by (cases "update_position True (Inr fix_packet) ?now (logging_gps, ([], []))") auto
  have v1: "\<not> gp_valid ?p1"
    by (simp add: parse_gpsd_packet_def no_fix_packet_def invalid_position_def)
  have v2: "gp_valid ?p2" "to_tuple ?p2 = (51.5074, - 0.1278, 50, ?now)"
    by (simp_all add: parse_gpsd_packet_def fix_packet_def logging_gps_def to_tuple_def)
  note t1 = update_position_delivers
    [where packet = no_fix_packet and now = ?now and g = logging_gps and w = "([], [])"
       and g' = g1 and w' = w1 and position = ?p1 and later = ?later]
  note t2 = update_position_delivers
    [where packet = fix_packet and now = ?now and g = logging_gps and w = "([], [])"
       and g' = g2 and w' = w2 and position = ?p2 and later = ?later]
  have a: "\<exists>g' position.
      update_position True (Inr no_fix_packet) ?now (logging_gps, ([], []))
        = (g', ([position], [position])) \<and>
      \<not> gp_valid position \<and>
      gl_current_position g' = Some position \<and>
      gl_position_history g' = [] \<and>
      get_current_position ?later g' = (0, 0, 0, ?later)"
    apply (rule exI [of _ g1])
    apply (rule exI [of _ ?p1])
    using t1 r1 v1 by (simp add: logging_gps_def)
  have b: "\<exists>g' position.
      update_position True (Inr fix_packet) ?now (logging_gps, ([], []))
        = (g', ([position], [position])) \<and>
      gp_valid position \<and>
      gl_current_position g' = Some position \<and>
      gl_position_history g' = [position] \<and>
      get_current_position ?later g' = (51.5074, - 0.1278, 50, ?now)"
    apply (rule exI [of _ g2])
    apply (rule exI [of _ ?p2])
    using t2 r2 v2 by (simp add: logging_gps_def get_current_position_def)
  show ?thesis using a b by (rule conjI)
qed

section \<open>Properties of the Wi-Fi fingerprinter\<close>

subsection \<open>WPS detection\<close>

lemma check_wps_enabled:
  "wc_wps_enabled (check_wps ie caps) =
     (wc_wps_enabled caps \<or>
      ie_get ie ''oui'' = Some ''00:50:f2'' \<and> ie_get ie ''type'' = Some ''4'')"
  by (auto simp: check_wps_def ie_get_default_def ie_get_def Let_def split: option.splits)

lemma fold_check_wps:
  "wc_wps_enabled (fold check_wps ies caps) =
     (wc_wps_enabled caps \<or>
      (\<exists>ie\<in>set ies. ie_get ie ''oui'' = Some ''00:50:f2'' \<and> ie_get ie ''type'' = Some ''4''))"
proof (induction ies arbitrary: caps)
  case Nil
  then show ?case by simp
next
  case (Cons ie ies)
  have "wc_wps_enabled (fold check_wps (ie # ies) caps) =
          wc_wps_enabled (fold check_wps ies (check_wps ie caps))"
    by simp
  also have "\<dots> = (wc_wps_enabled (check_wps ie caps) \<or>
      (\<exists>ie\<in>set ies. ie_get ie ''oui'' = Some ''00:50:f2'' \<and> ie_get ie ''type'' = Some ''4''))"
    by (rule Cons.IH)
  finally show ?case
    by (auto simp: check_wps_enabled)
qed

lemma extract_capabilities_wps:
  "wc_wps_enabled (extract_capabilities sr er ht vht ies) =
     (\<exists>ie\<in>set (or_empty ies).
        ie_get ie ''oui'' = Some ''00:50:f2'' \<and> ie_get ie ''type'' = Some ''4'')"
  by (simp add: extract_capabilities_def fold_check_wps WiFiCapabilities_def Let_def)

lemma length_hexdigest: "length (hexdigest s) = 64"
proof -
  obtain a b c d e f g h where "s = (a, b, c, d, e, f, g, h)"
    by (cases s) auto
  then show ?thesis
    by (simp add: hex_word_def)
qed

lemma compute_fingerprint_nonempty: "compute_fingerprint caps ssids \<noteq> []"
  using length_hexdigest [of "sha256 (encode (json_dumps True (features caps ssids)))"]
  by (auto simp: compute_fingerprint_def Let_def)

lemma signature_wps_enabled:
  "signature_capability
     (get_signature_data mac True
        (snd (fingerprint_from_probe now mac ssid sr ht vht ies ts fp))) ''wps_enabled'' =
   Some (JBool (wc_wps_enabled (extract_capabilities (Some sr) None ht vht ies)))"
  by (simp add: fingerprint_from_probe_def get_signature_data_def Let_def
        compute_fingerprint_nonempty signature_capability_def)

subsection \<open>The fingerprints of the scenario\<close>

text \<open>
  The canonical texts of the scenario probe without and with the vendor element are

  \<^verbatim>\<open>{"he": false, "ht": true, "ht_caps": 4660, "probe_ssids": ["HomeWiFi"], "rates": [6, 12, 24, 48], "vendor_ouis": [], "vht": false, "vht_caps": 0, "wps": false}\<close>

  \<^verbatim>\<open>{"he": false, "ht": true, "ht_caps": 4660, "probe_ssids": ["HomeWiFi"], "rates": [6, 12, 24, 48], "vendor_ouis": ["00:50:f2"], "vht": false, "vht_caps": 0, "wps": true}\<close>

  of 159 and 168 bytes. Padded, each is three blocks of sixteen words, and the first
  block is the same for both.
\<close>

lemma replicate_num: "replicate (numeral n) x = x # replicate (pred_numeral n) x"
  by (simp add: numeral_eq_Suc)

lemmas canonical_eval = features_def extract_capabilities_def WiFiCapabilities_def check_wps_def
  wps_ie_def ie_get_def ie_get_default_def or_empty_def str_truthy_def int16_def is_space_def
  hex_value_def py_str_int_def str_nat.simps dec_digit_def json_encode_str_def
  json_escape_char_def encode_def sha256_pad_def replicate_num Let_def

lemma words_plain:
  "be_words (sha256_pad (encode (json_dumps True
     (features (extract_capabilities (Some [6, 12, 24, 48]) None (Some ''1234'') None None)
        (Some [''HomeWiFi''])))))
   = [0x7b226865, 0x223a2066, 0x616c7365, 0x2c202268, 0x74223a20, 0x74727565,
      0x2c202268, 0x745f6361, 0x7073223a, 0x20343636, 0x302c2022, 0x70726f62,
      0x655f7373, 0x69647322, 0x3a205b22, 0x486f6d65, 0x57694669, 0x225d2c20,
      0x22726174, 0x6573223a, 0x205b362c, 0x2031322c, 0x2032342c, 0x2034385d,
      0x2c202276, 0x656e646f, 0x725f6f75, 0x6973223a, 0x205b5d2c, 0x20227668,
      0x74223a20, 0x66616c73, 0x652c2022, 0x7668745f, 0x63617073, 0x223a2030,
      0x2c202277, 0x7073223a, 0x2066616c, 0x73657d80, 0x00000000, 0x00000000,
      0x00000000, 0x00000000, 0x00000000, 0x00000000, 0x00000000, 0x000004f8]"
  by (simp add: canonical_eval)

lemma words_wps:
  "be_words (sha256_pad (encode (json_dumps True
     (features (extract_capabilities (Some [6, 12, 24, 48]) None (Some ''1234'') None
                  (Some [wps_ie]))
        (Some [''HomeWiFi''])))))
   = [0x7b226865, 0x223a2066, 0x616c7365, 0x2c202268, 0x74223a20, 0x74727565,
      0x2c202268, 0x745f6361, 0x7073223a, 0x20343636, 0x302c2022, 0x70726f62,
      0x655f7373, 0x69647322, 0x3a205b22, 0x486f6d65, 0x57694669, 0x225d2c20,
      0x22726174, 0x6573223a, 0x205b362c, 0x2031322c, 0x2032342c, 0x2034385d,
      0x2c202276, 0x656e646f, 0x725f6f75, 0x6973223a, 0x205b2230, 0x303a3530,
      0x3a663222, 0x5d2c2022, 0x76687422, 0x3a206661, 0x6c73652c, 0x20227668,
      0x745f6361, 0x7073223a, 0x20302c20, 0x22777073, 0x223a2074, 0x7275657d,
      0x80000000, 0x00000000, 0x00000000, 0x00000000, 0x00000000, 0x00000540]"
  by (simp add: canonical_eval)

text \<open>
  The five applications of the compression function, each evaluated on its own, and the
  two digests.
\<close>

lemma schedule_numeral:
  "schedule (numeral n) ws = schedule (pred_numeral n) (next_word ws # ws)"
  by (simp add: numeral_eq_Suc)

lemma sha_blocks_Nil: "sha_blocks s [] = s"
  by (simp add: sha_blocks.simps)

lemma sha_blocks_Cons:
  "sha_blocks s (w0 # w1 # w2 # w3 # w4 # w5 # w6 # w7 # w8 # w9 # w10 # w11 # w12 # w13
                 # w14 # w15 # ws) =
     sha_blocks (compress s [w0, w1, w2, w3, w4, w5, w6, w7, w8, w9, w10, w11, w12, w13,
                             w14, w15]) ws"
  by (subst sha_blocks.simps) simp

lemmas sha_eval = compress_def K256_def schedule_numeral next_word_def sha_round_def add32_def
  bsig0_def bsig1_def ssig0_def ssig1_def Ch_def Maj_def rotr_def

lemma block_common:
  "compress H256
     [0x7b226865, 0x223a2066, 0x616c7365, 0x2c202268, 0x74223a20, 0x74727565,
      0x2c202268, 0x745f6361, 0x7073223a, 0x20343636, 0x302c2022, 0x70726f62,
      0x655f7373, 0x69647322, 0x3a205b22, 0x486f6d65]
   = (0x294b2681, 0xbe4a54e7, 0x96d9a1f0, 0x3f2d0f93,
     0x8a002357, 0xd117492b, 0x2ded1245, 0x0b065e7e)"
  by (simp add: H256_def sha_eval)

lemma block_plain_2:
  "compress (0x294b2681, 0xbe4a54e7, 0x96d9a1f0, 0x3f2d0f93,
      0x8a002357, 0xd117492b, 0x2ded1245, 0x0b065e7e)
     [0x57694669, 0x225d2c20, 0x22726174, 0x6573223a, 0x205b362c, 0x2031322c,
      0x2032342c, 0x2034385d, 0x2c202276, 0x656e646f, 0x725f6f75, 0x6973223a,
      0x205b5d2c, 0x20227668, 0x74223a20, 0x66616c73]
   = (0x3ae3f2ae, 0x125836a2, 0xfa4bd704, 0x4646d2d3,
     0x26587bf4, 0xbb37fb66, 0x4c8ff1af, 0x63ede43d)"
  by (simp add: H256_def sha_eval)

lemma block_plain_3:
  "compress (0x3ae3f2ae, 0x125836a2, 0xfa4bd704, 0x4646d2d3,
      0x26587bf4, 0xbb37fb66, 0x4c8ff1af, 0x63ede43d)
     [0x652c2022, 0x7668745f, 0x63617073, 0x223a2030, 0x2c202277, 0x7073223a,
      0x2066616c, 0x73657d80, 0x00000000, 0x00000000, 0x00000000, 0x00000000,
      0x00000000, 0x00000000, 0x00000000, 0x000004f8]
   = (0x6a7c26bb, 0x7a336201, 0xb4b3a374, 0x4b267c94,
     0x0be350a6, 0x6238ccff, 0xcb970e94, 0xc7120c59)"
  by (simp add: H256_def sha_eval)

lemma block_wps_2:
  "compress (0x294b2681, 0xbe4a54e7, 0x96d9a1f0, 0x3f2d0f93,
      0x8a002357, 0xd117492b, 0x2ded1245, 0x0b065e7e)
     [0x57694669, 0x225d2c20, 0x22726174, 0x6573223a, 0x205b362c, 0x2031322c,
      0x2032342c, 0x2034385d, 0x2c202276, 0x656e646f, 0x725f6f75, 0x6973223a,
      0x205b2230, 0x303a3530, 0x3a663222, 0x5d2c2022]
   = (0x614d5283, 0x745c7e4e, 0x236e76eb, 0xb1049a6a,
     0xf7e896a3, 0xeafd5e6d, 0xa3d41f00, 0xe5dbe111)"
  by (simp add: H256_def sha_eval)

lemma block_wps_3:
  "compress (0x614d5283, 0x745c7e4e, 0x236e76eb, 0xb1049a6a,
      0xf7e896a3, 0xeafd5e6d, 0xa3d41f00, 0xe5dbe111)
     [0x76687422, 0x3a206661, 0x6c73652c, 0x20227668, 0x745f6361, 0x7073223a,
      0x20302c20, 0x22777073, 0x223a2074, 0x7275657d, 0x80000000, 0x00000000,
      0x00000000, 0x00000000, 0x00000000, 0x00000540]
   = (0xfeb96e59, 0xb1e844b9, 0xbd26c4b0, 0x6e73e8eb,
     0x187d997b, 0xd6d79c06, 0xf6339eb0, 0xda5fd892)"
  by (simp add: H256_def sha_eval)

lemma fingerprint_plain:
  "compute_fingerprint
     (extract_capabilities (Some [6, 12, 24, 48]) None (Some ''1234'') None None)
     (Some [''HomeWiFi''])
   = ''6a7c26bb7a336201b4b3a3744b267c940be350a66238ccffcb970e94c7120c59''"
  by (simp add: compute_fingerprint_def sha256_def words_plain sha_blocks_Cons sha_blocks_Nil
        block_common block_plain_2 block_plain_3 hex_word_def hex_digit_def)

lemma fingerprint_wps:
  "compute_fingerprint
     (extract_capabilities (Some [6, 12, 24, 48]) None (Some ''1234'') None (Some [wps_ie]))
     (Some [''HomeWiFi''])
   = ''feb96e59b1e844b9bd26c4b06e73e8eb187d997bd6d79c06f6339eb0da5fd892''"
  by (simp add: compute_fingerprint_def sha256_def words_wps sha_blocks_Cons sha_blocks_Nil
        block_common block_wps_2 block_wps_3 hex_word_def hex_digit_def)

subsection \<open>The probe of the scenario\<close>
lemma upper_scenario_mac: "upper ''AA:BB:CC:DD:EE:FF'' = ''AA:BB:CC:DD:EE:FF''"
  by (simp add: upper_def upper_char_def)

lemma scenario_probes_fingerprints:
  "fst (scenario_probes vendor_ies) =
     compute_fingerprint
       (extract_capabilities (Some [6, 12, 24, 48]) None (Some ''1234'') None None)
       (Some [''HomeWiFi''])"
  "fst (snd (scenario_probes vendor_ies)) =
     compute_fingerprint
       (extract_capabilities (Some [6, 12, 24, 48]) None (Some ''1234'') None vendor_ies)
       (Some [''HomeWiFi''])"
  by (simp_all add: scenario_probes_def scenario_probe_def fingerprint_from_probe_def
        upper_scenario_mac WiFiFingerprinter_def ProbeProfile_def add_probe_def Let_def)

lemma scenario_probes_wps_enabled:
  "signature_capability (snd (snd (scenario_probes vendor_ies))) ''wps_enabled'' =
     Some (JBool (wc_wps_enabled
       (extract_capabilities (Some [6, 12, 24, 48]) None (Some ''1234'') None vendor_ies)))"
  by (simp add: scenario_probes_def scenario_probe_def signature_wps_enabled Let_def)

text \<open>
  Claim C5, as the code has it. \<open>extract_capabilities\<close> sets \<open>wps_enabled\<close> if and only if
  some vendor element has the \<open>oui\<close> \<open>00:50:f2\<close>, in exactly this lower-case spelling, and
  the \<open>type\<close> \<open>4\<close>; the signature data of a probe that \<open>fingerprint_from_probe\<close> has
  processed carries this value as \<open>wps_enabled\<close>; and the probe of the scenario, processed
  with the vendor element of \<open>oui\<close> \<open>00:50:f2\<close> and \<open>type\<close> \<open>4\<close>, has \<open>wps_enabled\<close> true in
  its signature data and a fingerprint that differs from the one of the same probe
  without the element.
\<close>

theorem wps_enabled_lowercase_oui:
  "(wc_wps_enabled
      (extract_capabilities supported_rates extended_rates ht_capabilities vht_capabilities
         vendor_ies) \<longleftrightarrow>
      (\<exists>ie\<in>set (or_empty vendor_ies).
         ie_get ie ''oui'' = Some ''00:50:f2'' \<and> ie_get ie ''type'' = Some ''4'')) \<and>
   signature_capability
     (get_signature_data mac True
        (snd (fingerprint_from_probe now mac ssid rates ht_capabilities
                vht_capabilities vendor_ies timestamp fp))) ''wps_enabled'' =
     Some (JBool (\<exists>ie\<in>set (or_empty vendor_ies).
                    ie_get ie ''oui'' = Some ''00:50:f2'' \<and> ie_get ie ''type'' = Some ''4'')) \<and>
   fst (snd (scenario_probes (Some [wps_ie]))) \<noteq> fst (scenario_probes (Some [wps_ie])) \<and>
   signature_capability (snd (snd (scenario_probes (Some [wps_ie])))) ''wps_enabled'' =
     Some (JBool True)"
proof (intro conjI)
  show "wc_wps_enabled
      (extract_capabilities supported_rates extended_rates ht_capabilities vht_capabilities
         vendor_ies) \<longleftrightarrow>
      (\<exists>ie\<in>set (or_empty vendor_ies).
         ie_get ie ''oui'' = Some ''00:50:f2'' \<and> ie_get ie ''type'' = Some ''4'')"
    by (rule extract_capabilities_wps)
  show "signature_capability
     (get_signature_data mac True
        (snd (fingerprint_from_probe now mac ssid rates ht_capabilities
                vht_capabilities vendor_ies timestamp fp))) ''wps_enabled'' =
     Some (JBool (\<exists>ie\<in>set (or_empty vendor_ies).
                    ie_get ie ''oui'' = Some ''00:50:f2'' \<and> ie_get ie ''type'' = Some ''4''))"
    by (simp only: signature_wps_enabled extract_capabilities_wps)
  show "fst (snd (scenario_probes (Some [wps_ie]))) \<noteq> fst (scenario_probes (Some [wps_ie]))"
    by (simp add: scenario_probes_fingerprints fingerprint_plain fingerprint_wps)
  show "signature_capability (snd (snd (scenario_probes (Some [wps_ie])))) ''wps_enabled'' =
     Some (JBool True)"
    by (simp add: scenario_probes_wps_enabled extract_capabilities_wps or_empty_def wps_ie_def
          ie_get_def)
qed

theorem wps_enabled_lowercase_oui_witness:
  "wc_wps_enabled (extract_capabilities (Some [6, 12, 24]) None None None (Some [wps_ie])) \<and>
   \<not> wc_wps_enabled
       (extract_capabilities (Some [6, 12, 24]) None None None
          (Some [[(''oui'', ''00:50:f2''), (''type'', ''5'')], [(''oui'', ''00:17:f2'')]])) \<and>
   \<not> wc_wps_enabled (extract_capabilities (Some [6, 12, 24]) None None None None)"
  using
    conjunct1 [OF wps_enabled_lowercase_oui
      [where supported_rates = "Some [6, 12, 24]" and extended_rates = None
         and ht_capabilities = None and vht_capabilities = None
         and vendor_ies = "Some [wps_ie]"]]
    conjunct1 [OF wps_enabled_lowercase_oui
      [where supported_rates = "Some [6, 12, 24]" and extended_rates = None
         and ht_capabilities = None and vht_capabilities = None
         and vendor_ies = "Some [[(''oui'', ''00:50:f2''), (''type'', ''5'')],
                                  [(''oui'', ''00:17:f2'')]]"]]
    conjunct1 [OF wps_enabled_lowercase_oui
      [where supported_rates = "Some [6, 12, 24]" and extended_rates = None
         and ht_capabilities = None and vht_capabilities = None
         and vendor_ies = None]]
  by (simp add: or_empty_def wps_ie_def ie_get_def)

text \<open>
  With the \<open>oui\<close> written \<open>00:50:F2\<close>, as in the scenario of the specification, the
  capabilities and the signature data of the probe have \<open>wps_enabled\<close> false.
\<close>

theorem uppercase_oui_counterexample:
  "\<not> wc_wps_enabled
       (extract_capabilities (Some [6, 12, 24, 48]) None (Some ''1234'') None
          (Some [[(''oui'', ''00:50:F2''), (''type'', ''4'')]])) \<and>
   signature_capability (snd (snd (scenario_probes (Some [wps_ie_upper])))) ''wps_enabled'' =
     Some (JBool False)"
  by (simp add: scenario_probes_wps_enabled extract_capabilities_wps or_empty_def
        wps_ie_upper_def ie_get_def)

end
